theory Spec2Isabelle
  imports Complex_Main "HOL-Library.AList"
begin

section \<open>Python values and errors\<close>

text \<open>
  The script \<^verbatim>\<open>eval.py\<close> computes the PCK metric of an Hourglass keypoint model.
  Python exceptions are values of type \<open>error\<close>; a function that can raise returns
  \<open>error + 'a\<close> with \<open>Inl\<close> for the exception.
\<close>

datatype error =
    ValueError string
  | AssertionError string
  | IndexError
  | ZeroDivisionError
  | KeyError
  | TypeError
  | UnboundLocalError
  | SystemExit

text \<open>Sequencing of two fallible computations: the first exception wins.\<close>

definition bind_result :: "error + 'a \<Rightarrow> ('a \<Rightarrow> error + 'b) \<Rightarrow> error + 'b" where
  "bind_result r f = (case r of Inl e \<Rightarrow> Inl e | Inr v \<Rightarrow> f v)"

section \<open>Floating point numbers\<close>

text \<open>
  Coordinates, thresholds and the normalize value are float64 numbers, among them
  infinities, \<open>nan\<close> and a negative zero. They are the values of a type \<open>'f\<close>, and the
  arithmetic that numpy and Python do on them is a parameter of the model: the float of
  a literal, the difference of two floats, \<open>np.linalg.norm\<close> of a vector, numpy's
  division (which for a zero divisor yields an infinity or \<open>nan\<close> and does not raise)
  and the comparison \<open><\<close> (false whenever an operand is \<open>nan\<close>). None of this
  arithmetic is part of \<^verbatim>\<open>eval.py\<close>.

  The accuracies are quotients of two integer counters; they are real numbers here, and
  where numpy would produce \<open>nan\<close> or an infinity instead the model says so explicitly.
\<close>

record 'f float64 =
  fl_literal :: "real \<Rightarrow> 'f"
  fl_subtract :: "'f \<Rightarrow> 'f \<Rightarrow> 'f"
  fl_norm :: "'f list \<Rightarrow> 'f"
  fl_divide :: "'f \<Rightarrow> 'f \<Rightarrow> 'f"
  fl_less :: "'f \<Rightarrow> 'f \<Rightarrow> bool"

section \<open>Keypoint comparison\<close>

text \<open>
  A keypoint is one row of a numpy array, a list of coordinates \<open>[x, y, ...]\<close>.
  \<open>np_subtract\<close> is numpy's elementwise subtraction of two one-dimensional arrays with
  broadcasting of a length-one operand.
\<close>

definition np_subtract :: "'f float64 \<Rightarrow> 'f list \<Rightarrow> 'f list \<Rightarrow> error + 'f list" where
  "np_subtract fl a b =
     (if length a = length b then Inr (map (\<lambda>(x, y). fl_subtract fl x y) (zip a b))
      else if length b = 1 then Inr (map (\<lambda>x. fl_subtract fl x (b ! 0)) a)
      else if length a = 1 then Inr (map (\<lambda>y. fl_subtract fl (a ! 0) y) b)
      else Inl (ValueError ''operands could not be broadcast together''))"

text \<open>
  \<^verbatim>\<open>check_pred_keypoints\<close> (eval.py, lines 25-38). Reading \<open>gt_keypoint[0]\<close> or
  \<open>gt_keypoint[1]\<close> beyond the row raises IndexError; the \<open>and\<close> is short-circuit, so
  the second coordinate is read only when the first is greater than 1. \<open>x > 1\<close> is the
  comparison \<open>1 < x\<close> of floats. The distance is a numpy float, so that the division by
  \<open>normalize\<close> never raises.
\<close>

definition check_pred_keypoints ::
  "'f float64 \<Rightarrow> 'f list \<Rightarrow> 'f list \<Rightarrow> 'f \<Rightarrow> 'f \<Rightarrow> error + int"
where
  "check_pred_keypoints fl pred_keypoint gt_keypoint threshold normalize' =
     (if length gt_keypoint < 1 then Inl IndexError
      else if fl_less fl (fl_literal fl 1) (gt_keypoint ! 0) then
        (if length gt_keypoint < 2 then Inl IndexError
         else if fl_less fl (fl_literal fl 1) (gt_keypoint ! 1) then
           (case np_subtract fl (take 2 gt_keypoint) (take 2 pred_keypoint) of
              Inl e \<Rightarrow> Inl e
            | Inr d \<Rightarrow>
                (let distance = fl_divide fl (fl_norm fl d) normalize'
                 in if fl_less fl distance threshold then Inr 1 else Inr 0))
         else Inr (- 1))
      else Inr (- 1))"

text \<open>
  \<^verbatim>\<open>keypoint_accuracy\<close> (eval.py, lines 41-50): the assertion on the row counts, then
  the loop over \<open>range(gt_keypoints.shape[0])\<close> appending one result per row.
\<close>

fun keypoint_accuracy_loop ::
  "'f float64 \<Rightarrow> 'f list list \<Rightarrow> 'f list list \<Rightarrow> 'f \<Rightarrow> 'f \<Rightarrow> nat list \<Rightarrow> int list
     \<Rightarrow> error + int list"
where
  "keypoint_accuracy_loop fl pred_keypoints gt_keypoints threshold normalize' [] result_list =
     Inr result_list"
| "keypoint_accuracy_loop fl pred_keypoints gt_keypoints threshold normalize' (i # rest)
       result_list =
     (if length pred_keypoints \<le> i \<or> length gt_keypoints \<le> i then Inl IndexError
      else
        (case check_pred_keypoints fl (pred_keypoints ! i) (gt_keypoints ! i) threshold
                normalize' of
           Inl e \<Rightarrow> Inl e
         | Inr result \<Rightarrow>
             keypoint_accuracy_loop fl pred_keypoints gt_keypoints threshold normalize' rest
               (result_list @ [result])))"

definition keypoint_accuracy ::
  "'f float64 \<Rightarrow> 'f list list \<Rightarrow> 'f list list \<Rightarrow> 'f \<Rightarrow> 'f \<Rightarrow> error + int list"
where
  "keypoint_accuracy fl pred_keypoints gt_keypoints threshold normalize' =
     (if length pred_keypoints \<noteq> length gt_keypoints
      then Inl (AssertionError ''keypoint number mismatch'')
      else keypoint_accuracy_loop fl pred_keypoints gt_keypoints threshold normalize'
             [0..<length gt_keypoints] [])"

section \<open>Arrays and the inference backends\<close>

text \<open>
  A numpy array is its shape and its elements in row-major order. \<open>nd_index0\<close> is
  \<open>a[0]\<close>, the first element along the first axis; \<open>np_reshape\<close> is
  \<open>np.array(flat).reshape(shape)\<close>; \<open>np_transpose_0231\<close> is
  \<open>a.transpose((0,2,3,1))\<close>, which takes a batch in channel-first layout
  \<open>(n, c, h, w)\<close> to channel-last layout \<open>(n, h, w, c)\<close>.
\<close>

record ndarray =
  nd_shape :: "nat list"
  nd_data :: "real list"

definition nd_index0 :: "ndarray \<Rightarrow> error + ndarray" where
  "nd_index0 a =
     (case nd_shape a of
        [] \<Rightarrow> Inl IndexError
      | n # inner \<Rightarrow>
          if n = 0 then Inl IndexError
          else Inr \<lparr>nd_shape = inner, nd_data = take (prod_list inner) (nd_data a)\<rparr>)"

definition np_reshape :: "real list \<Rightarrow> nat list \<Rightarrow> error + ndarray" where
  "np_reshape flat shp =
     (if length flat = prod_list shp then Inr \<lparr>nd_shape = shp, nd_data = flat\<rparr>
      else Inl (ValueError ''cannot reshape array''))"

definition np_transpose_0231 :: "ndarray \<Rightarrow> error + ndarray" where
  "np_transpose_0231 a =
     (if length (nd_shape a) \<noteq> 4 then Inl (ValueError ''axes do not match array'')
      else
        (let n = nd_shape a ! 0; c = nd_shape a ! 1; h = nd_shape a ! 2; w = nd_shape a ! 3
         in Inr \<lparr>nd_shape = [n, h, w, c],
                 nd_data = map (\<lambda>p. nd_data a !
                              (((p div (h * w * c) * c + p mod c) * h + p div (w * c) mod h) * w
                                + p div c mod w))
                             [0..<n * h * w * c]\<rparr>))"

text \<open>Reading one element of a three-dimensional and of a four-dimensional array.\<close>

definition nd_get3 :: "ndarray \<Rightarrow> nat \<Rightarrow> nat \<Rightarrow> nat \<Rightarrow> real" where
  "nd_get3 a i j k = nd_data a ! ((i * (nd_shape a ! 1) + j) * (nd_shape a ! 2) + k)"

definition nd_get4 :: "ndarray \<Rightarrow> nat \<Rightarrow> nat \<Rightarrow> nat \<Rightarrow> nat \<Rightarrow> real" where
  "nd_get4 a b i j k =
     nd_data a ! (((b * (nd_shape a ! 1) + i) * (nd_shape a ! 2) + j) * (nd_shape a ! 3) + k)"

text \<open>
  What the libraries outside the script provide. \<open>model.predict\<close> of Keras returns one
  array or, for a multi-output model, a list of arrays. An MNN tensor has a data type, a
  dimension type, a shape and its elements on the host.
\<close>

datatype keras_prediction = PredictionList "ndarray list" | PredictionArray ndarray

datatype mnn_data_type = Halide_Type_Float | Halide_Type_Int | Halide_Type_Uint8

datatype mnn_dimension_type =
    Tensor_DimensionType_Tensorflow
  | Tensor_DimensionType_Caffe
  | Tensor_DimensionType_Caffe_C4

record mnn_tensor =
  getDataType :: mnn_data_type
  getDimensionType :: mnn_dimension_type
  getShape :: "nat list"
  getData :: "real list"

record 'f metainfo =
  mi_name :: string
  mi_pts :: "'f list list"
  mi_tpts :: "'f list list"
  mi_center :: "'f list"
  mi_scale :: 'f

text \<open>
  One item of the dataset generator, \<open>(image_data, gt_heatmap, metainfo)\<close>, and the
  dataset object: its size and its generator. The generator called with its arguments is
  the sequence of the items it yields, \<open>None\<close> from the position where it is exhausted
  (a generator that yields forever never is).
\<close>

record 'f sample =
  sample_image :: ndarray
  sample_gt_heatmap :: "ndarray list"
  sample_metainfo :: "'f metainfo list"

record 'f dataset =
  get_dataset_size :: nat
  generator :: "nat \<Rightarrow> nat \<Rightarrow> real \<Rightarrow> bool \<Rightarrow> bool \<Rightarrow> nat \<Rightarrow> 'f sample option"

text \<open>
  The functions of TensorFlow/Keras, TFLite, MNN, the repository's \<open>hourglass\<close> and
  \<open>common\<close> packages and Python's \<open>int\<close> that the script calls. They are not part of
  \<^verbatim>\<open>eval.py\<close> and are parameters of the model, as is the float arithmetic; \<open>'m\<close> is
  the type of loaded models, \<open>'s\<close> the type of MNN sessions, \<open>'f\<close> the type of floats.
\<close>

record ('m, 's, 'f) runtime =
  float_arith :: "'f float64"
  keras_load_model :: "string \<Rightarrow> 'm"
  keras_predict :: "'m \<Rightarrow> ndarray \<Rightarrow> keras_prediction"
  tflite_Interpreter :: "string \<Rightarrow> 'm"
  tflite_input_shapes :: "'m \<Rightarrow> nat list list"
  tflite_invoke :: "'m \<Rightarrow> ndarray \<Rightarrow> ndarray list"
  tf_import_graph_def :: "string \<Rightarrow> 'm"
  tf_session_run :: "'m \<Rightarrow> ndarray \<Rightarrow> ndarray"
  mnn_Interpreter :: "string \<Rightarrow> 'm"
  mnn_createSession :: "'m \<Rightarrow> 's"
  mnn_input_shape :: "'m \<Rightarrow> 's \<Rightarrow> nat list"
  mnn_runSession :: "'m \<Rightarrow> 's \<Rightarrow> ndarray \<Rightarrow> mnn_tensor"
  post_process_heatmap :: "ndarray \<Rightarrow> 'f \<Rightarrow> 'f list list"
  invert_transform_kp ::
    "'f list list \<Rightarrow> 'f list \<Rightarrow> 'f \<Rightarrow> nat list \<Rightarrow> int \<Rightarrow> 'f list list"
  get_classes :: "string \<Rightarrow> string list"
  get_skeleton :: "string \<Rightarrow> string list"
  get_normalize :: "int \<times> int \<Rightarrow> 'f"
  hourglass_dataset :: "string \<Rightarrow> string list \<Rightarrow> int \<times> int \<Rightarrow> 'f dataset"
  py_int :: "string \<Rightarrow> error + int"

text \<open>
  \<^verbatim>\<open>hourglass_predict_keras\<close> (lines 203-210): the last element of a list of outputs,
  then batch element 0.
\<close>

definition hourglass_predict_keras :: "('m, 's, 'f) runtime \<Rightarrow> 'm \<Rightarrow> ndarray \<Rightarrow> error + ndarray" where
  "hourglass_predict_keras rt model image_data =
     (case keras_predict rt model image_data of
        PredictionList outputs \<Rightarrow>
          (if outputs = [] then Inl IndexError else nd_index0 (last outputs))
      | PredictionArray prediction \<Rightarrow> nd_index0 prediction)"

text \<open>
  \<^verbatim>\<open>hourglass_predict_tflite\<close> (lines 213-236): height and width are read from
  the shape of the first input, the interpreter is invoked, the tensors of all output
  details are collected in order and batch element 0 of the last one is returned.
\<close>

definition hourglass_predict_tflite :: "('m, 's, 'f) runtime \<Rightarrow> 'm \<Rightarrow> ndarray \<Rightarrow> error + ndarray" where
  "hourglass_predict_tflite rt interpreter image_data =
     (let input_details = tflite_input_shapes rt interpreter
      in if input_details = [] then Inl IndexError
         else if length (input_details ! 0) < 3 then Inl IndexError
         else
           (let prediction = tflite_invoke rt interpreter image_data
            in if prediction = [] then Inl IndexError else nd_index0 (last prediction)))"

text \<open>\<^verbatim>\<open>hourglass_predict_pb\<close> (lines 239-256): batch element 0 of the output tensor.\<close>

definition hourglass_predict_pb :: "('m, 's, 'f) runtime \<Rightarrow> 'm \<Rightarrow> ndarray \<Rightarrow> error + ndarray" where
  "hourglass_predict_pb rt model image_data = nd_index0 (tf_session_run rt model image_data)"

text \<open>
  \<^verbatim>\<open>hourglass_predict_mnn\<close> (lines 259-301). \<open>reduce(mul, shape)\<close> raises TypeError
  on an empty shape; \<open>reshape(elementsize, -1)\<close> raises ValueError when the size is not
  a positive multiple of \<open>elementsize\<close>. After the session ran, the output tensor must
  be of float type (assertion); its host data is reshaped to the output shape, transposed
  to channel-last when the dimension type is Caffe, and refused when it is Caffe_C4.
\<close>

definition hourglass_predict_mnn ::
  "('m, 's, 'f) runtime \<Rightarrow> 'm \<Rightarrow> 's \<Rightarrow> ndarray \<Rightarrow> error + ndarray"
where
  "hourglass_predict_mnn rt interpreter session image_data =
     (let input_shape = mnn_input_shape rt interpreter session
      in if input_shape = [] then Inl TypeError
         else
           (let input_elementsize = prod_list input_shape
            in if input_elementsize = 0 \<or> length (nd_data image_data) mod input_elementsize \<noteq> 0
               then Inl (ValueError ''cannot reshape array'')
               else
                 (let output_tensor = mnn_runSession rt interpreter session image_data;
                      output_shape = getShape output_tensor
                  in if getDataType output_tensor \<noteq> Halide_Type_Float
                     then Inl (AssertionError [])
                     else if output_shape = [] then Inl TypeError
                     else if prod_list output_shape = 0
                     then Inl (ValueError ''cannot reshape array'')
                     else
                       (case np_reshape (getData output_tensor) output_shape of
                          Inl e \<Rightarrow> Inl e
                        | Inr output_data \<Rightarrow>
                            (if getDimensionType output_tensor = Tensor_DimensionType_Caffe
                             then bind_result (np_transpose_0231 output_data) nd_index0
                             else if getDimensionType output_tensor
                                       = Tensor_DimensionType_Caffe_C4
                             then Inl (ValueError ''unsupported output tensor dimension type'')
                             else nd_index0 output_data)))))"

section \<open>Dictionaries, numpy floats and effects\<close>

text \<open>
  A Python dictionary keeps its keys in insertion order and holds each key once: an
  association list in which \<open>AList.update\<close> overwrites the value of a present key in
  place and appends an absent one. \<open>dict_comprehension\<close> is
  \<open>{key: v for key in keys}\<close>, \<open>dict_getitem\<close> is \<open>d[key]\<close>.
\<close>

type_synonym 'v dict = "(string \<times> 'v) list"

definition dict_comprehension :: "string list \<Rightarrow> 'v \<Rightarrow> 'v dict" where
  "dict_comprehension keys v = foldl (\<lambda>d key. AList.update key v d) [] keys"

definition dict_getitem :: "'v dict \<Rightarrow> string \<Rightarrow> error + 'v" where
  "dict_getitem d key = (case map_of d key of None \<Rightarrow> Inl KeyError | Some v \<Rightarrow> Inr v)"

text \<open>
  A numpy float is a real number, \<open>nan\<close> or an infinity. Dividing numpy floats by zero
  does not raise; dividing a Python float by zero does.
\<close>

datatype np_float = NpFloat real | NaN | PosInf | NegInf

definition np_true_divide :: "real \<Rightarrow> real \<Rightarrow> np_float" where
  "np_true_divide x y =
     (if y \<noteq> 0 then NpFloat (x / y)
      else if x = 0 then NaN
      else if x > 0 then PosInf
      else NegInf)"

definition py_float_div :: "real \<Rightarrow> real \<Rightarrow> error + real" where
  "py_float_div x y = (if y = 0 then Inl ZeroDivisionError else Inr (x / y))"

text \<open>
  What the script does to the world outside: directories it makes sure exist, image and
  plot files it writes, and lines it prints. A function with effects returns the events
  it caused together with its result; an exception in \<open>eval_PCK\<close> or \<open>main\<close> carries
  the events that happened before it.
\<close>

datatype event =
    TouchDir string
  | SaveImage string
  | SavePlot string "string list" "real list"
  | ShowPlot
  | PrintLine string
  | PrintAccuracy string real
  | PrintTotal np_float

section \<open>Plot and detection images\<close>

text \<open>
  \<^verbatim>\<open>draw_plot_func\<close> (lines 69-158). The items are sorted by value (Python's sort is
  stable) and unzipped into keys and values, which raises ValueError for an empty
  dictionary. With a \<open>true_p_bar\<close> dictionary every sorted key is looked up in it. The bars
  are drawn against \<open>range(n_classes)\<close>, which must have as many entries as there are
  values. Titles, labels and colours only change the drawing; the plot is saved to
  \<open>output_path\<close> and shown when \<open>to_show\<close> is set.
\<close>

definition draw_plot_func ::
  "real dict \<Rightarrow> nat \<Rightarrow> string \<Rightarrow> bool \<Rightarrow> real dict option \<Rightarrow> event list \<times> (error + unit)"
where
  "draw_plot_func dictionary n_classes output_path to_show true_p_bar =
     (let sorted_dic_by_value = sort_key snd dictionary;
          sorted_keys = map fst sorted_dic_by_value;
          sorted_values = map snd sorted_dic_by_value
      in if sorted_dic_by_value = []
         then ([], Inl (ValueError ''not enough values to unpack''))
         else if (case true_p_bar of
                    None \<Rightarrow> False
                  | Some tp \<Rightarrow> \<not> list_all (\<lambda>key. map_of tp key \<noteq> None) sorted_keys)
         then ([], Inl KeyError)
         else if n_classes \<noteq> length sorted_values
         then ([], Inl (ValueError ''shape mismatch''))
         else (SavePlot output_path sorted_keys sorted_values # (if to_show then [ShowPlot] else []),
               Inr ()))"

text \<open>\<^verbatim>\<open>revert_keypoints\<close> (lines 161-167).\<close>

definition revert_keypoints ::
  "('m, 's, 'f) runtime \<Rightarrow> 'f list list \<Rightarrow> 'f metainfo \<Rightarrow> nat list \<Rightarrow> 'f list list"
where
  "revert_keypoints rt keypoints meta heatmap_size =
     invert_transform_kp rt keypoints (mi_center meta) (mi_scale meta) heatmap_size 0"

text \<open>
  \<^verbatim>\<open>save_keypoints_detection\<close> (lines 170-200). The two loops fill a dictionary from
  class name to \<open>(x, y, confidence)\<close>; \<open>class_names[i]\<close> and the coordinates of a row
  raise IndexError out of range. The rendered image is written below
  \<open>result/detection\<close> under the last component of the image's path.
\<close>

fun keypoints_dict ::
  "'f float64 \<Rightarrow> string list \<Rightarrow> bool \<Rightarrow> nat \<Rightarrow> 'f list list \<Rightarrow> ('f \<times> 'f \<times> 'f) dict
     \<Rightarrow> error + ('f \<times> 'f \<times> 'f) dict"
where
  "keypoints_dict fl class_names with_conf i [] d = Inr d"
| "keypoints_dict fl class_names with_conf i (keypoint # rest) d =
     (if length keypoint < (if with_conf then 3 else 2) then Inl IndexError
      else if length class_names \<le> i then Inl IndexError
      else keypoints_dict fl class_names with_conf (i + 1) rest
             (AList.update (class_names ! i)
                (keypoint ! 0, keypoint ! 1,
                 if with_conf then keypoint ! 2 else fl_literal fl 1) d))"

definition last_path_component :: "string \<Rightarrow> string" where
  "last_path_component path = rev (takeWhile (\<lambda>c. c \<noteq> CHR ''/'') (rev path))"

definition save_keypoints_detection ::
  "'f float64 \<Rightarrow> 'f list list \<Rightarrow> 'f metainfo \<Rightarrow> string list \<Rightarrow> string list option
     \<Rightarrow> event list \<times> (error + unit)"
where
  "save_keypoints_detection fl pred_keypoints meta class_names skeleton_lines =
     (let result_dir = ''result/detection'';
          image_name = mi_name meta;
          gt_keypoints = mi_pts meta
      in case keypoints_dict fl class_names False 0 gt_keypoints [] of
           Inl e \<Rightarrow> ([TouchDir result_dir], Inl e)
         | Inr gt_keypoints_dict \<Rightarrow>
             (case keypoints_dict fl class_names True 0 pred_keypoints [] of
                Inl e \<Rightarrow> ([TouchDir result_dir], Inl e)
              | Inr pred_keypoints_dict \<Rightarrow>
                  ([TouchDir result_dir,
                    SaveImage (result_dir @ ''/'' @ last_path_component image_name)],
                   Inr ())))"

section \<open>The evaluation loop\<close>

text \<open>
  The accumulators of \<^verbatim>\<open>eval_PCK\<close>: the succeed and fail counter of every class,
  and the events so far.
\<close>

record eval_state =
  st_succeed :: "int dict"
  st_fail :: "int dict"
  st_events :: "event list"

text \<open>
  Lines 322-335: the inference call chosen by the model format. The MNN session exists
  only when it was created before the loop.
\<close>

definition eval_PCK_predict ::
  "('m, 's, 'f) runtime \<Rightarrow> 'm \<Rightarrow> string \<Rightarrow> 's option \<Rightarrow> ndarray \<Rightarrow> error + ndarray"
where
  "eval_PCK_predict rt model model_format session image_data =
     (if model_format = ''TFLITE'' then hourglass_predict_tflite rt model image_data
      else if model_format = ''MNN'' then
        (case session of
           None \<Rightarrow> Inl UnboundLocalError
         | Some sess \<Rightarrow> hourglass_predict_mnn rt model sess image_data)
      else if model_format = ''PB'' then hourglass_predict_pb rt model image_data
      else if model_format = ''H5'' then hourglass_predict_keras rt model image_data
      else Inl (ValueError ''invalid model format''))"

text \<open>
  Lines 350-354: the loop over \<open>enumerate(class_names)\<close> that counts one sample's
  results; \<open>i\<close> is the index of the first class name of the list.
\<close>

fun eval_PCK_count ::
  "string list \<Rightarrow> nat \<Rightarrow> int list \<Rightarrow> int dict \<Rightarrow> int dict \<Rightarrow> error + (int dict \<times> int dict)"
where
  "eval_PCK_count [] i result_list succeed_dict fail_dict = Inr (succeed_dict, fail_dict)"
| "eval_PCK_count (class_name # rest) i result_list succeed_dict fail_dict =
     (if length result_list \<le> i then Inl IndexError
      else if result_list ! i = 0 then
        (case dict_getitem fail_dict class_name of
           Inl e \<Rightarrow> Inl e
         | Inr v \<Rightarrow>
             eval_PCK_count rest (i + 1) result_list succeed_dict
               (AList.update class_name (v + 1) fail_dict))
      else if result_list ! i = 1 then
        (case dict_getitem succeed_dict class_name of
           Inl e \<Rightarrow> Inl e
         | Inr v \<Rightarrow>
             eval_PCK_count rest (i + 1) result_list
               (AList.update class_name (v + 1) succeed_dict) fail_dict)
      else eval_PCK_count rest (i + 1) result_list succeed_dict fail_dict)"

text \<open>
  Lines 322-348: inference, decoding of the heatmap into predicted keypoints, and the
  comparison with the transformed ground truth of the sample's first meta record.
\<close>

definition eval_PCK_results ::
  "('m, 's, 'f) runtime \<Rightarrow> 'm \<Rightarrow> string \<Rightarrow> 's option \<Rightarrow> 'f \<Rightarrow> 'f \<Rightarrow> 'f \<Rightarrow> 'f sample
     \<Rightarrow> error + ('f list list \<times> nat list \<times> 'f metainfo \<times> int list)"
where
  "eval_PCK_results rt model model_format session score_threshold normalize' conf_threshold smp =
     (case eval_PCK_predict rt model model_format session (sample_image smp) of
        Inl e \<Rightarrow> Inl e
      | Inr heatmap \<Rightarrow>
          (let heatmap_size = take 2 (nd_shape heatmap);
               pred_keypoints = post_process_heatmap rt heatmap conf_threshold
           in if sample_metainfo smp = [] then Inl IndexError
              else
                (let meta = sample_metainfo smp ! 0;
                     gt_keypoints = mi_tpts meta
                 in case keypoint_accuracy (float_arith rt) pred_keypoints gt_keypoints
                           score_threshold normalize' of
                      Inl e \<Rightarrow> Inl e
                    | Inr result_list \<Rightarrow> Inr (pred_keypoints, heatmap_size, meta, result_list))))"

text \<open>Lines 322-363: the body of the loop for one sample.\<close>

definition eval_PCK_sample ::
  "('m, 's, 'f) runtime \<Rightarrow> 'm \<Rightarrow> string \<Rightarrow> 's option \<Rightarrow> string list \<Rightarrow> 'f \<Rightarrow> 'f \<Rightarrow> 'f
     \<Rightarrow> bool \<Rightarrow> string list option \<Rightarrow> 'f sample \<Rightarrow> eval_state
     \<Rightarrow> (error \<times> event list) + eval_state"
where
  "eval_PCK_sample rt model model_format session class_names score_threshold normalize'
       conf_threshold save_result skeleton_lines smp st =
     (case eval_PCK_results rt model model_format session score_threshold normalize'
             conf_threshold smp of
        Inl e \<Rightarrow> Inl (e, st_events st)
      | Inr (pred_keypoints, heatmap_size, meta, result_list) \<Rightarrow>
          (case eval_PCK_count class_names 0 result_list (st_succeed st) (st_fail st) of
             Inl e \<Rightarrow> Inl (e, st_events st)
           | Inr (succeed_dict, fail_dict) \<Rightarrow>
               (if save_result then
                  (let reverted_pred_keypoints =
                         revert_keypoints rt pred_keypoints meta heatmap_size
                   in case save_keypoints_detection (float_arith rt) reverted_pred_keypoints
                             meta class_names skeleton_lines of
                        (ev, Inl e) \<Rightarrow> Inl (e, st_events st @ ev)
                      | (ev, Inr u) \<Rightarrow>
                          Inr \<lparr>st_succeed = succeed_dict, st_fail = fail_dict,
                               st_events = st_events st @ ev\<rparr>)
                else
                  Inr \<lparr>st_succeed = succeed_dict, st_fail = fail_dict,
                       st_events = st_events st\<rparr>)))"

text \<open>
  Lines 313-321 and 363: the loop over the generator. \<open>k\<close> is the position in the
  generator, \<open>count\<close> the script's counter, increased by the batch size 1 for every item;
  the loop is left when the generator is exhausted or when the counter exceeds the size
  of the dataset, before the body handles the item.
\<close>

function eval_PCK_loop ::
  "('a \<Rightarrow> 'st \<Rightarrow> 'e + 'st) \<Rightarrow> nat \<Rightarrow> (nat \<Rightarrow> 'a option) \<Rightarrow> nat \<Rightarrow> nat \<Rightarrow> 'st \<Rightarrow> 'e + 'st"
where
  "eval_PCK_loop body dataset_size gen k count st =
     (case gen k of
        None \<Rightarrow> Inr st
      | Some smp \<Rightarrow>
          (if count + 1 > dataset_size then Inr st
           else
             (case body smp st of
                Inl e \<Rightarrow> Inl e
              | Inr st' \<Rightarrow> eval_PCK_loop body dataset_size gen (k + 1) (count + 1) st')))"
  by pat_completeness auto
termination
  by (relation "measure (\<lambda>(body, dataset_size, gen, k, count, st). dataset_size - count)") auto

declare eval_PCK_loop.simps [simp del]

text \<open>Lines 366-368: the accuracy of every class, a division of Python floats.\<close>

fun eval_PCK_accuracy ::
  "string list \<Rightarrow> int dict \<Rightarrow> int dict \<Rightarrow> real dict \<Rightarrow> error + real dict"
where
  "eval_PCK_accuracy [] succeed_dict fail_dict accuracy_dict = Inr accuracy_dict"
| "eval_PCK_accuracy (class_name # rest) succeed_dict fail_dict accuracy_dict =
     (case dict_getitem succeed_dict class_name of
        Inl e \<Rightarrow> Inl e
      | Inr s \<Rightarrow>
          (case dict_getitem fail_dict class_name of
             Inl e \<Rightarrow> Inl e
           | Inr f \<Rightarrow>
               (case py_float_div (real_of_int s * 1.0) (real_of_int (s + f)) of
                  Inl e \<Rightarrow> Inl e
                | Inr accuracy \<Rightarrow>
                    eval_PCK_accuracy rest succeed_dict fail_dict
                      (AList.update class_name accuracy accuracy_dict))))"

text \<open>
  Lines 366-386: the accuracies, the total accuracy (a division of numpy numbers) and,
  when results are saved, the plot.
\<close>

definition eval_PCK_finish ::
  "string list \<Rightarrow> bool \<Rightarrow> real dict \<Rightarrow> eval_state
     \<Rightarrow> (error \<times> event list) + (np_float \<times> real dict \<times> event list)"
where
  "eval_PCK_finish class_names save_result accuracy_dict0 st =
     (case eval_PCK_accuracy class_names (st_succeed st) (st_fail st) accuracy_dict0 of
        Inl e \<Rightarrow> Inl (e, st_events st)
      | Inr accuracy_dict \<Rightarrow>
          (let total_succeed = sum_list (map snd (st_succeed st));
               total_fail = sum_list (map snd (st_fail st));
               total_accuracy =
                 np_true_divide (real_of_int total_succeed * 1.0)
                   (real_of_int (total_fail + total_succeed))
           in if save_result then
                (case draw_plot_func accuracy_dict (length accuracy_dict) ''result/PCK.jpg''
                        False None of
                   (ev, Inl e) \<Rightarrow> Inl (e, st_events st @ [TouchDir ''result''] @ ev)
                 | (ev, Inr u) \<Rightarrow>
                     Inr (total_accuracy, accuracy_dict,
                          st_events st @ [TouchDir ''result''] @ ev))
              else Inr (total_accuracy, accuracy_dict, st_events st)))"

text \<open>\<^verbatim>\<open>eval_PCK\<close> (lines 304-386).\<close>

definition eval_PCK ::
  "('m, 's, 'f) runtime \<Rightarrow> 'm \<Rightarrow> string \<Rightarrow> 'f dataset \<Rightarrow> string list \<Rightarrow> 'f \<Rightarrow> 'f \<Rightarrow> 'f
     \<Rightarrow> bool \<Rightarrow> string list option
     \<Rightarrow> (error \<times> event list) + (np_float \<times> real dict \<times> event list)"
where
  "eval_PCK rt model model_format eval_dataset class_names score_threshold normalize'
       conf_threshold save_result skeleton_lines =
     (let session = (if model_format = ''MNN'' then Some (mnn_createSession rt model) else None);
          succeed_dict = dict_comprehension class_names 0;
          fail_dict = dict_comprehension class_names 0;
          accuracy_dict = dict_comprehension class_names 0
      in case eval_PCK_loop
                (eval_PCK_sample rt model model_format session class_names score_threshold
                   normalize' conf_threshold save_result skeleton_lines)
                (get_dataset_size eval_dataset)
                (generator eval_dataset 1 8 1 False True) 0 0
                \<lparr>st_succeed = succeed_dict, st_fail = fail_dict, st_events = []\<rparr> of
           Inl err \<Rightarrow> Inl err
         | Inr st \<Rightarrow> eval_PCK_finish class_names save_result accuracy_dict st)"

section \<open>Loading the model and the command line\<close>

text \<open>Python's \<open>str.endswith\<close> and \<open>str.split\<close> with a one-character separator.\<close>

definition endswith :: "string \<Rightarrow> string \<Rightarrow> bool" where
  "endswith str suffix =
     (length suffix \<le> length str \<and> drop (length str - length suffix) str = suffix)"

fun str_split :: "char \<Rightarrow> string \<Rightarrow> string list" where
  "str_split sep [] = [[]]"
| "str_split sep (c # cs) =
     (if c = sep then [] # str_split sep cs
      else (case str_split sep cs of
              [] \<Rightarrow> [[c]]
            | part # parts \<Rightarrow> (c # part) # parts))"

text \<open>\<^verbatim>\<open>load_graph\<close> (lines 390-406) parses and imports a frozen graph.\<close>

definition load_graph :: "('m, 's, 'f) runtime \<Rightarrow> string \<Rightarrow> 'm" where
  "load_graph rt model_path = tf_import_graph_def rt model_path"

text \<open>
  \<^verbatim>\<open>load_eval_model\<close> (lines 409-436): the extension of the path selects the loader
  and the model format.
\<close>

definition load_eval_model :: "('m, 's, 'f) runtime \<Rightarrow> string \<Rightarrow> error + ('m \<times> string)" where
  "load_eval_model rt model_path =
     (if endswith model_path ''.tflite'' then Inr (tflite_Interpreter rt model_path, ''TFLITE'')
      else if endswith model_path ''.mnn'' then Inr (mnn_Interpreter rt model_path, ''MNN'')
      else if endswith model_path ''.pb'' then Inr (load_graph rt model_path, ''PB'')
      else if endswith model_path ''.h5'' then Inr (keras_load_model rt model_path, ''H5'')
      else Inl (ValueError ''invalid model file''))"

text \<open>
  The options of the argument parser of \<^verbatim>\<open>main\<close> (lines 440-480) as they were given
  on the command line, values already converted to their declared types, and the
  namespace \<open>parse_args\<close> returns: \<open>--model_path\<close> and \<open>--dataset_path\<close> are required
  (the parser exits without them), every other option has a default. The defaults of
  the two thresholds are the floats of the literals \<open>0.5\<close> and \<open>1e-6\<close>.
\<close>

record 'f command_line =
  opt_model_path :: "string option"
  opt_classes_path :: "string option"
  opt_dataset_path :: "string option"
  opt_score_threshold :: "'f option"
  opt_conf_threshold :: "'f option"
  opt_model_image_size :: "string option"
  opt_save_result :: bool
  opt_skeleton_path :: "string option"

record 'f args =
  arg_model_path :: string
  arg_classes_path :: string
  arg_dataset_path :: string
  arg_score_threshold :: 'f
  arg_conf_threshold :: 'f
  arg_model_image_size :: string
  arg_save_result :: bool
  arg_skeleton_path :: "string option"

definition parse_args :: "'f float64 \<Rightarrow> 'f command_line \<Rightarrow> error + 'f args" where
  "parse_args fl cl =
     (case opt_model_path cl of
        None \<Rightarrow> Inl SystemExit
      | Some model_path \<Rightarrow>
          (case opt_dataset_path cl of
             None \<Rightarrow> Inl SystemExit
           | Some dataset_path \<Rightarrow>
               Inr \<lparr>arg_model_path = model_path,
                    arg_classes_path =
                      (case opt_classes_path cl of
                         None \<Rightarrow> ''configs/mpii_classes.txt'' | Some v \<Rightarrow> v),
                    arg_dataset_path = dataset_path,
                    arg_score_threshold =
                      (case opt_score_threshold cl of
                         None \<Rightarrow> fl_literal fl 0.5 | Some v \<Rightarrow> v),
                    arg_conf_threshold =
                      (case opt_conf_threshold cl of
                         None \<Rightarrow> fl_literal fl (1 / 1000000) | Some v \<Rightarrow> v),
                    arg_model_image_size =
                      (case opt_model_image_size cl of None \<Rightarrow> ''256x256'' | Some v \<Rightarrow> v),
                    arg_save_result = opt_save_result cl,
                    arg_skeleton_path = opt_skeleton_path cl\<rparr>))"

text \<open>
  \<^verbatim>\<open>main\<close> (lines 439-503): the result is the sequence of events of the run, or the
  exception that ended it with the events before it.
\<close>

definition main ::
  "('m, 's, 'f) runtime \<Rightarrow> 'f command_line \<Rightarrow> (error \<times> event list) + event list"
where
  "main rt cl =
     (case parse_args (float_arith rt) cl of
        Inl e \<Rightarrow> Inl (e, [])
      | Inr a \<Rightarrow>
          (let skeleton_lines =
                 (case arg_skeleton_path a of
                    None \<Rightarrow> None
                  | Some path \<Rightarrow> if path = [] then None else Some (get_skeleton rt path));
               class_names = get_classes rt (arg_classes_path a);
               parts = str_split CHR ''x'' (arg_model_image_size a)
           in if length parts \<noteq> 2 then Inl (ValueError ''wrong number of values to unpack'', [])
              else
                (case py_int rt (parts ! 0) of
                   Inl e \<Rightarrow> Inl (e, [])
                 | Inr height \<Rightarrow>
                     (case py_int rt (parts ! 1) of
                        Inl e \<Rightarrow> Inl (e, [])
                      | Inr width \<Rightarrow>
                          (let model_image_size = (height, width);
                               normalize' = get_normalize rt model_image_size
                           in case load_eval_model rt (arg_model_path a) of
                                Inl e \<Rightarrow> Inl (e, [])
                              | Inr (model, model_format) \<Rightarrow>
                                  (let eval_dataset =
                                         hourglass_dataset rt (arg_dataset_path a) class_names
                                           model_image_size
                                   in case eval_PCK rt model model_format eval_dataset
                                             class_names (arg_score_threshold a) normalize'
                                             (arg_conf_threshold a) (arg_save_result a)
                                             skeleton_lines of
                                        Inl err \<Rightarrow> Inl err
                                      | Inr (total_accuracy, accuracy_dict, ev) \<Rightarrow>
                                          Inr (ev @ [PrintLine [], PrintLine ''PCK evaluation'']
                                                 @ map (\<lambda>(class_name, accuracy).
                                                          PrintAccuracy class_name accuracy)
                                                     accuracy_dict
                                                 @ [PrintTotal total_accuracy])))))))"

section \<open>Vocabulary of the properties\<close>

text \<open>
  The condition of line 27 under which a ground-truth keypoint is valid; running a loop
  body over a list of samples, stopping at the first exception; and the first \<open>m\<close> items a
  generator yields from position \<open>k\<close> on (fewer when it is exhausted before).
\<close>

definition gt_keypoint_valid :: "'f float64 \<Rightarrow> 'f list \<Rightarrow> bool" where
  "gt_keypoint_valid fl gt_keypoint =
     (1 \<le> length gt_keypoint \<and> fl_less fl (fl_literal fl 1) (gt_keypoint ! 0) \<and>
      2 \<le> length gt_keypoint \<and> fl_less fl (fl_literal fl 1) (gt_keypoint ! 1))"

fun run_samples :: "('a \<Rightarrow> 'st \<Rightarrow> 'e + 'st) \<Rightarrow> 'a list \<Rightarrow> 'st \<Rightarrow> 'e + 'st" where
  "run_samples body [] st = Inr st"
| "run_samples body (smp # rest) st =
     (case body smp st of Inl e \<Rightarrow> Inl e | Inr st' \<Rightarrow> run_samples body rest st')"

fun generated :: "(nat \<Rightarrow> 'a option) \<Rightarrow> nat \<Rightarrow> nat \<Rightarrow> 'a list" where
  "generated gen k 0 = []"
| "generated gen k (Suc m) =
     (case gen k of None \<Rightarrow> [] | Some smp \<Rightarrow> smp # generated gen (Suc k) m)"

section \<open>A small run\<close>

text \<open>
  A dataset of three samples with one class and a runtime whose models return the image
  they are given, so that an image holding \<open>[x, y]\<close> is decoded to the predicted
  keypoint \<open>(x, y)\<close>. They serve as concrete inputs for the properties below. The
  coordinates of the run are small integers, the normalize value is 10 and the score
  threshold \<open>0.5\<close>; on these float64 computes every difference, norm and quotient
  without rounding, so the floats of the run are real numbers with the arithmetic of the
  real numbers. The decoding of this runtime does not use the confidence threshold.
\<close>

definition demo_float :: "real float64" where
  "demo_float =
     \<lparr>fl_literal = (\<lambda>x. x),
      fl_subtract = (\<lambda>x y. x - y),
      fl_norm = (\<lambda>v. sqrt (sum_list (map (\<lambda>x. x * x) v))),
      fl_divide = (\<lambda>x y. x / y),
      fl_less = (\<lambda>x y. x < y)\<rparr>"

definition demo_sample :: "real \<Rightarrow> real \<Rightarrow> real \<Rightarrow> real \<Rightarrow> real sample" where
  "demo_sample x y gx gy =
     \<lparr>sample_image = \<lparr>nd_shape = [1, 1, 1, 2], nd_data = [x, y]\<rparr>,
      sample_gt_heatmap = [],
      sample_metainfo =
        [\<lparr>mi_name = ''images/p.jpg'', mi_pts = [[gx, gy]], mi_tpts = [[gx, gy]],
          mi_center = [0, 0], mi_scale = 1\<rparr>]\<rparr>"

definition demo_dataset :: "real dataset" where
  "demo_dataset =
     \<lparr>get_dataset_size = 3,
      generator = (\<lambda>batch_size num_hgstack sigma is_shuffle with_meta k.
        if k = 0 then Some (demo_sample 2 3 2 3)
        else if k = 1 then Some (demo_sample 27 36 30 40)
        else if k = 2 then Some (demo_sample 5 5 0 0)
        else Some (demo_sample 2 3 2 3))\<rparr>"

definition demo_runtime :: "(string, nat, real) runtime" where
  "demo_runtime =
     \<lparr>float_arith = demo_float,
      keras_load_model = (\<lambda>path. path),
      keras_predict = (\<lambda>model image_data. PredictionArray image_data),
      tflite_Interpreter = (\<lambda>path. path),
      tflite_input_shapes = (\<lambda>model. [[1, 1, 1, 2]]),
      tflite_invoke = (\<lambda>model image_data. [image_data]),
      tf_import_graph_def = (\<lambda>path. path),
      tf_session_run = (\<lambda>model image_data. image_data),
      mnn_Interpreter = (\<lambda>path. path),
      mnn_createSession = (\<lambda>model. 0),
      mnn_input_shape = (\<lambda>model session. [1, 1, 1, 2]),
      mnn_runSession = (\<lambda>model session image_data.
        \<lparr>getDataType = Halide_Type_Float,
         getDimensionType = Tensor_DimensionType_Tensorflow,
         getShape = nd_shape image_data, getData = nd_data image_data\<rparr>),
      post_process_heatmap = (\<lambda>heatmap conf_threshold. [nd_data heatmap @ [1]]),
      invert_transform_kp = (\<lambda>keypoints center scale' heatmap_size rot. keypoints),
      get_classes = (\<lambda>path. [''head'']),
      get_skeleton = (\<lambda>path. []),
      get_normalize = (\<lambda>model_image_size. 10),
      hourglass_dataset = (\<lambda>path class_names input_size. demo_dataset),
      py_int = (\<lambda>str. if str = ''256'' then Inr 256
                      else Inl (ValueError ''invalid literal for int()''))\<rparr>"

text \<open>
  Variants of the small run: a dataset without samples, an MNN output tensor of integer
  type and one in the Caffe_C4 layout, and the command line that names a Keras model and
  a dataset and leaves every other option at its default.
\<close>

definition demo_runtime_empty :: "(string, nat, real) runtime" where
  "demo_runtime_empty =
     demo_runtime\<lparr>hourglass_dataset :=
       (\<lambda>path class_names input_size. demo_dataset\<lparr>get_dataset_size := 0\<rparr>)\<rparr>"

definition demo_runtime_mnn :: "mnn_data_type \<Rightarrow> mnn_dimension_type \<Rightarrow> (string, nat, real) runtime" where
  "demo_runtime_mnn data_type dimension_type =
     demo_runtime\<lparr>mnn_runSession := (\<lambda>model session image_data.
        \<lparr>getDataType = data_type, getDimensionType = dimension_type,
         getShape = [1, 2, 1, 1], getData = nd_data image_data\<rparr>)\<rparr>"

definition demo_command_line :: "real command_line" where
  "demo_command_line =
     \<lparr>opt_model_path = Some ''weights/m.h5'', opt_classes_path = None,
      opt_dataset_path = Some ''data/mpii'', opt_score_threshold = None,
      opt_conf_threshold = None, opt_model_image_size = None, opt_save_result = False,
      opt_skeleton_path = None\<rparr>"

text \<open>A runtime whose Keras and TFLite models have two outputs, the last one the image.\<close>

definition demo_runtime_stages :: "(string, nat, real) runtime" where
  "demo_runtime_stages =
     demo_runtime\<lparr>keras_predict := (\<lambda>model image_data.
         PredictionList [\<lparr>nd_shape = [1, 1, 1, 2], nd_data = [0, 0]\<rparr>, image_data]),
       tflite_invoke := (\<lambda>model image_data.
         [\<lparr>nd_shape = [1, 1, 1, 2], nd_data = [0, 0]\<rparr>, image_data])\<rparr>"

section \<open>Properties of the keypoint comparison\<close>

lemma demo_float_simps:
  "fl_literal demo_float x = x"
  "fl_subtract demo_float x y = x - y"
  "fl_norm demo_float v = sqrt (sum_list (map (\<lambda>x. x * x) v))"
  "fl_divide demo_float x y = x / y"
  "fl_less demo_float x y \<longleftrightarrow> x < y"
  by (simp_all add: demo_float_def)


lemma check_pred_keypoints_range:
  "check_pred_keypoints fl p g t n = Inr r \<Longrightarrow> r = - 1 \<or> r = 0 \<or> r = 1"
  by (auto simp: check_pred_keypoints_def split: if_splits sum.splits)



lemma np_subtract_returns:
  "length a = 2 \<Longrightarrow> length b = 1 \<or> length b = 2 \<Longrightarrow> \<exists>d. np_subtract fl a b = Inr d"
  by (auto simp: np_subtract_def)

lemma check_pred_keypoints_returns:
  "2 \<le> length g \<Longrightarrow> 1 \<le> length p \<Longrightarrow> \<exists>r. check_pred_keypoints fl p g t n = Inr r"
proof -
  assume g: "2 \<le> length g" and p: "1 \<le> length p"
  have lg: "length (take 2 g) = 2" using g by simp
  have "length (take 2 p) = 1 \<or> length (take 2 p) = 2" using p by (auto simp: min_def)
  with lg obtain d where "np_subtract fl (take 2 g) (take 2 p) = Inr d"
    using np_subtract_returns by blast
  moreover have "\<not> length g < 1" "\<not> length g < 2" using g by auto
  ultimately show ?thesis
    by (simp add: check_pred_keypoints_def)
qed

lemma keypoint_accuracy_loop_sound:
  "keypoint_accuracy_loop fl p g t n idx acc = Inr out \<Longrightarrow>
     \<exists>rs. out = acc @ rs \<and> length rs = length idx \<and>
       (\<forall>k<length idx. check_pred_keypoints fl (p ! (idx ! k)) (g ! (idx ! k)) t n = Inr (rs ! k))"
proof (induction idx arbitrary: acc)
  case Nil
  then show ?case by simp
next
  case (Cons i rest)
  from Cons.prems obtain r where
    r: "check_pred_keypoints fl (p ! i) (g ! i) t n = Inr r" and
    rec: "keypoint_accuracy_loop fl p g t n rest (acc @ [r]) = Inr out"
    by (auto split: if_splits sum.splits)
  from Cons.IH [OF rec] obtain rs where
    rs: "out = (acc @ [r]) @ rs" "length rs = length rest"
      "\<forall>k<length rest. check_pred_keypoints fl (p ! (rest ! k)) (g ! (rest ! k)) t n = Inr (rs ! k)"
    by blast
  have "\<forall>k<length (i # rest).
          check_pred_keypoints fl (p ! ((i # rest) ! k)) (g ! ((i # rest) ! k)) t n
            = Inr ((r # rs) ! k)"
    using r rs(3) by (auto simp: nth_Cons split: nat.splits)
  with rs(1,2) show ?case
    by (intro exI [of _ "r # rs"]) simp
qed

lemma keypoint_accuracy_loop_returns:
  "\<forall>i\<in>set idx. i < length p \<and> i < length g \<and> (\<exists>r. check_pred_keypoints fl (p ! i) (g ! i) t n = Inr r)
     \<Longrightarrow> \<exists>out. keypoint_accuracy_loop fl p g t n idx acc = Inr out"
  by (induction idx arbitrary: acc) auto

lemma keypoint_accuracy_sound:
  assumes "keypoint_accuracy fl p g t n = Inr rs"
  shows "length p = length g \<and> length rs = length g \<and>
     (\<forall>i<length g. check_pred_keypoints fl (p ! i) (g ! i) t n = Inr (rs ! i))"
proof -
  from assms have len: "length p = length g"
    and loop: "keypoint_accuracy_loop fl p g t n [0..<length g] [] = Inr rs"
    by (auto simp: keypoint_accuracy_def split: if_splits)
  from keypoint_accuracy_loop_sound [OF loop] show ?thesis
    using len by auto
qed

text \<open>
  C10: \<open>keypoint_accuracy\<close> asserts that both arrays have the same number of rows;
  with equally many rows (each holding at least the x and y coordinates) it returns a list
  with one entry per ground-truth keypoint, each entry -1, 0 or 1 and equal to the result
  of \<open>check_pred_keypoints\<close> on the rows of that index.
\<close>

theorem keypoint_accuracy_contract:
  "(length pred_keypoints \<noteq> length gt_keypoints \<longrightarrow>
      keypoint_accuracy fl pred_keypoints gt_keypoints threshold normalize'
        = Inl (AssertionError ''keypoint number mismatch'')) \<and>
   (length pred_keypoints = length gt_keypoints \<and>
    (\<forall>i<length gt_keypoints. 2 \<le> length (gt_keypoints ! i) \<and> 2 \<le> length (pred_keypoints ! i))
      \<longrightarrow>
      (\<exists>result_list.
         keypoint_accuracy fl pred_keypoints gt_keypoints threshold normalize' = Inr result_list \<and>
         length result_list = length gt_keypoints \<and>
         (\<forall>i<length gt_keypoints.
            result_list ! i \<in> {- 1, 0, 1} \<and>
            check_pred_keypoints fl (pred_keypoints ! i) (gt_keypoints ! i) threshold normalize'
              = Inr (result_list ! i))))"
proof (intro conjI impI)
  assume "length pred_keypoints \<noteq> length gt_keypoints"
  then show "keypoint_accuracy fl pred_keypoints gt_keypoints threshold normalize'
        = Inl (AssertionError ''keypoint number mismatch'')"
    by (simp add: keypoint_accuracy_def)
next
  assume a: "length pred_keypoints = length gt_keypoints \<and>
    (\<forall>i<length gt_keypoints. 2 \<le> length (gt_keypoints ! i) \<and> 2 \<le> length (pred_keypoints ! i))"
  then have "\<forall>i\<in>set [0..<length gt_keypoints]. i < length pred_keypoints \<and> i < length gt_keypoints \<and>
      (\<exists>r. check_pred_keypoints fl (pred_keypoints ! i) (gt_keypoints ! i) threshold normalize' = Inr r)"
    by (auto intro!: check_pred_keypoints_returns)
  from keypoint_accuracy_loop_returns [OF this, of "[]"] obtain rs where
    "keypoint_accuracy_loop fl pred_keypoints gt_keypoints threshold normalize' [0..<length gt_keypoints] [] = Inr rs"
    by blast
  with a have ka: "keypoint_accuracy fl pred_keypoints gt_keypoints threshold normalize' = Inr rs"
    by (simp add: keypoint_accuracy_def)
  from keypoint_accuracy_sound [OF ka] check_pred_keypoints_range
  have "length rs = length gt_keypoints \<and>
         (\<forall>i<length gt_keypoints.
            rs ! i \<in> {- 1, 0, 1} \<and>
            check_pred_keypoints fl (pred_keypoints ! i) (gt_keypoints ! i) threshold normalize'
              = Inr (rs ! i))"
    by fastforce
  with ka show "\<exists>result_list.
         keypoint_accuracy fl pred_keypoints gt_keypoints threshold normalize' = Inr result_list \<and>
         length result_list = length gt_keypoints \<and>
         (\<forall>i<length gt_keypoints.
            result_list ! i \<in> {- 1, 0, 1} \<and>
            check_pred_keypoints fl (pred_keypoints ! i) (gt_keypoints ! i) threshold normalize'
              = Inr (result_list ! i))"
    by blast
qed

lemma sqrt_25: "sqrt 25 = 5"
  using real_sqrt_abs [of 5] by simp

theorem keypoint_accuracy_contract_witness:
  "keypoint_accuracy demo_float [[2, 3, 1]] [[2, 3], [0, 0]] (1 / 2) 10
     = Inl (AssertionError ''keypoint number mismatch'') \<and>
   (\<exists>result_list.
      keypoint_accuracy demo_float [[2, 3, 1], [5, 5, 1], [27, 36, 1]] [[2, 3], [0, 0], [30, 40]] (1 / 2) 10
        = Inr result_list \<and>
      length result_list = 3 \<and>
      result_list ! 0 \<in> {- 1, 0, 1} \<and>
      check_pred_keypoints demo_float [27, 36, 1] [30, 40] (1 / 2) 10 = Inr (result_list ! 2))"
proof -
  have wf: "\<forall>i<length [[2, 3], [0, 0], [30, 40::real]].
              2 \<le> length ([[2, 3], [0, 0], [30, 40::real]] ! i) \<and>
              2 \<le> length ([[2, 3, 1], [5, 5, 1], [27, 36, 1::real]] ! i)"
    by (simp add: All_less_Suc)
  from keypoint_accuracy_contract
         [where fl = demo_float and pred_keypoints = "[[2, 3, 1], [5, 5, 1], [27, 36, 1]]"
            and gt_keypoints = "[[2, 3], [0, 0], [30, 40]]" and threshold = "1 / 2"
            and normalize' = 10] wf
  obtain rs where
    rs: "keypoint_accuracy demo_float [[2, 3, 1], [5, 5, 1], [27, 36, 1]] [[2, 3], [0, 0], [30, 40]] (1 / 2) 10
           = Inr rs"
      "length rs = length [[2, 3], [0, 0], [30, 40::real]]"
      "\<forall>i<length [[2, 3], [0, 0], [30, 40::real]].
         rs ! i \<in> {- 1, 0, 1} \<and>
         check_pred_keypoints demo_float ([[2, 3, 1], [5, 5, 1], [27, 36, 1]] ! i)
           ([[2, 3], [0, 0], [30, 40]] ! i) (1 / 2) 10 = Inr (rs ! i)"
    by auto
  from rs(3) have "rs ! 0 \<in> {- 1, 0, 1}"
    and "check_pred_keypoints demo_float [27, 36, 1] [30, 40] (1 / 2) 10 = Inr (rs ! 2)"
    by (simp_all add: All_less_Suc numeral_2_eq_2)
  moreover have "keypoint_accuracy demo_float [[2, 3, 1]] [[2, 3], [0, 0]] (1 / 2) 10
     = Inl (AssertionError ''keypoint number mismatch'')"
    using keypoint_accuracy_contract
            [where fl = demo_float and pred_keypoints = "[[2, 3, 1]]"
               and gt_keypoints = "[[2, 3], [0, 0]]" and threshold = "1 / 2"
               and normalize' = 10]
    by simp
  ultimately show ?thesis using rs(1,2) by simp
qed

section \<open>Properties of the counters\<close>

lemma map_of_foldl_update:
  "map_of (foldl (\<lambda>d key. AList.update key v d) d0 keys) k =
     (if k \<in> set keys then Some v else map_of d0 k)"
  by (induction keys arbitrary: d0) (auto simp: update_conv')

lemma map_of_dict_comprehension:
  "map_of (dict_comprehension keys v) k = (if k \<in> set keys then Some v else None)"
  by (simp add: dict_comprehension_def map_of_foldl_update)

lemma distinct_foldl_update:
  "distinct (map fst d0) \<Longrightarrow> distinct (map fst (foldl (\<lambda>d key. AList.update key v d) d0 keys))"
  by (induction keys arbitrary: d0) (auto simp: distinct_update)

lemma distinct_dict_comprehension: "distinct (map fst (dict_comprehension keys v))"
  by (simp add: dict_comprehension_def distinct_foldl_update)

lemma keys_foldl_update:
  "fst ` set (foldl (\<lambda>d key. AList.update key v d) d0 keys) = set keys \<union> fst ` set d0"
  by (induction keys arbitrary: d0) (auto simp: dom_update)

lemma keys_dict_comprehension: "fst ` set (dict_comprehension keys v) = set keys"
  by (simp add: dict_comprehension_def keys_foldl_update)

lemma dict_getitem_Inr: "dict_getitem d k = Inr v \<longleftrightarrow> map_of d k = Some v"
  by (simp add: dict_getitem_def split: option.splits)

text \<open>Counting one sample: the effect on each counter.\<close>

lemma eval_PCK_count_length:
  "eval_PCK_count cs i rs s f = Inr r \<Longrightarrow> cs = [] \<or> i + length cs \<le> length rs"
proof (induction cs i rs s f rule: eval_PCK_count.induct)
  case (1 i rs s f)
  then show ?case by simp
next
  case (2 class_name rest i rs s f)
  from "2.prems" have i: "i < length rs" by (auto split: if_splits)
  from "2.prems" i obtain s1 f1 where "eval_PCK_count rest (i + 1) rs s1 f1 = Inr r"
    by (auto split: if_splits sum.splits)
  moreover have "\<And>s1 f1. eval_PCK_count rest (i + 1) rs s1 f1 = Inr r \<Longrightarrow>
      rest = [] \<or> i + 1 + length rest \<le> length rs"
    using "2.IH" "2.prems" i
    by (auto split: if_splits sum.splits)
  ultimately have "rest = [] \<or> i + 1 + length rest \<le> length rs"
    by blast
  then show ?case using i by auto
qed

lemma eval_PCK_count_effect:
  "eval_PCK_count cs i rs s f = Inr (s', f') \<Longrightarrow>
     map_of s' c = map_option (\<lambda>v. v + int (count_list (zip cs (drop i rs)) (c, 1))) (map_of s c) \<and>
     map_of f' c = map_option (\<lambda>v. v + int (count_list (zip cs (drop i rs)) (c, 0))) (map_of f c)"
proof (induction cs i rs s f rule: eval_PCK_count.induct)
  case (1 i rs s f)
  then show ?case by (simp add: option.map_ident)
next
  case (2 class_name rest i rs s f)
  from "2.prems" have i: "i < length rs" by (auto split: if_splits)
  then have dr: "drop i rs = rs ! i # drop (Suc i) rs"
    by (simp add: Cons_nth_drop_Suc)
  show ?case
  proof (cases "rs ! i = 0")
    case True
    with "2.prems" i obtain v where v: "map_of f class_name = Some v"
      and rec: "eval_PCK_count rest (i + 1) rs s (AList.update class_name (v + 1) f) = Inr (s', f')"
      by (auto split: sum.splits simp: dict_getitem_Inr)
    from "2.IH"(1) [OF _ True _ rec] i v
    have "map_of s' c = map_option (\<lambda>v. v + int (count_list (zip rest (drop (i + 1) rs)) (c, 1))) (map_of s c)"
      and "map_of f' c = map_option (\<lambda>v. v + int (count_list (zip rest (drop (i + 1) rs)) (c, 0)))
             (map_of (AList.update class_name (v + 1) f) c)"
      by (auto simp: dict_getitem_def)
    then show ?thesis
      using True v by (cases "map_of f c") (auto simp: dr update_conv')
  next
    case False
    note nz = False
    show ?thesis
    proof (cases "rs ! i = 1")
      case True
      with "2.prems" i nz obtain v where v: "map_of s class_name = Some v"
        and rec: "eval_PCK_count rest (i + 1) rs (AList.update class_name (v + 1) s) f = Inr (s', f')"
        by (auto split: sum.splits simp: dict_getitem_Inr)
      from "2.IH"(2) [OF _ nz True _ rec] i v
      have "map_of s' c = map_option (\<lambda>v. v + int (count_list (zip rest (drop (i + 1) rs)) (c, 1)))
               (map_of (AList.update class_name (v + 1) s) c)"
        and "map_of f' c = map_option (\<lambda>v. v + int (count_list (zip rest (drop (i + 1) rs)) (c, 0))) (map_of f c)"
        by (auto simp: dict_getitem_def)
      then show ?thesis
        using True v by (cases "map_of s c") (auto simp: dr update_conv')
    next
      case False
      with "2.prems" i nz have rec: "eval_PCK_count rest (i + 1) rs s f = Inr (s', f')"
        by auto
      from "2.IH"(3) [OF _ nz False rec] i
      show ?thesis using nz False by (auto simp: dr)
    qed
  qed
qed

lemma eval_PCK_loop_run_samples:
  "eval_PCK_loop body n gen k count st = run_samples body (generated gen k (n - count)) st"
proof (induction body n gen k count st rule: eval_PCK_loop.induct)
  case (1 body n gen k count st)
  show ?case
  proof (cases "gen k")
    case None
    then show ?thesis
      by (cases "n - count") (simp_all add: eval_PCK_loop.simps [of body n gen k count st])
  next
    case (Some smp)
    show ?thesis
    proof (cases "count + 1 > n")
      case True
      then have "n - count = 0" by simp
      with Some True show ?thesis
        by (simp add: eval_PCK_loop.simps [of body n gen k count st])
    next
      case False
      then obtain m where m: "n - count = Suc m" "n - (count + 1) = m"
        by (cases "n - count") auto
      show ?thesis
      proof (cases "body smp st")
        case (Inl e)
        with Some False m show ?thesis
          by (simp add: eval_PCK_loop.simps [of body n gen k count st])
      next
        case (Inr st')
        from "1.IH" [OF Some False Inr] m Some False Inr show ?thesis
          by (simp add: eval_PCK_loop.simps [of body n gen k count st])
      qed
    qed
  qed
qed

lemma generated_all:
  "\<forall>j<m. gen (k + j) \<noteq> None \<Longrightarrow> generated gen k m = map (\<lambda>j. the (gen j)) [k..<k + m]"
proof (induction m arbitrary: k)
  case 0
  then show ?case by simp
next
  case (Suc m)
  from Suc.prems have "gen k \<noteq> None" by (metis add.right_neutral zero_less_Suc)
  then obtain smp where smp: "gen k = Some smp" by auto
  from Suc.prems have "\<forall>j<m. gen (Suc k + j) \<noteq> None"
    by (metis Suc_less_eq add_Suc_right add_Suc)
  from Suc.IH [OF this] smp show ?case
    by (simp add: upt_rec [of k])
qed

lemma count_zip_distinct:
  "distinct cs \<Longrightarrow> i < length cs \<Longrightarrow> length cs \<le> length rs \<Longrightarrow>
     count_list (zip cs rs) (cs ! i, v) = (if rs ! i = v then 1 else 0)"
proof (induction cs arbitrary: rs i)
  case Nil
  then show ?case by simp
next
  case (Cons c cs)
  then obtain r rs' where rs: "rs = r # rs'" by (cases rs) auto
  show ?case
  proof (cases i)
    case 0
    from Cons.prems(1) have "(c, v) \<notin> set (zip cs rs')"
      by (auto dest: set_zip_leftD)
    then have "count_list (zip cs rs') (c, v) = 0"
      by (simp add: count_list_0_iff)
    with 0 rs show ?thesis by simp
  next
    case (Suc j)
    with Cons.prems have "cs ! j \<noteq> c" by auto
    with Cons.IH [of j rs'] Cons.prems Suc rs show ?thesis by auto
  qed
qed

lemma eval_PCK_results_sound:
  "eval_PCK_results rt model fmt sess thr nrm conf smp = Inr (pk, hs, meta, rl) \<Longrightarrow>
     sample_metainfo smp \<noteq> [] \<and> meta = sample_metainfo smp ! 0 \<and>
     keypoint_accuracy (float_arith rt) pk (mi_tpts meta) thr nrm = Inr rl"
  by (auto simp: eval_PCK_results_def Let_def split: sum.splits if_splits)

lemma check_pred_keypoints_valid_iff:
  "check_pred_keypoints fl p g t n = Inr r \<Longrightarrow> (r = 0 \<or> r = 1) = gt_keypoint_valid fl g"
  by (auto simp: check_pred_keypoints_def gt_keypoint_valid_def split: if_splits sum.splits)

lemma eval_PCK_sample_count:
  "eval_PCK_sample rt model fmt sess cn thr nrm conf save skel smp st = Inr st' \<Longrightarrow>
     \<exists>pk hs meta rl.
       eval_PCK_results rt model fmt sess thr nrm conf smp = Inr (pk, hs, meta, rl) \<and>
       eval_PCK_count cn 0 rl (st_succeed st) (st_fail st) = Inr (st_succeed st', st_fail st')"
  by (auto simp: eval_PCK_sample_def Let_def split: sum.splits if_splits prod.splits)

lemma eval_PCK_count_distinct:
  assumes "eval_PCK_count cn 0 rl s f = Inr (s', f')" and "distinct cn" and "i < length cn"
  shows "i < length rl \<and>
     map_of s' (cn ! i) = map_option (\<lambda>v. v + (if rl ! i = 1 then 1 else 0)) (map_of s (cn ! i)) \<and>
     map_of f' (cn ! i) = map_option (\<lambda>v. v + (if rl ! i = 0 then 1 else 0)) (map_of f (cn ! i))"
proof -
  from assms(3) have "cn \<noteq> []" by auto
  with eval_PCK_count_length [OF assms(1)] have len: "length cn \<le> length rl" by simp
  have c1: "count_list (zip cn rl) (cn ! i, 1) = (if rl ! i = 1 then 1 else 0)"
    and c0: "count_list (zip cn rl) (cn ! i, 0) = (if rl ! i = 0 then 1 else 0)"
    using count_zip_distinct [OF assms(2,3) len] by simp_all
  from eval_PCK_count_effect [OF assms(1), of "cn ! i"] c1 c0 len assms(3)
  show ?thesis
    by (auto intro!: map_option_cong)
qed

lemma eval_PCK_sample_step:
  assumes smp: "eval_PCK_sample rt model fmt sess cn thr nrm conf save skel smp st = Inr st'"
    and d: "distinct cn" and i: "i < length cn"
    and a: "map_of (st_succeed st) (cn ! i) = Some a"
    and b: "map_of (st_fail st) (cn ! i) = Some b"
  shows "\<exists>pk hs meta rl.
     eval_PCK_results rt model fmt sess thr nrm conf smp = Inr (pk, hs, meta, rl) \<and>
     i < length rl \<and> (rl ! i = - 1 \<or> rl ! i = 0 \<or> rl ! i = 1) \<and>
     ((rl ! i = 0 \<or> rl ! i = 1) = gt_keypoint_valid (float_arith rt) (mi_tpts (sample_metainfo smp ! 0) ! i)) \<and>
     map_of (st_succeed st') (cn ! i) = Some (a + (if rl ! i = 1 then 1 else 0)) \<and>
     map_of (st_fail st') (cn ! i) = Some (b + (if rl ! i = 0 then 1 else 0))"
proof -
  from eval_PCK_sample_count [OF smp] obtain pk hs meta rl where
    res: "eval_PCK_results rt model fmt sess thr nrm conf smp = Inr (pk, hs, meta, rl)" and
    cnt: "eval_PCK_count cn 0 rl (st_succeed st) (st_fail st) = Inr (st_succeed st', st_fail st')"
    by blast
  from eval_PCK_count_distinct [OF cnt d i] a b have
    il: "i < length rl" and
    s': "map_of (st_succeed st') (cn ! i) = Some (a + (if rl ! i = 1 then 1 else 0))" and
    f': "map_of (st_fail st') (cn ! i) = Some (b + (if rl ! i = 0 then 1 else 0))"
    by simp_all
  from eval_PCK_results_sound [OF res] have
    meta: "meta = sample_metainfo smp ! 0" and
    ka: "keypoint_accuracy (float_arith rt) pk (mi_tpts meta) thr nrm = Inr rl"
    by blast+
  from keypoint_accuracy_sound [OF ka] il have
    chk: "check_pred_keypoints (float_arith rt) (pk ! i) (mi_tpts meta ! i) thr nrm = Inr (rl ! i)"
    by simp
  from check_pred_keypoints_range [OF chk] check_pred_keypoints_valid_iff [OF chk] meta
  have "rl ! i = - 1 \<or> rl ! i = 0 \<or> rl ! i = 1"
    and "(rl ! i = 0 \<or> rl ! i = 1) = gt_keypoint_valid (float_arith rt) (mi_tpts (sample_metainfo smp ! 0) ! i)"
    by simp_all
  with res il s' f' show ?thesis by blast
qed

lemma run_samples_counters:
  assumes d: "distinct cn" and i: "i < length cn"
  shows "run_samples (eval_PCK_sample rt model fmt sess cn thr nrm conf save skel) smps st = Inr st'
     \<Longrightarrow> map_of (st_succeed st) (cn ! i) = Some a
     \<Longrightarrow> map_of (st_fail st) (cn ! i) = Some b
     \<Longrightarrow> \<exists>a' b'. map_of (st_succeed st') (cn ! i) = Some a' \<and>
           map_of (st_fail st') (cn ! i) = Some b' \<and>
           a' + b' = a + b + int (length (filter
             (\<lambda>smp. gt_keypoint_valid (float_arith rt) (mi_tpts (sample_metainfo smp ! 0) ! i)) smps))"
proof (induction smps arbitrary: st a b)
  case Nil
  then show ?case by simp
next
  case (Cons smp rest)
  from Cons.prems(1) obtain st1 where
    one: "eval_PCK_sample rt model fmt sess cn thr nrm conf save skel smp st = Inr st1" and
    more: "run_samples (eval_PCK_sample rt model fmt sess cn thr nrm conf save skel) rest st1
             = Inr st'"
    by (auto split: sum.splits)
  from eval_PCK_sample_step [OF one d i Cons.prems(2,3)] obtain pk hs meta rl where
    all: "eval_PCK_results rt model fmt sess thr nrm conf smp = Inr (pk, hs, meta, rl) \<and>
     i < length rl \<and> (rl ! i = - 1 \<or> rl ! i = 0 \<or> rl ! i = 1) \<and>
     ((rl ! i = 0 \<or> rl ! i = 1) = gt_keypoint_valid (float_arith rt) (mi_tpts (sample_metainfo smp ! 0) ! i)) \<and>
     map_of (st_succeed st1) (cn ! i) = Some (a + (if rl ! i = 1 then 1 else 0)) \<and>
     map_of (st_fail st1) (cn ! i) = Some (b + (if rl ! i = 0 then 1 else 0))"
    by (elim exE)
  then have
    v: "(rl ! i = 0 \<or> rl ! i = 1) = gt_keypoint_valid (float_arith rt) (mi_tpts (sample_metainfo smp ! 0) ! i)" and
    s1: "map_of (st_succeed st1) (cn ! i) = Some (a + (if rl ! i = 1 then 1 else 0))" and
    f1: "map_of (st_fail st1) (cn ! i) = Some (b + (if rl ! i = 0 then 1 else 0))"
    by blast+
  from Cons.IH [OF more s1 f1] obtain a' b' where
    "map_of (st_succeed st') (cn ! i) = Some a'" "map_of (st_fail st') (cn ! i) = Some b'"
    "a' + b' = a + (if rl ! i = 1 then 1 else 0) + (b + (if rl ! i = 0 then 1 else 0)) +
       int (length (filter (\<lambda>smp. gt_keypoint_valid (float_arith rt) (mi_tpts (sample_metainfo smp ! 0) ! i)) rest))"
    by blast
  with v show ?case by (auto split: if_splits)
qed

text \<open>
  C5: the succeed and fail counters of every class start at 0; one sample adds one to
  the succeed counter of a class whose result is 1, one to its fail counter when the
  result is 0 and nothing to either when the result is -1 (the ground truth is invalid);
  hence after the loop succeed plus fail of a class is the number of processed samples
  whose ground-truth keypoint of that class is valid. Class names are pairwise distinct.
\<close>

theorem eval_PCK_counters:
  "map_of (dict_comprehension class_names (0::int)) c
     = (if c \<in> set class_names then Some 0 else None) \<and>
   (distinct class_names \<and> i < length class_names \<and>
    eval_PCK_sample rt model model_format session class_names score_threshold normalize'
      conf_threshold save_result skeleton_lines smp st = Inr st' \<and>
    map_of (st_succeed st) (class_names ! i) = Some a \<and>
    map_of (st_fail st) (class_names ! i) = Some b \<longrightarrow>
    (\<exists>pred_keypoints heatmap_size meta result_list.
       eval_PCK_results rt model model_format session score_threshold normalize'
         conf_threshold smp = Inr (pred_keypoints, heatmap_size, meta, result_list) \<and>
       i < length result_list \<and>
       (result_list ! i = - 1 \<or> result_list ! i = 0 \<or> result_list ! i = 1) \<and>
       ((result_list ! i = 0 \<or> result_list ! i = 1)
          = gt_keypoint_valid (float_arith rt) (mi_tpts (sample_metainfo smp ! 0) ! i)) \<and>
       map_of (st_succeed st') (class_names ! i)
         = Some (a + (if result_list ! i = 1 then 1 else 0)) \<and>
       map_of (st_fail st') (class_names ! i)
         = Some (b + (if result_list ! i = 0 then 1 else 0)))) \<and>
   (distinct class_names \<and> i < length class_names \<and>
    eval_PCK_loop
      (eval_PCK_sample rt model model_format session class_names score_threshold normalize'
         conf_threshold save_result skeleton_lines)
      dataset_size gen 0 0
      \<lparr>st_succeed = dict_comprehension class_names 0,
       st_fail = dict_comprehension class_names 0, st_events = []\<rparr> = Inr st_end \<longrightarrow>
    (\<exists>s f. map_of (st_succeed st_end) (class_names ! i) = Some s \<and>
           map_of (st_fail st_end) (class_names ! i) = Some f \<and>
           s + f = int (length (filter
             (\<lambda>smp. gt_keypoint_valid (float_arith rt) (mi_tpts (sample_metainfo smp ! 0) ! i))
             (generated gen 0 dataset_size)))))"
proof (intro conjI impI)
  show "map_of (dict_comprehension class_names (0::int)) c
     = (if c \<in> set class_names then Some 0 else None)"
    by (rule map_of_dict_comprehension)
next
  assume h: "distinct class_names \<and> i < length class_names \<and>
    eval_PCK_sample rt model model_format session class_names score_threshold normalize'
      conf_threshold save_result skeleton_lines smp st = Inr st' \<and>
    map_of (st_succeed st) (class_names ! i) = Some a \<and>
    map_of (st_fail st) (class_names ! i) = Some b"
  then have h1: "distinct class_names" and h2: "i < length class_names"
    and h3: "eval_PCK_sample rt model model_format session class_names score_threshold normalize'
      conf_threshold save_result skeleton_lines smp st = Inr st'"
    and h4: "map_of (st_succeed st) (class_names ! i) = Some a"
    and h5: "map_of (st_fail st) (class_names ! i) = Some b"
    by simp_all
  show "\<exists>pred_keypoints heatmap_size meta result_list.
       eval_PCK_results rt model model_format session score_threshold normalize'
         conf_threshold smp = Inr (pred_keypoints, heatmap_size, meta, result_list) \<and>
       i < length result_list \<and>
       (result_list ! i = - 1 \<or> result_list ! i = 0 \<or> result_list ! i = 1) \<and>
       ((result_list ! i = 0 \<or> result_list ! i = 1)
          = gt_keypoint_valid (float_arith rt) (mi_tpts (sample_metainfo smp ! 0) ! i)) \<and>
       map_of (st_succeed st') (class_names ! i)
         = Some (a + (if result_list ! i = 1 then 1 else 0)) \<and>
       map_of (st_fail st') (class_names ! i)
         = Some (b + (if result_list ! i = 0 then 1 else 0))"
    by (rule eval_PCK_sample_step [OF h3 h1 h2 h4 h5])
next
  assume h: "distinct class_names \<and> i < length class_names \<and>
    eval_PCK_loop
      (eval_PCK_sample rt model model_format session class_names score_threshold normalize'
         conf_threshold save_result skeleton_lines)
      dataset_size gen 0 0
      \<lparr>st_succeed = dict_comprehension class_names 0,
       st_fail = dict_comprehension class_names 0, st_events = []\<rparr> = Inr st_end"
  then have d: "distinct class_names" and i: "i < length class_names" by simp_all
  from h have run: "run_samples
      (eval_PCK_sample rt model model_format session class_names score_threshold normalize'
         conf_threshold save_result skeleton_lines)
      (generated gen 0 dataset_size)
      \<lparr>st_succeed = dict_comprehension class_names 0,
       st_fail = dict_comprehension class_names 0, st_events = []\<rparr> = Inr st_end"
    by (simp only: eval_PCK_loop_run_samples diff_zero)
  have z: "map_of (dict_comprehension class_names (0::int)) (class_names ! i) = Some 0"
    using i by (simp add: map_of_dict_comprehension)
  from run_samples_counters [OF d i run] z
  show "\<exists>s f. map_of (st_succeed st_end) (class_names ! i) = Some s \<and>
           map_of (st_fail st_end) (class_names ! i) = Some f \<and>
           s + f = int (length (filter
             (\<lambda>smp. gt_keypoint_valid (float_arith rt) (mi_tpts (sample_metainfo smp ! 0) ! i))
             (generated gen 0 dataset_size)))"
    by simp
qed

lemma demo_float_arith:
  "float_arith demo_runtime = demo_float"
  "float_arith demo_runtime_empty = demo_float"
  "float_arith (demo_runtime_mnn data_type dimension_type) = demo_float"
  "float_arith demo_runtime_stages = demo_float"
  by (simp_all add: demo_runtime_def demo_runtime_empty_def demo_runtime_mnn_def
      demo_runtime_stages_def)

lemma demo_results_0:
  "eval_PCK_results demo_runtime m ''H5'' None (1 / 2) 10 c (demo_sample 2 3 2 3)
     = Inr ([[2, 3, 1]], [1, 1], sample_metainfo (demo_sample 2 3 2 3) ! 0, [1])"
  by (simp add: eval_PCK_results_def eval_PCK_predict_def hourglass_predict_keras_def
      demo_runtime_def demo_sample_def nd_index0_def keypoint_accuracy_def
      check_pred_keypoints_def np_subtract_def demo_float_simps Let_def)

lemma demo_results_1:
  "eval_PCK_results demo_runtime m ''H5'' None (1 / 2) 10 c (demo_sample 27 36 30 40)
     = Inr ([[27, 36, 1]], [1, 1], sample_metainfo (demo_sample 27 36 30 40) ! 0, [0])"
  by (simp add: eval_PCK_results_def eval_PCK_predict_def hourglass_predict_keras_def
      demo_runtime_def demo_sample_def nd_index0_def keypoint_accuracy_def
      check_pred_keypoints_def np_subtract_def demo_float_simps sqrt_25 Let_def)

lemma demo_results_2:
  "eval_PCK_results demo_runtime m ''H5'' None (1 / 2) 10 c (demo_sample 5 5 0 0)
     = Inr ([[5, 5, 1]], [1, 1], sample_metainfo (demo_sample 5 5 0 0) ! 0, [- 1])"
  by (simp add: eval_PCK_results_def eval_PCK_predict_def hourglass_predict_keras_def
      demo_runtime_def demo_sample_def nd_index0_def keypoint_accuracy_def
      check_pred_keypoints_def np_subtract_def demo_float_simps Let_def)

lemma demo_sample_0:
  "eval_PCK_sample demo_runtime m ''H5'' None [''head''] (1 / 2) 10 c False None
     (demo_sample 2 3 2 3) \<lparr>st_succeed = [(''head'', s)], st_fail = [(''head'', f)], st_events = ev\<rparr>
   = Inr \<lparr>st_succeed = [(''head'', s + 1)], st_fail = [(''head'', f)], st_events = ev\<rparr>"
  by (simp add: eval_PCK_sample_def demo_results_0 dict_getitem_def)

lemma demo_sample_1:
  "eval_PCK_sample demo_runtime m ''H5'' None [''head''] (1 / 2) 10 c False None
     (demo_sample 27 36 30 40) \<lparr>st_succeed = [(''head'', s)], st_fail = [(''head'', f)], st_events = ev\<rparr>
   = Inr \<lparr>st_succeed = [(''head'', s)], st_fail = [(''head'', f + 1)], st_events = ev\<rparr>"
  by (simp add: eval_PCK_sample_def demo_results_1 dict_getitem_def)

lemma demo_sample_2:
  "eval_PCK_sample demo_runtime m ''H5'' None [''head''] (1 / 2) 10 c False None
     (demo_sample 5 5 0 0) \<lparr>st_succeed = [(''head'', s)], st_fail = [(''head'', f)], st_events = ev\<rparr>
   = Inr \<lparr>st_succeed = [(''head'', s)], st_fail = [(''head'', f)], st_events = ev\<rparr>"
  by (simp add: eval_PCK_sample_def demo_results_2 dict_getitem_def)

lemma demo_loop:
  "eval_PCK_loop
     (eval_PCK_sample demo_runtime m ''H5'' None [''head''] (1 / 2) 10 c False None)
     (get_dataset_size demo_dataset) (generator demo_dataset 1 8 1 False True) 0 0
     \<lparr>st_succeed = dict_comprehension [''head''] 0,
      st_fail = dict_comprehension [''head''] 0, st_events = []\<rparr>
   = Inr \<lparr>st_succeed = [(''head'', 1)], st_fail = [(''head'', 1)], st_events = []\<rparr>"
  by (simp add: eval_PCK_loop.simps demo_dataset_def dict_comprehension_def
      demo_sample_0 demo_sample_1 demo_sample_2)

theorem eval_PCK_counters_witness:
  "map_of (dict_comprehension [''head''] (0::int)) ''head''
     = (if ''head'' \<in> set [''head''] then Some 0 else None) \<and>
   (\<exists>pred_keypoints heatmap_size meta result_list.
       eval_PCK_results demo_runtime ''m.h5'' ''H5'' None (1 / 2) 10 (1 / 1000000)
         (demo_sample 2 3 2 3) = Inr (pred_keypoints, heatmap_size, meta, result_list) \<and>
       0 < length result_list \<and>
       (result_list ! 0 = - 1 \<or> result_list ! 0 = 0 \<or> result_list ! 0 = 1) \<and>
       ((result_list ! 0 = 0 \<or> result_list ! 0 = 1)
          = gt_keypoint_valid (float_arith demo_runtime) (mi_tpts (sample_metainfo (demo_sample 2 3 2 3) ! 0) ! 0)) \<and>
       map_of (st_succeed \<lparr>st_succeed = [(''head'', 0 + 1)], st_fail = [(''head'', 0)],
                           st_events = []\<rparr>) ([''head''] ! 0)
         = Some (0 + (if result_list ! 0 = 1 then 1 else 0)) \<and>
       map_of (st_fail \<lparr>st_succeed = [(''head'', 0 + 1)], st_fail = [(''head'', 0)],
                        st_events = []\<rparr>) ([''head''] ! 0)
         = Some (0 + (if result_list ! 0 = 0 then 1 else 0))) \<and>
   (\<exists>s f. map_of (st_succeed \<lparr>st_succeed = [(''head'', 1)], st_fail = [(''head'', 1)],
                               st_events = []\<rparr>) ([''head''] ! 0) = Some s \<and>
          map_of (st_fail \<lparr>st_succeed = [(''head'', 1)], st_fail = [(''head'', 1)],
                            st_events = []\<rparr>) ([''head''] ! 0) = Some f \<and>
          s + f = int (length (filter
            (\<lambda>smp. gt_keypoint_valid (float_arith demo_runtime) (mi_tpts (sample_metainfo smp ! 0) ! 0))
            (generated (generator demo_dataset 1 8 1 False True) 0
               (get_dataset_size demo_dataset)))))"
proof -
  note T = eval_PCK_counters [where class_names = "[''head'']" and c = "''head''" and i = 0
      and rt = demo_runtime and model = "''m.h5''" and model_format = "''H5''"
      and session = None and score_threshold = "1 / 2" and normalize' = 10
      and conf_threshold = "1 / 1000000" and save_result = False and skeleton_lines = None
      and smp = "demo_sample 2 3 2 3"
      and st = "\<lparr>st_succeed = [(''head'', 0)], st_fail = [(''head'', 0)], st_events = []\<rparr>"
      and st' = "\<lparr>st_succeed = [(''head'', 0 + 1)], st_fail = [(''head'', 0)], st_events = []\<rparr>"
      and a = 0 and b = 0
      and dataset_size = "get_dataset_size demo_dataset"
      and gen = "generator demo_dataset 1 8 1 False True"
      and st_end = "\<lparr>st_succeed = [(''head'', 1)], st_fail = [(''head'', 1)], st_events = []\<rparr>"]
  have h2: "distinct [''head''] \<and> 0 < length [''head''] \<and>
    eval_PCK_sample demo_runtime ''m.h5'' ''H5'' None [''head''] (1 / 2) 10 (1 / 1000000)
      False None (demo_sample 2 3 2 3)
      \<lparr>st_succeed = [(''head'', 0)], st_fail = [(''head'', 0)], st_events = []\<rparr>
      = Inr \<lparr>st_succeed = [(''head'', 0 + 1)], st_fail = [(''head'', 0)], st_events = []\<rparr> \<and>
    map_of (st_succeed \<lparr>st_succeed = [(''head'', 0)], st_fail = [(''head'', 0)],
                        st_events = []\<rparr>) ([''head''] ! 0) = Some 0 \<and>
    map_of (st_fail \<lparr>st_succeed = [(''head'', 0)], st_fail = [(''head'', 0)],
                     st_events = []\<rparr>) ([''head''] ! 0) = Some 0"
    by (simp add: demo_sample_0)
  have h3: "distinct [''head''] \<and> 0 < length [''head''] \<and>
    eval_PCK_loop
      (eval_PCK_sample demo_runtime ''m.h5'' ''H5'' None [''head''] (1 / 2) 10 (1 / 1000000)
         False None)
      (get_dataset_size demo_dataset) (generator demo_dataset 1 8 1 False True) 0 0
      \<lparr>st_succeed = dict_comprehension [''head''] 0,
       st_fail = dict_comprehension [''head''] 0, st_events = []\<rparr>
      = Inr \<lparr>st_succeed = [(''head'', 1)], st_fail = [(''head'', 1)], st_events = []\<rparr>"
    using demo_loop [of "''m.h5''" "1 / 1000000"] by simp
  show ?thesis
    by (intro conjI)
      (rule T [THEN conjunct1],
       rule T [THEN conjunct2, THEN conjunct1, THEN mp, OF h2],
       rule T [THEN conjunct2, THEN conjunct2, THEN mp, OF h3])
qed

section \<open>Properties of the loop and of the accuracies\<close>

lemma update_present_keys:
  "map_of al k = Some v \<Longrightarrow> map fst (AList.update k v' al) = map fst al"
  by (auto simp: update_keys dest: map_of_SomeD intro: rev_image_eqI)

lemma eval_PCK_count_keys:
  "eval_PCK_count cs i rs s f = Inr (s', f') \<Longrightarrow> map fst s' = map fst s \<and> map fst f' = map fst f"
proof (induction cs i rs s f rule: eval_PCK_count.induct)
  case (1 i rs s f)
  then show ?case by simp
next
  case (2 class_name rest i rs s f)
  then show ?case
    by (auto split: if_splits sum.splits simp: dict_getitem_Inr update_present_keys)
qed

lemma eval_PCK_sample_keys:
  assumes "eval_PCK_sample rt model fmt sess cn thr nrm conf save skel smp st = Inr st'"
  shows "map fst (st_succeed st') = map fst (st_succeed st) \<and>
         map fst (st_fail st') = map fst (st_fail st)"
proof -
  from eval_PCK_sample_count [OF assms] obtain rl where
    "eval_PCK_count cn 0 rl (st_succeed st) (st_fail st) = Inr (st_succeed st', st_fail st')"
    by blast
  then show ?thesis by (rule eval_PCK_count_keys)
qed

lemma eval_PCK_sample_nonneg:
  assumes "eval_PCK_sample rt model fmt sess cn thr nrm conf save skel smp st = Inr st'"
    and "\<forall>c v. map_of (st_succeed st) c = Some v \<longrightarrow> 0 \<le> v"
    and "\<forall>c v. map_of (st_fail st) c = Some v \<longrightarrow> 0 \<le> v"
  shows "(\<forall>c v. map_of (st_succeed st') c = Some v \<longrightarrow> 0 \<le> v) \<and>
         (\<forall>c v. map_of (st_fail st') c = Some v \<longrightarrow> 0 \<le> v)"
proof -
  from eval_PCK_sample_count [OF assms(1)] obtain rl where
    c: "eval_PCK_count cn 0 rl (st_succeed st) (st_fail st) = Inr (st_succeed st', st_fail st')"
    by blast
  show ?thesis
    using eval_PCK_count_effect [OF c] assms(2,3)
    by (auto simp: map_option_case split: option.splits)
qed

lemma run_samples_invariant:
  "run_samples (eval_PCK_sample rt model fmt sess cn thr nrm conf save skel) smps st = Inr st'
   \<Longrightarrow> \<forall>c v. map_of (st_succeed st) c = Some v \<longrightarrow> 0 \<le> v
   \<Longrightarrow> \<forall>c v. map_of (st_fail st) c = Some v \<longrightarrow> 0 \<le> v
   \<Longrightarrow> map fst (st_succeed st') = map fst (st_succeed st) \<and>
       map fst (st_fail st') = map fst (st_fail st) \<and>
       (\<forall>c v. map_of (st_succeed st') c = Some v \<longrightarrow> 0 \<le> v) \<and>
       (\<forall>c v. map_of (st_fail st') c = Some v \<longrightarrow> 0 \<le> v)"
proof (induction smps arbitrary: st)
  case Nil
  then show ?case by simp
next
  case (Cons smp rest)
  from Cons.prems(1) obtain st1 where
    one: "eval_PCK_sample rt model fmt sess cn thr nrm conf save skel smp st = Inr st1" and
    more: "run_samples (eval_PCK_sample rt model fmt sess cn thr nrm conf save skel) rest st1
             = Inr st'"
    by (auto split: sum.splits)
  from eval_PCK_sample_nonneg [OF one Cons.prems(2,3)]
  have n1: "\<forall>c v. map_of (st_succeed st1) c = Some v \<longrightarrow> 0 \<le> v"
    and n2: "\<forall>c v. map_of (st_fail st1) c = Some v \<longrightarrow> 0 \<le> v"
    by blast+
  from Cons.IH [OF more n1 n2] eval_PCK_sample_keys [OF one]
  show ?case by simp
qed

lemma sum_list_dict:
  "distinct (map fst al) \<Longrightarrow>
     sum_list (map snd al) = (\<Sum>k\<in>fst ` set al. the (map_of al k))"
proof (induction al)
  case Nil
  then show ?case by simp
next
  case (Cons p al)
  obtain k v where p: "p = (k, v)" by (cases p)
  from Cons.prems p have k: "k \<notin> fst ` set al" and d: "distinct (map fst al)" by auto
  have "(\<Sum>x\<in>fst ` set al. the (map_of ((k, v) # al) x)) = (\<Sum>x\<in>fst ` set al. the (map_of al x))"
    using k by (intro sum.cong) auto
  with Cons.IH [OF d] k p show ?case by simp
qed

lemma eval_PCK_accuracy_sound:
  "eval_PCK_accuracy cs s f acc0 = Inr acc \<Longrightarrow>
     (\<forall>c\<in>set cs. \<exists>sv fv. map_of s c = Some sv \<and> map_of f c = Some fv \<and> sv + fv \<noteq> 0 \<and>
        map_of acc c = Some (real_of_int sv / real_of_int (sv + fv))) \<and>
     (\<forall>c. c \<notin> set cs \<longrightarrow> map_of acc c = map_of acc0 c)"
proof (induction cs arbitrary: acc0)
  case Nil
  then show ?case by simp
next
  case (Cons c rest)
  from Cons.prems obtain sv fv where
    sv: "map_of s c = Some sv" and fv: "map_of f c = Some fv" and nz: "sv + fv \<noteq> 0" and
    rec: "eval_PCK_accuracy rest s f
            (AList.update c (real_of_int sv / real_of_int (sv + fv)) acc0) = Inr acc"
    by (auto split: sum.splits if_splits simp: dict_getitem_Inr py_float_div_def)
  note IH = Cons.IH [OF rec]
  have "\<exists>sv fv. map_of s c = Some sv \<and> map_of f c = Some fv \<and> sv + fv \<noteq> 0 \<and>
        map_of acc c = Some (real_of_int sv / real_of_int (sv + fv))"
  proof (cases "c \<in> set rest")
    case True
    with IH show ?thesis by blast
  next
    case False
    with IH have "map_of acc c
        = map_of (AList.update c (real_of_int sv / real_of_int (sv + fv)) acc0) c"
      by blast
    with sv fv nz show ?thesis by (simp add: update_conv')
  qed
  moreover have "\<forall>c'. c' \<notin> set (c # rest) \<longrightarrow> map_of acc c' = map_of acc0 c'"
    using IH by (auto simp: update_conv')
  ultimately show ?case using IH by auto
qed

lemma eval_PCK_accuracy_returns:
  "\<forall>c\<in>set cs. \<exists>sv fv. map_of s c = Some sv \<and> map_of f c = Some fv \<and> sv + fv \<noteq> 0
     \<Longrightarrow> \<exists>acc. eval_PCK_accuracy cs s f acc0 = Inr acc"
proof (induction cs arbitrary: acc0)
  case Nil
  then show ?case by simp
next
  case (Cons c rest)
  then obtain sv fv where "map_of s c = Some sv" "map_of f c = Some fv" "sv + fv \<noteq> 0"
    by auto
  moreover from Cons have "\<And>a. \<exists>acc. eval_PCK_accuracy rest s f a = Inr acc" by auto
  ultimately show ?case
    by (simp add: dict_getitem_def py_float_div_def)
qed

lemma eval_PCK_accuracy_zero:
  "c \<in> set cs \<Longrightarrow> map_of s c = Some sv \<Longrightarrow> map_of f c = Some fv \<Longrightarrow> sv + fv = 0 \<Longrightarrow>
     \<forall>c'\<in>set cs. map_of s c' \<noteq> None \<and> map_of f c' \<noteq> None \<Longrightarrow>
     eval_PCK_accuracy cs s f acc0 = Inl ZeroDivisionError"
proof (induction cs arbitrary: acc0)
  case Nil
  then show ?case by simp
next
  case (Cons c0 rest)
  from Cons.prems(5) obtain s0 f0 where s0: "map_of s c0 = Some s0" "map_of f c0 = Some f0"
    by auto
  show ?case
  proof (cases "s0 + f0 = 0")
    case True
    with s0 show ?thesis by (simp add: dict_getitem_def py_float_div_def)
  next
    case False
    with s0 Cons.prems have "c \<in> set rest" by auto
    from Cons.IH [OF this Cons.prems(2,3,4)] Cons.prems(5) s0 False
    show ?thesis by (simp add: dict_getitem_def py_float_div_def)
  qed
qed

lemma eval_PCK_unfold:
  "eval_PCK rt model fmt ds cn thr nrm conf save skel =
     (case eval_PCK_loop
             (eval_PCK_sample rt model fmt
                (if fmt = ''MNN'' then Some (mnn_createSession rt model) else None)
                cn thr nrm conf save skel)
             (get_dataset_size ds) (generator ds 1 8 1 False True) 0 0
             \<lparr>st_succeed = dict_comprehension cn 0, st_fail = dict_comprehension cn 0,
              st_events = []\<rparr> of
        Inl err \<Rightarrow> Inl err
      | Inr st \<Rightarrow> eval_PCK_finish cn save (dict_comprehension cn 0) st)"
  by (simp add: eval_PCK_def Let_def)

lemma eval_PCK_loop_invariant:
  assumes "eval_PCK_loop (eval_PCK_sample rt model fmt sess cn thr nrm conf save skel) n gen 0 0
             \<lparr>st_succeed = dict_comprehension cn 0, st_fail = dict_comprehension cn 0,
              st_events = []\<rparr> = Inr st"
  shows "distinct (map fst (st_succeed st))" and "fst ` set (st_succeed st) = set cn"
    and "distinct (map fst (st_fail st))" and "fst ` set (st_fail st) = set cn"
    and "\<forall>c v. map_of (st_succeed st) c = Some v \<longrightarrow> 0 \<le> v"
    and "\<forall>c v. map_of (st_fail st) c = Some v \<longrightarrow> 0 \<le> v"
proof -
  let ?st0 = "\<lparr>st_succeed = dict_comprehension cn (0::int), st_fail = dict_comprehension cn (0::int),
              st_events = []\<rparr>"
  from assms have run:
    "run_samples (eval_PCK_sample rt model fmt sess cn thr nrm conf save skel)
       (generated gen 0 n) ?st0 = Inr st"
    by (simp only: eval_PCK_loop_run_samples diff_zero)
  have z: "\<forall>c v. map_of (st_succeed ?st0) c = Some v \<longrightarrow> 0 \<le> v"
    "\<forall>c v. map_of (st_fail ?st0) c = Some v \<longrightarrow> 0 \<le> v"
    by (auto simp: map_of_dict_comprehension split: if_splits)
  from run_samples_invariant [OF run z] have
    k: "map fst (st_succeed st) = map fst (dict_comprehension cn (0::int))"
       "map fst (st_fail st) = map fst (dict_comprehension cn (0::int))"
    and nn: "\<forall>c v. map_of (st_succeed st) c = Some v \<longrightarrow> 0 \<le> v"
       "\<forall>c v. map_of (st_fail st) c = Some v \<longrightarrow> 0 \<le> v"
    by simp_all
  from k show "distinct (map fst (st_succeed st))" "distinct (map fst (st_fail st))"
    by (simp_all add: distinct_dict_comprehension)
  have "set (map fst (st_succeed st)) = set cn" "set (map fst (st_fail st)) = set cn"
    using keys_dict_comprehension [of cn "0::int"] by (simp_all only: k set_map)
  then show "fst ` set (st_succeed st) = set cn" "fst ` set (st_fail st) = set cn"
    by simp_all
  from nn show "\<forall>c v. map_of (st_succeed st) c = Some v \<longrightarrow> 0 \<le> v"
    "\<forall>c v. map_of (st_fail st) c = Some v \<longrightarrow> 0 \<le> v"
    by blast+
qed

lemma np_true_divide_nonzero: "y \<noteq> 0 \<Longrightarrow> np_true_divide x y = NpFloat (x / y)"
  by (simp add: np_true_divide_def)

lemma eval_PCK_finish_Inr:
  assumes "eval_PCK_finish cn save acc0 st = Inr (tot, acc, ev)"
  shows "eval_PCK_accuracy cn (st_succeed st) (st_fail st) acc0 = Inr acc"
    and "tot = np_true_divide (real_of_int (sum_list (map snd (st_succeed st))))
           (real_of_int (sum_list (map snd (st_fail st)) + sum_list (map snd (st_succeed st))))"
  using assms
  by (auto simp: eval_PCK_finish_def Let_def split: sum.splits if_splits prod.splits)

text \<open>
  C2: when \<open>eval_PCK\<close> returns, the accuracy reported for a class is its succeed counter
  divided by the sum of its succeed and fail counters at the end of the loop, and the
  total accuracy is the sum of all succeed counters divided by the sum of all succeed
  and fail counters (for an empty list of classes this quotient is numpy's \<open>nan\<close>).
\<close>

theorem eval_PCK_accuracy_values:
  assumes "eval_PCK rt model model_format eval_dataset class_names score_threshold normalize'
             conf_threshold save_result skeleton_lines = Inr (total_accuracy, accuracy_dict, ev)"
  shows "\<exists>st.
     eval_PCK_loop
       (eval_PCK_sample rt model model_format
          (if model_format = ''MNN'' then Some (mnn_createSession rt model) else None)
          class_names score_threshold normalize' conf_threshold save_result skeleton_lines)
       (get_dataset_size eval_dataset) (generator eval_dataset 1 8 1 False True) 0 0
       \<lparr>st_succeed = dict_comprehension class_names 0,
        st_fail = dict_comprehension class_names 0, st_events = []\<rparr> = Inr st \<and>
     (\<forall>c\<in>set class_names. \<exists>s f.
        map_of (st_succeed st) c = Some s \<and> map_of (st_fail st) c = Some f \<and>
        map_of accuracy_dict c = Some (real_of_int s / real_of_int (s + f))) \<and>
     total_accuracy =
       (if class_names = [] then NaN
        else NpFloat
          (real_of_int (\<Sum>c\<in>set class_names. the (map_of (st_succeed st) c)) /
           real_of_int (\<Sum>c\<in>set class_names.
              the (map_of (st_succeed st) c) + the (map_of (st_fail st) c))))"
proof -
  let ?sess = "if model_format = ''MNN'' then Some (mnn_createSession rt model) else None"
  from assms obtain st where
    loop: "eval_PCK_loop
       (eval_PCK_sample rt model model_format ?sess
          class_names score_threshold normalize' conf_threshold save_result skeleton_lines)
       (get_dataset_size eval_dataset) (generator eval_dataset 1 8 1 False True) 0 0
       \<lparr>st_succeed = dict_comprehension class_names 0,
        st_fail = dict_comprehension class_names 0, st_events = []\<rparr> = Inr st" and
    fin: "eval_PCK_finish class_names save_result (dict_comprehension class_names 0) st
            = Inr (total_accuracy, accuracy_dict, ev)"
    by (auto simp: eval_PCK_unfold split: sum.splits)
  note inv = eval_PCK_loop_invariant [OF loop]
  note acc = eval_PCK_accuracy_sound [OF eval_PCK_finish_Inr(1) [OF fin]]
  let ?S = "\<Sum>c\<in>set class_names. the (map_of (st_succeed st) c)"
  let ?F = "\<Sum>c\<in>set class_names. the (map_of (st_fail st) c)"
  have S: "sum_list (map snd (st_succeed st)) = ?S"
    using sum_list_dict [OF inv(1)] inv(2) by simp
  have F: "sum_list (map snd (st_fail st)) = ?F"
    using sum_list_dict [OF inv(3)] inv(4) by simp
  have tot: "total_accuracy = np_true_divide (real_of_int ?S) (real_of_int (?F + ?S))"
    using eval_PCK_finish_Inr(2) [OF fin] S F by simp
  have per: "\<forall>c\<in>set class_names. \<exists>s f.
        map_of (st_succeed st) c = Some s \<and> map_of (st_fail st) c = Some f \<and>
        map_of accuracy_dict c = Some (real_of_int s / real_of_int (s + f))"
    using acc by blast
  have total: "total_accuracy =
       (if class_names = [] then NaN
        else NpFloat (real_of_int ?S /
           real_of_int (\<Sum>c\<in>set class_names.
              the (map_of (st_succeed st) c) + the (map_of (st_fail st) c))))"
  proof (cases "class_names = []")
    case True
    with tot show ?thesis by (simp add: np_true_divide_def)
  next
    case False
    have pos: "0 < the (map_of (st_succeed st) c) + the (map_of (st_fail st) c)"
      if "c \<in> set class_names" for c
    proof -
      from acc that obtain sv fv where
        v: "map_of (st_succeed st) c = Some sv" "map_of (st_fail st) c = Some fv" "sv + fv \<noteq> 0"
        by blast
      with inv(5,6) have "0 \<le> sv" "0 \<le> fv" by blast+
      with v show ?thesis by simp
    qed
    define D where "D = (\<Sum>c\<in>set class_names.
              the (map_of (st_succeed st) c) + the (map_of (st_fail st) c))"
    have "0 < D"
      unfolding D_def using False pos by (intro sum_pos) auto
    then have nz: "real_of_int D \<noteq> 0" by simp
    have "?F + ?S = D"
      unfolding D_def by (simp add: sum.distrib add.commute)
    with tot have "total_accuracy = np_true_divide (real_of_int ?S) (real_of_int D)"
      by (simp only:)
    also have "\<dots> = NpFloat (real_of_int ?S / real_of_int D)"
      by (rule np_true_divide_nonzero [OF nz])
    finally show ?thesis
      using False unfolding D_def by (simp only: if_False)
  qed
  from loop per total show ?thesis by blast
qed

lemma demo_eval_PCK:
  "eval_PCK demo_runtime ''m.h5'' ''H5'' demo_dataset [''head''] (1 / 2) 10 (1 / 1000000)
     False None = Inr (NpFloat (1 / 2), [(''head'', 1 / 2)], [])"
  using demo_loop [of "''m.h5''" "1 / 1000000"]
  by (simp add: eval_PCK_unfold eval_PCK_finish_def dict_getitem_def py_float_div_def
      np_true_divide_def dict_comprehension_def)

theorem eval_PCK_accuracy_values_witness:
  "\<exists>st.
     eval_PCK_loop
       (eval_PCK_sample demo_runtime ''m.h5'' ''H5''
          (if ''H5'' = ''MNN'' then Some (mnn_createSession demo_runtime ''m.h5'') else None)
          [''head''] (1 / 2) 10 (1 / 1000000) False None)
       (get_dataset_size demo_dataset) (generator demo_dataset 1 8 1 False True) 0 0
       \<lparr>st_succeed = dict_comprehension [''head''] 0,
        st_fail = dict_comprehension [''head''] 0, st_events = []\<rparr> = Inr st \<and>
     (\<forall>c\<in>set [''head'']. \<exists>s f.
        map_of (st_succeed st) c = Some s \<and> map_of (st_fail st) c = Some f \<and>
        map_of [(''head'', 1 / 2)] c = Some (real_of_int s / real_of_int (s + f))) \<and>
     NpFloat (1 / 2) =
       (if [''head''] = [] then NaN
        else NpFloat
          (real_of_int (\<Sum>c\<in>set [''head'']. the (map_of (st_succeed st) c)) /
           real_of_int (\<Sum>c\<in>set [''head''].
              the (map_of (st_succeed st) c) + the (map_of (st_fail st) c))))"
  by (rule eval_PCK_accuracy_values [OF demo_eval_PCK])

text \<open>
  C6: the loop of \<open>eval_PCK\<close> handles the items of the generator one after the other in
  the order in which they are yielded, the generator being called with batch size 1 and
  shuffling off; it handles at most \<open>get_dataset_size()\<close> items, and exactly the first
  \<open>get_dataset_size()\<close> ones when the generator yields that many: the next item leaves the
  loop before the body runs.
\<close>

theorem eval_PCK_sequential:
  "eval_PCK_loop body dataset_size gen 0 0 st
     = run_samples body (generated gen 0 dataset_size) st \<and>
   length (generated gen 0 dataset_size) \<le> dataset_size \<and>
   ((\<forall>k<dataset_size. gen k \<noteq> None) \<longrightarrow>
      generated gen 0 dataset_size = map (\<lambda>k. the (gen k)) [0..<dataset_size]) \<and>
   eval_PCK rt model model_format eval_dataset class_names score_threshold normalize'
       conf_threshold save_result skeleton_lines =
     (case run_samples
             (eval_PCK_sample rt model model_format
                (if model_format = ''MNN'' then Some (mnn_createSession rt model) else None)
                class_names score_threshold normalize' conf_threshold save_result
                skeleton_lines)
             (generated (generator eval_dataset 1 8 1 False True) 0
                (get_dataset_size eval_dataset))
             \<lparr>st_succeed = dict_comprehension class_names 0,
              st_fail = dict_comprehension class_names 0, st_events = []\<rparr> of
        Inl err \<Rightarrow> Inl err
      | Inr st_end \<Rightarrow>
          eval_PCK_finish class_names save_result (dict_comprehension class_names 0) st_end)"
proof (intro conjI impI)
  show "eval_PCK_loop body dataset_size gen 0 0 st
     = run_samples body (generated gen 0 dataset_size) st"
    by (simp only: eval_PCK_loop_run_samples diff_zero)
next
  have "length (generated gen k m) \<le> m" for k m
    by (induction m arbitrary: k) (auto split: option.splits)
  then show "length (generated gen 0 dataset_size) \<le> dataset_size" .
next
  assume "\<forall>k<dataset_size. gen k \<noteq> None"
  then show "generated gen 0 dataset_size = map (\<lambda>k. the (gen k)) [0..<dataset_size]"
    using generated_all [of dataset_size gen 0] by simp
next
  show "eval_PCK rt model model_format eval_dataset class_names score_threshold normalize'
       conf_threshold save_result skeleton_lines =
     (case run_samples
             (eval_PCK_sample rt model model_format
                (if model_format = ''MNN'' then Some (mnn_createSession rt model) else None)
                class_names score_threshold normalize' conf_threshold save_result
                skeleton_lines)
             (generated (generator eval_dataset 1 8 1 False True) 0
                (get_dataset_size eval_dataset))
             \<lparr>st_succeed = dict_comprehension class_names 0,
              st_fail = dict_comprehension class_names 0, st_events = []\<rparr> of
        Inl err \<Rightarrow> Inl err
      | Inr st_end \<Rightarrow>
          eval_PCK_finish class_names save_result (dict_comprehension class_names 0) st_end)"
    by (simp only: eval_PCK_unfold eval_PCK_loop_run_samples diff_zero)
qed

theorem eval_PCK_sequential_witness:
  "eval_PCK_loop
     (eval_PCK_sample demo_runtime ''m.h5'' ''H5'' None [''head''] (1 / 2) 10 (1 / 1000000)
        False None)
     (get_dataset_size demo_dataset) (generator demo_dataset 1 8 1 False True) 0 0
     \<lparr>st_succeed = [(''head'', 0)], st_fail = [(''head'', 0)], st_events = []\<rparr>
   = run_samples
       (eval_PCK_sample demo_runtime ''m.h5'' ''H5'' None [''head''] (1 / 2) 10 (1 / 1000000)
          False None)
       (generated (generator demo_dataset 1 8 1 False True) 0 (get_dataset_size demo_dataset))
       \<lparr>st_succeed = [(''head'', 0)], st_fail = [(''head'', 0)], st_events = []\<rparr> \<and>
   length (generated (generator demo_dataset 1 8 1 False True) 0 (get_dataset_size demo_dataset))
     \<le> get_dataset_size demo_dataset \<and>
   generated (generator demo_dataset 1 8 1 False True) 0 (get_dataset_size demo_dataset)
     = map (\<lambda>k. the (generator demo_dataset 1 8 1 False True k))
         [0..<get_dataset_size demo_dataset] \<and>
   generated (generator demo_dataset 1 8 1 False True) 0 (get_dataset_size demo_dataset)
     = [demo_sample 2 3 2 3, demo_sample 27 36 30 40, demo_sample 5 5 0 0]"
proof -
  note T = eval_PCK_sequential [where dataset_size = "get_dataset_size demo_dataset"
      and gen = "generator demo_dataset 1 8 1 False True"
      and body = "eval_PCK_sample demo_runtime ''m.h5'' ''H5'' None [''head''] (1 / 2) 10
                    (1 / 1000000) False None"
      and st = "\<lparr>st_succeed = [(''head'', 0)], st_fail = [(''head'', 0)], st_events = []\<rparr>"]
  have h: "\<forall>k<get_dataset_size demo_dataset. generator demo_dataset 1 8 1 False True k \<noteq> None"
    by (simp add: demo_dataset_def)
  note T3 = T [THEN conjunct2, THEN conjunct2, THEN conjunct1, THEN mp, OF h]
  have "map (\<lambda>k. the (generator demo_dataset 1 8 1 False True k))
         [0..<get_dataset_size demo_dataset]
     = [demo_sample 2 3 2 3, demo_sample 27 36 30 40, demo_sample 5 5 0 0]"
    by (simp add: demo_dataset_def upt_rec)
  with T3 have e: "generated (generator demo_dataset 1 8 1 False True) 0
      (get_dataset_size demo_dataset)
     = [demo_sample 2 3 2 3, demo_sample 27 36 30 40, demo_sample 5 5 0 0]"
    by (rule trans)
  show ?thesis
    by (intro conjI)
      (rule T [THEN conjunct1], rule T [THEN conjunct2, THEN conjunct1], rule T3, rule e)
qed

lemma filter_empty_length: "(length (filter P xs) = 0) = (\<forall>x\<in>set xs. \<not> P x)"
  by (simp add: filter_empty_conv)

lemma draw_plot_func_returns:
  "dictionary \<noteq> [] \<Longrightarrow>
     \<exists>ev. draw_plot_func dictionary (length dictionary) path False None = (ev, Inr ())"
proof -
  assume "dictionary \<noteq> []"
  then have "sort_key snd dictionary \<noteq> []"
    by (metis length_0_conv length_sort)
  then show ?thesis
    by (simp add: draw_plot_func_def Let_def)
qed

text \<open>
  C9: when at the end of the loop both counters of some class are 0, the division for
  that class's accuracy raises ZeroDivisionError and \<open>eval_PCK\<close> reports no result; when
  no class has both counters at 0 (and there is a class) it reports one; and for pairwise
  distinct class names no class has both counters at 0 exactly when every class has a
  valid ground-truth keypoint in some processed sample.
\<close>

theorem eval_PCK_zero_division:
  assumes "eval_PCK_loop
       (eval_PCK_sample rt model model_format
          (if model_format = ''MNN'' then Some (mnn_createSession rt model) else None)
          class_names score_threshold normalize' conf_threshold save_result skeleton_lines)
       (get_dataset_size eval_dataset) (generator eval_dataset 1 8 1 False True) 0 0
       \<lparr>st_succeed = dict_comprehension class_names 0,
        st_fail = dict_comprehension class_names 0, st_events = []\<rparr> = Inr st"
  shows
    "((\<exists>c\<in>set class_names. map_of (st_succeed st) c = Some 0 \<and> map_of (st_fail st) c = Some 0)
        \<longrightarrow> eval_PCK rt model model_format eval_dataset class_names score_threshold normalize'
              conf_threshold save_result skeleton_lines = Inl (ZeroDivisionError, st_events st)) \<and>
     (class_names \<noteq> [] \<and>
      (\<forall>c\<in>set class_names.
          \<not> (map_of (st_succeed st) c = Some 0 \<and> map_of (st_fail st) c = Some 0))
        \<longrightarrow> (\<exists>total_accuracy accuracy_dict ev.
               eval_PCK rt model model_format eval_dataset class_names score_threshold
                 normalize' conf_threshold save_result skeleton_lines
                 = Inr (total_accuracy, accuracy_dict, ev))) \<and>
     (distinct class_names \<longrightarrow>
        (\<forall>c\<in>set class_names.
            \<not> (map_of (st_succeed st) c = Some 0 \<and> map_of (st_fail st) c = Some 0))
        = (\<forall>i<length class_names.
             \<exists>smp\<in>set (generated (generator eval_dataset 1 8 1 False True) 0
                           (get_dataset_size eval_dataset)).
               gt_keypoint_valid (float_arith rt) (mi_tpts (sample_metainfo smp ! 0) ! i)))"
proof -
  let ?sess = "if model_format = ''MNN'' then Some (mnn_createSession rt model) else None"
  let ?smps = "generated (generator eval_dataset 1 8 1 False True) 0
                 (get_dataset_size eval_dataset)"
  note inv = eval_PCK_loop_invariant [OF assms]
  have ev: "eval_PCK rt model model_format eval_dataset class_names score_threshold normalize'
              conf_threshold save_result skeleton_lines
            = eval_PCK_finish class_names save_result (dict_comprehension class_names 0) st"
    using assms by (simp add: eval_PCK_unfold)
  have present: "\<forall>c\<in>set class_names. map_of (st_succeed st) c \<noteq> None \<and> map_of (st_fail st) c \<noteq> None"
    using inv(2,4) by (simp add: map_of_eq_None_iff)
  have one: "eval_PCK rt model model_format eval_dataset class_names score_threshold normalize'
              conf_threshold save_result skeleton_lines = Inl (ZeroDivisionError, st_events st)"
    if "\<exists>c\<in>set class_names. map_of (st_succeed st) c = Some 0 \<and> map_of (st_fail st) c = Some 0"
  proof -
    from that obtain c where c: "c \<in> set class_names"
      "map_of (st_succeed st) c = Some 0" "map_of (st_fail st) c = Some 0"
      by blast
    have "eval_PCK_accuracy class_names (st_succeed st) (st_fail st)
            (dict_comprehension class_names 0) = Inl ZeroDivisionError"
      by (rule eval_PCK_accuracy_zero [OF c _ present]) simp
    then show ?thesis
      by (simp add: ev eval_PCK_finish_def)
  qed
  have two: "\<exists>total_accuracy accuracy_dict ev.
               eval_PCK rt model model_format eval_dataset class_names score_threshold
                 normalize' conf_threshold save_result skeleton_lines
                 = Inr (total_accuracy, accuracy_dict, ev)"
    if ne: "class_names \<noteq> []" and nz: "\<forall>c\<in>set class_names.
          \<not> (map_of (st_succeed st) c = Some 0 \<and> map_of (st_fail st) c = Some 0)"
  proof -
    have "\<forall>c\<in>set class_names. \<exists>sv fv. map_of (st_succeed st) c = Some sv \<and>
            map_of (st_fail st) c = Some fv \<and> sv + fv \<noteq> 0"
    proof
      fix c assume c: "c \<in> set class_names"
      with present obtain sv fv where
        v: "map_of (st_succeed st) c = Some sv" "map_of (st_fail st) c = Some fv"
        by auto
      with inv(5,6) have "0 \<le> sv" "0 \<le> fv" by blast+
      moreover from nz c v have "\<not> (sv = 0 \<and> fv = 0)" by auto
      ultimately have "sv + fv \<noteq> 0" by arith
      with v show "\<exists>sv fv. map_of (st_succeed st) c = Some sv \<and>
            map_of (st_fail st) c = Some fv \<and> sv + fv \<noteq> 0"
        by blast
    qed
    from eval_PCK_accuracy_returns [OF this] obtain acc where
      acc: "eval_PCK_accuracy class_names (st_succeed st) (st_fail st)
              (dict_comprehension class_names 0) = Inr acc"
      by blast
    from ne obtain c where "c \<in> set class_names" by (cases class_names) auto
    with eval_PCK_accuracy_sound [OF acc] have "acc \<noteq> []" by fastforce
    from draw_plot_func_returns [OF this] obtain pe where
      "draw_plot_func acc (length acc) ''result/PCK.jpg'' False None = (pe, Inr ())"
      by blast
    with acc show ?thesis
      by (simp add: ev eval_PCK_finish_def Let_def)
  qed
  have three: "(\<forall>c\<in>set class_names.
            \<not> (map_of (st_succeed st) c = Some 0 \<and> map_of (st_fail st) c = Some 0))
        = (\<forall>i<length class_names. \<exists>smp\<in>set ?smps.
               gt_keypoint_valid (float_arith rt) (mi_tpts (sample_metainfo smp ! 0) ! i))"
    if d: "distinct class_names"
  proof -
    from assms have run: "run_samples
        (eval_PCK_sample rt model model_format ?sess
           class_names score_threshold normalize' conf_threshold save_result skeleton_lines)
        ?smps
        \<lparr>st_succeed = dict_comprehension class_names 0,
         st_fail = dict_comprehension class_names 0, st_events = []\<rparr> = Inr st"
      by (simp only: eval_PCK_loop_run_samples diff_zero)
    have cls: "(\<not> (map_of (st_succeed st) (class_names ! i) = Some 0 \<and>
                  map_of (st_fail st) (class_names ! i) = Some 0))
        = (\<exists>smp\<in>set ?smps. gt_keypoint_valid (float_arith rt) (mi_tpts (sample_metainfo smp ! 0) ! i))"
      if i: "i < length class_names" for i
    proof -
      have z: "map_of (dict_comprehension class_names (0::int)) (class_names ! i) = Some 0"
        using i by (simp add: map_of_dict_comprehension)
      from run_samples_counters [OF d i run] z
      have "\<exists>sv fv. map_of (st_succeed st) (class_names ! i) = Some sv \<and>
           map_of (st_fail st) (class_names ! i) = Some fv \<and>
           sv + fv = int (length (filter
              (\<lambda>smp. gt_keypoint_valid (float_arith rt) (mi_tpts (sample_metainfo smp ! 0) ! i)) ?smps))"
        by simp
      then obtain sv fv where
        v: "map_of (st_succeed st) (class_names ! i) = Some sv"
           "map_of (st_fail st) (class_names ! i) = Some fv"
           "sv + fv = int (length (filter
              (\<lambda>smp. gt_keypoint_valid (float_arith rt) (mi_tpts (sample_metainfo smp ! 0) ! i)) ?smps))"
        by blast
      from v(1,2) inv(5,6) have "0 \<le> sv" "0 \<le> fv" by blast+
      then have "(sv = 0 \<and> fv = 0) = (sv + fv = 0)" by arith
      also have "\<dots> = (length (filter
              (\<lambda>smp. gt_keypoint_valid (float_arith rt) (mi_tpts (sample_metainfo smp ! 0) ! i)) ?smps) = 0)"
        using v(3) by simp
      also have "\<dots> = (\<forall>smp\<in>set ?smps. \<not> gt_keypoint_valid (float_arith rt) (mi_tpts (sample_metainfo smp ! 0) ! i))"
        by (rule filter_empty_length)
      finally show ?thesis using v(1,2) by auto
    qed
    show ?thesis
    proof
      assume a: "\<forall>c\<in>set class_names.
            \<not> (map_of (st_succeed st) c = Some 0 \<and> map_of (st_fail st) c = Some 0)"
      show "\<forall>i<length class_names. \<exists>smp\<in>set ?smps.
               gt_keypoint_valid (float_arith rt) (mi_tpts (sample_metainfo smp ! 0) ! i)"
      proof (intro allI impI)
        fix i assume i: "i < length class_names"
        with a have "\<not> (map_of (st_succeed st) (class_names ! i) = Some 0 \<and>
                  map_of (st_fail st) (class_names ! i) = Some 0)"
          by simp
        with cls [OF i] show "\<exists>smp\<in>set ?smps.
               gt_keypoint_valid (float_arith rt) (mi_tpts (sample_metainfo smp ! 0) ! i)"
          by simp
      qed
    next
      assume a: "\<forall>i<length class_names. \<exists>smp\<in>set ?smps.
               gt_keypoint_valid (float_arith rt) (mi_tpts (sample_metainfo smp ! 0) ! i)"
      show "\<forall>c\<in>set class_names.
            \<not> (map_of (st_succeed st) c = Some 0 \<and> map_of (st_fail st) c = Some 0)"
      proof
        fix c assume "c \<in> set class_names"
        then obtain i where i: "i < length class_names" "c = class_names ! i"
          by (auto simp: in_set_conv_nth)
        with a cls [OF i(1)] show
          "\<not> (map_of (st_succeed st) c = Some 0 \<and> map_of (st_fail st) c = Some 0)"
          by simp
      qed
    qed
  qed
  from one two three show ?thesis by blast
qed

lemma demo_loop_empty:
  "eval_PCK_loop
     (eval_PCK_sample demo_runtime ''m.h5'' ''H5''
        (if ''H5'' = ''MNN'' then Some (mnn_createSession demo_runtime ''m.h5'') else None)
        [''head''] (1 / 2) 10 (1 / 1000000) False None)
     (get_dataset_size (demo_dataset\<lparr>get_dataset_size := 0\<rparr>))
     (generator (demo_dataset\<lparr>get_dataset_size := 0\<rparr>) 1 8 1 False True) 0 0
     \<lparr>st_succeed = dict_comprehension [''head''] 0,
      st_fail = dict_comprehension [''head''] 0, st_events = []\<rparr>
   = Inr \<lparr>st_succeed = dict_comprehension [''head''] 0,
          st_fail = dict_comprehension [''head''] 0, st_events = []\<rparr>"
  by (simp add: eval_PCK_loop.simps demo_dataset_def)

lemma demo_loop_full:
  "eval_PCK_loop
     (eval_PCK_sample demo_runtime ''m.h5'' ''H5''
        (if ''H5'' = ''MNN'' then Some (mnn_createSession demo_runtime ''m.h5'') else None)
        [''head''] (1 / 2) 10 (1 / 1000000) False None)
     (get_dataset_size demo_dataset) (generator demo_dataset 1 8 1 False True) 0 0
     \<lparr>st_succeed = dict_comprehension [''head''] 0,
      st_fail = dict_comprehension [''head''] 0, st_events = []\<rparr>
   = Inr \<lparr>st_succeed = [(''head'', 1)], st_fail = [(''head'', 1)], st_events = []\<rparr>"
  using demo_loop [of "''m.h5''" "1 / 1000000"] by simp

theorem eval_PCK_zero_division_witness:
  "eval_PCK demo_runtime ''m.h5'' ''H5'' (demo_dataset\<lparr>get_dataset_size := 0\<rparr>) [''head'']
     (1 / 2) 10 (1 / 1000000) False None
     = Inl (ZeroDivisionError,
            st_events \<lparr>st_succeed = dict_comprehension [''head''] 0,
                       st_fail = dict_comprehension [''head''] 0, st_events = []\<rparr>) \<and>
   (\<exists>total_accuracy accuracy_dict ev.
      eval_PCK demo_runtime ''m.h5'' ''H5'' demo_dataset [''head''] (1 / 2) 10 (1 / 1000000)
        False None = Inr (total_accuracy, accuracy_dict, ev)) \<and>
   (\<forall>c\<in>set [''head''].
       \<not> (map_of (st_succeed \<lparr>st_succeed = [(''head'', 1)], st_fail = [(''head'', 1)],
                              st_events = []\<rparr>) c = Some 0 \<and>
          map_of (st_fail \<lparr>st_succeed = [(''head'', 1)], st_fail = [(''head'', 1)],
                           st_events = []\<rparr>) c = Some 0))
     = (\<forall>i<length [''head''].
          \<exists>smp\<in>set (generated (generator demo_dataset 1 8 1 False True) 0
                        (get_dataset_size demo_dataset)).
            gt_keypoint_valid (float_arith demo_runtime) (mi_tpts (sample_metainfo smp ! 0) ! i))"
proof -
  note E = eval_PCK_zero_division [OF demo_loop_empty]
  note F = eval_PCK_zero_division [OF demo_loop_full]
  have h1: "\<exists>c\<in>set [''head''].
      map_of (st_succeed \<lparr>st_succeed = dict_comprehension [''head''] 0,
                          st_fail = dict_comprehension [''head''] 0, st_events = []\<rparr>) c = Some 0 \<and>
      map_of (st_fail \<lparr>st_succeed = dict_comprehension [''head''] 0,
                       st_fail = dict_comprehension [''head''] 0, st_events = []\<rparr>) c = Some 0"
    by (simp add: dict_comprehension_def)
  have h2: "[''head''] \<noteq> [] \<and>
      (\<forall>c\<in>set [''head''].
         \<not> (map_of (st_succeed \<lparr>st_succeed = [(''head'', 1)], st_fail = [(''head'', 1)],
                                st_events = []\<rparr>) c = Some 0 \<and>
            map_of (st_fail \<lparr>st_succeed = [(''head'', 1)], st_fail = [(''head'', 1)],
                             st_events = []\<rparr>) c = Some 0))"
    by simp
  have h3: "distinct [''head'']" by simp
  show ?thesis
    by (intro conjI)
      (rule E [THEN conjunct1, THEN mp, OF h1],
       rule F [THEN conjunct2, THEN conjunct1, THEN mp, OF h2],
       rule F [THEN conjunct2, THEN conjunct2, THEN mp, OF h3])
qed

section \<open>Properties of model loading and of the dispatch\<close>

lemma endswith_last:
  assumes "endswith str suffix" and "suffix \<noteq> []"
  shows "last str = last suffix"
proof -
  from assms have len: "length suffix \<le> length str"
    and d: "drop (length str - length suffix) str = suffix"
    by (simp_all add: endswith_def)
  from assms(2) len have "length str - length suffix < length str"
    by (cases suffix) auto
  then have "last (drop (length str - length suffix) str) = last str"
    by (rule last_drop)
  with d show ?thesis by simp
qed

lemma endswith_exclusive:
  "endswith p ''.tflite'' \<Longrightarrow> \<not> endswith p ''.mnn'' \<and> \<not> endswith p ''.pb'' \<and> \<not> endswith p ''.h5''"
  "endswith p ''.mnn'' \<Longrightarrow> \<not> endswith p ''.tflite'' \<and> \<not> endswith p ''.pb'' \<and> \<not> endswith p ''.h5''"
  "endswith p ''.pb'' \<Longrightarrow> \<not> endswith p ''.tflite'' \<and> \<not> endswith p ''.mnn'' \<and> \<not> endswith p ''.h5''"
  "endswith p ''.h5'' \<Longrightarrow> \<not> endswith p ''.tflite'' \<and> \<not> endswith p ''.mnn'' \<and> \<not> endswith p ''.pb''"
  by (auto dest!: endswith_last)

text \<open>
  C4: \<open>load_eval_model\<close> maps a path ending in \<open>.h5\<close> to the format \<open>H5\<close>,
  \<open>.pb\<close> to \<open>PB\<close>, \<open>.tflite\<close> to \<open>TFLITE\<close> and \<open>.mnn\<close> to \<open>MNN\<close>, and returns
  no other format; for every sample \<open>eval_PCK\<close> calls the predict function of the
  format, and for any other format value it raises a ValueError.
\<close>

theorem model_formats:
  "(endswith model_path ''.h5'' \<longrightarrow>
      load_eval_model rt model_path = Inr (keras_load_model rt model_path, ''H5'')) \<and>
   (endswith model_path ''.pb'' \<longrightarrow>
      load_eval_model rt model_path = Inr (load_graph rt model_path, ''PB'')) \<and>
   (endswith model_path ''.tflite'' \<longrightarrow>
      load_eval_model rt model_path = Inr (tflite_Interpreter rt model_path, ''TFLITE'')) \<and>
   (endswith model_path ''.mnn'' \<longrightarrow>
      load_eval_model rt model_path = Inr (mnn_Interpreter rt model_path, ''MNN'')) \<and>
   (load_eval_model rt model_path = Inr (loaded, loaded_format) \<longrightarrow>
      loaded_format = ''H5'' \<or> loaded_format = ''PB'' \<or> loaded_format = ''TFLITE'' \<or>
      loaded_format = ''MNN'') \<and>
   eval_PCK_predict rt model ''H5'' session image_data
     = hourglass_predict_keras rt model image_data \<and>
   eval_PCK_predict rt model ''PB'' session image_data
     = hourglass_predict_pb rt model image_data \<and>
   eval_PCK_predict rt model ''TFLITE'' session image_data
     = hourglass_predict_tflite rt model image_data \<and>
   eval_PCK_predict rt model ''MNN'' (Some sess) image_data
     = hourglass_predict_mnn rt model sess image_data \<and>
   (model_format \<noteq> ''H5'' \<and> model_format \<noteq> ''PB'' \<and> model_format \<noteq> ''TFLITE'' \<and>
    model_format \<noteq> ''MNN'' \<longrightarrow>
      eval_PCK_predict rt model model_format session image_data
        = Inl (ValueError ''invalid model format'') \<and>
      eval_PCK_sample rt model model_format session class_names score_threshold normalize'
        conf_threshold save_result skeleton_lines smp st
        = Inl (ValueError ''invalid model format'', st_events st)) \<and>
   (eval_PCK_sample rt model model_format session class_names score_threshold normalize'
      conf_threshold save_result skeleton_lines smp st = Inr st' \<longrightarrow>
      (\<exists>heatmap. eval_PCK_predict rt model model_format session (sample_image smp)
         = Inr heatmap))"
proof (intro conjI impI)
  assume "endswith model_path ''.h5''"
  from endswith_exclusive(4) [OF this] this
  show "load_eval_model rt model_path = Inr (keras_load_model rt model_path, ''H5'')"
    by (simp add: load_eval_model_def)
next
  assume "endswith model_path ''.pb''"
  from endswith_exclusive(3) [OF this] this
  show "load_eval_model rt model_path = Inr (load_graph rt model_path, ''PB'')"
    by (simp add: load_eval_model_def)
next
  assume "endswith model_path ''.tflite''"
  then show "load_eval_model rt model_path = Inr (tflite_Interpreter rt model_path, ''TFLITE'')"
    by (simp add: load_eval_model_def)
next
  assume "endswith model_path ''.mnn''"
  from endswith_exclusive(2) [OF this] this
  show "load_eval_model rt model_path = Inr (mnn_Interpreter rt model_path, ''MNN'')"
    by (simp add: load_eval_model_def)
next
  assume "load_eval_model rt model_path = Inr (loaded, loaded_format)"
  then show "loaded_format = ''H5'' \<or> loaded_format = ''PB'' \<or> loaded_format = ''TFLITE'' \<or>
      loaded_format = ''MNN''"
    by (auto simp: load_eval_model_def split: if_splits)
next
  show "eval_PCK_predict rt model ''H5'' session image_data
     = hourglass_predict_keras rt model image_data"
    by (simp add: eval_PCK_predict_def)
next
  show "eval_PCK_predict rt model ''PB'' session image_data
     = hourglass_predict_pb rt model image_data"
    by (simp add: eval_PCK_predict_def)
next
  show "eval_PCK_predict rt model ''TFLITE'' session image_data
     = hourglass_predict_tflite rt model image_data"
    by (simp add: eval_PCK_predict_def)
next
  show "eval_PCK_predict rt model ''MNN'' (Some sess) image_data
     = hourglass_predict_mnn rt model sess image_data"
    by (simp add: eval_PCK_predict_def)
next
  assume a: "model_format \<noteq> ''H5'' \<and> model_format \<noteq> ''PB'' \<and> model_format \<noteq> ''TFLITE'' \<and>
    model_format \<noteq> ''MNN''"
  then show p: "eval_PCK_predict rt model model_format session image_data
        = Inl (ValueError ''invalid model format'')"
    by (simp add: eval_PCK_predict_def)
  from a show "eval_PCK_sample rt model model_format session class_names score_threshold
        normalize' conf_threshold save_result skeleton_lines smp st
        = Inl (ValueError ''invalid model format'', st_events st)"
    by (simp add: eval_PCK_sample_def eval_PCK_results_def eval_PCK_predict_def)
next
  assume "eval_PCK_sample rt model model_format session class_names score_threshold normalize'
      conf_threshold save_result skeleton_lines smp st = Inr st'"
  from eval_PCK_sample_count [OF this] obtain pk hs meta rl where
    "eval_PCK_results rt model model_format session score_threshold normalize' conf_threshold smp
       = Inr (pk, hs, meta, rl)"
    by blast
  then show "\<exists>heatmap. eval_PCK_predict rt model model_format session (sample_image smp)
         = Inr heatmap"
    by (auto simp: eval_PCK_results_def split: sum.splits)
qed

theorem model_formats_witness:
  "load_eval_model demo_runtime ''weights/m.h5'' = Inr (keras_load_model demo_runtime ''weights/m.h5'', ''H5'') \<and>
   load_eval_model demo_runtime ''m.pb'' = Inr (load_graph demo_runtime ''m.pb'', ''PB'') \<and>
   load_eval_model demo_runtime ''m.tflite'' = Inr (tflite_Interpreter demo_runtime ''m.tflite'', ''TFLITE'') \<and>
   load_eval_model demo_runtime ''m.mnn'' = Inr (mnn_Interpreter demo_runtime ''m.mnn'', ''MNN'') \<and>
   (''H5'' = ''H5'' \<or> ''H5'' = ''PB'' \<or> ''H5'' = ''TFLITE'' \<or> ''H5'' = ''MNN'') \<and>
   eval_PCK_predict demo_runtime ''m.onnx'' ''ONNX'' None (sample_image (demo_sample 2 3 2 3))
     = Inl (ValueError ''invalid model format'') \<and>
   eval_PCK_sample demo_runtime ''m.onnx'' ''ONNX'' None [''head''] (1 / 2) 10 (1 / 1000000)
     False None (demo_sample 2 3 2 3)
     \<lparr>st_succeed = [(''head'', 0)], st_fail = [(''head'', 0)], st_events = []\<rparr>
     = Inl (ValueError ''invalid model format'',
            st_events \<lparr>st_succeed = [(''head'', 0)], st_fail = [(''head'', 0)], st_events = []\<rparr>) \<and>
   (\<exists>heatmap. eval_PCK_predict demo_runtime ''m.h5'' ''H5'' None
       (sample_image (demo_sample 2 3 2 3)) = Inr heatmap)"
proof -
  note A = model_formats [where rt = demo_runtime and model_path = "''weights/m.h5''"
      and loaded = "''weights/m.h5''" and loaded_format = "''H5''"
      and model = "''m.onnx''" and model_format = "''ONNX''" and session = None
      and image_data = "sample_image (demo_sample 2 3 2 3)"
      and class_names = "[''head'']" and score_threshold = "1 / 2" and normalize' = 10
      and conf_threshold = "1 / 1000000" and save_result = False and skeleton_lines = None
      and smp = "demo_sample 2 3 2 3"
      and st = "\<lparr>st_succeed = [(''head'', 0)], st_fail = [(''head'', 0)], st_events = []\<rparr>"]
  note B = model_formats [where rt = demo_runtime and model = "''m.h5''"
      and model_format = "''H5''" and session = None
      and class_names = "[''head'']" and score_threshold = "1 / 2" and normalize' = 10
      and conf_threshold = "1 / 1000000" and save_result = False and skeleton_lines = None
      and smp = "demo_sample 2 3 2 3"
      and st = "\<lparr>st_succeed = [(''head'', 0)], st_fail = [(''head'', 0)], st_events = []\<rparr>"
      and st' = "\<lparr>st_succeed = [(''head'', 0 + 1)], st_fail = [(''head'', 0)], st_events = []\<rparr>"]
  have h5: "endswith ''weights/m.h5'' ''.h5''" by (simp add: endswith_def)
  have pb: "endswith ''m.pb'' ''.pb''" by (simp add: endswith_def)
  have tfl: "endswith ''m.tflite'' ''.tflite''" by (simp add: endswith_def)
  have mnn: "endswith ''m.mnn'' ''.mnn''" by (simp add: endswith_def)
  have ld: "load_eval_model demo_runtime ''weights/m.h5'' = Inr (''weights/m.h5'', ''H5'')"
    by (simp add: load_eval_model_def endswith_def demo_runtime_def)
  have other: "''ONNX'' \<noteq> ''H5'' \<and> ''ONNX'' \<noteq> ''PB'' \<and> ''ONNX'' \<noteq> ''TFLITE'' \<and> ''ONNX'' \<noteq> ''MNN''"
    by simp
  note O = A [THEN conjunct2, THEN conjunct2, THEN conjunct2, THEN conjunct2, THEN conjunct2,
      THEN conjunct2, THEN conjunct2, THEN conjunct2, THEN conjunct2, THEN conjunct1, THEN mp,
      OF other]
  show ?thesis
    by (intro conjI)
      (rule A [THEN conjunct1, THEN mp, OF h5],
       rule model_formats [THEN conjunct2, THEN conjunct1, THEN mp, OF pb],
       rule model_formats [THEN conjunct2, THEN conjunct2, THEN conjunct1, THEN mp, OF tfl],
       rule model_formats [THEN conjunct2, THEN conjunct2, THEN conjunct2, THEN conjunct1,
         THEN mp, OF mnn],
       rule A [THEN conjunct2, THEN conjunct2, THEN conjunct2, THEN conjunct2, THEN conjunct1,
         THEN mp, OF ld],
       rule O [THEN conjunct1], rule O [THEN conjunct2],
       rule B [THEN conjunct2, THEN conjunct2, THEN conjunct2, THEN conjunct2, THEN conjunct2,
         THEN conjunct2, THEN conjunct2, THEN conjunct2, THEN conjunct2, THEN conjunct2,
         THEN mp, OF demo_sample_0])
qed

section \<open>The conditions under which the script raises\<close>

lemma demo_parse_args:
  "parse_args demo_float demo_command_line =
     Inr \<lparr>arg_model_path = ''weights/m.h5'', arg_classes_path = ''configs/mpii_classes.txt'',
          arg_dataset_path = ''data/mpii'', arg_score_threshold = 1 / 2,
          arg_conf_threshold = 1 / 1000000, arg_model_image_size = ''256x256'',
          arg_save_result = False, arg_skeleton_path = None\<rparr>"
  by (simp add: parse_args_def demo_command_line_def demo_float_simps)

lemma str_split_256: "str_split CHR ''x'' ''256x256'' = [''256'', ''256'']"
  by simp

lemma demo_empty_eval_PCK:
  "eval_PCK demo_runtime_empty ''weights/m.h5'' ''H5'' (demo_dataset\<lparr>get_dataset_size := 0\<rparr>)
     [''head''] (1 / 2) 10 (1 / 1000000) False None = Inl (ZeroDivisionError, [])"
  by (simp add: eval_PCK_unfold eval_PCK_loop.simps demo_dataset_def eval_PCK_finish_def
      dict_comprehension_def dict_getitem_def py_float_div_def)

lemma demo_empty_main: "main demo_runtime_empty demo_command_line = Inl (ZeroDivisionError, [])"
  using demo_empty_eval_PCK
  by (simp add: main_def demo_parse_args str_split_256 Let_def load_eval_model_def endswith_def
      demo_runtime_empty_def demo_runtime_def)

lemma demo_mnn_assertion:
  "hourglass_predict_mnn (demo_runtime_mnn Halide_Type_Int Tensor_DimensionType_Tensorflow)
     ''m.mnn'' 0 (sample_image (demo_sample 2 3 2 3)) = Inl (AssertionError [])"
  by (simp add: hourglass_predict_mnn_def demo_runtime_mnn_def demo_runtime_def
      demo_sample_def Let_def)

lemma demo_mnn_c4:
  "hourglass_predict_mnn (demo_runtime_mnn Halide_Type_Float Tensor_DimensionType_Caffe_C4)
     ''m.mnn'' 0 (sample_image (demo_sample 2 3 2 3))
     = Inl (ValueError ''unsupported output tensor dimension type'')"
  by (simp add: hourglass_predict_mnn_def demo_runtime_mnn_def demo_runtime_def
      demo_sample_def Let_def np_reshape_def)

text \<open>
  C3, as stated, does not hold: a run with a Keras model whose path ends in \<open>.h5\<close> and
  an empty dataset ends in ZeroDivisionError, \<open>hourglass_predict_mnn\<close> raises an
  AssertionError for an output tensor that is not of float type although its dimension
  type is not Caffe_C4, and the dispatch of \<open>eval_PCK\<close> raises for an unknown format.
\<close>

theorem error_conditions_counterexample:
  "load_eval_model demo_runtime_empty ''weights/m.h5'' = Inr (''weights/m.h5'', ''H5'') \<and>
   main demo_runtime_empty demo_command_line = Inl (ZeroDivisionError, []) \<and>
   getDimensionType (mnn_runSession
       (demo_runtime_mnn Halide_Type_Int Tensor_DimensionType_Tensorflow) ''m.mnn'' 0
       (sample_image (demo_sample 2 3 2 3))) = Tensor_DimensionType_Tensorflow \<and>
   hourglass_predict_mnn (demo_runtime_mnn Halide_Type_Int Tensor_DimensionType_Tensorflow)
     ''m.mnn'' 0 (sample_image (demo_sample 2 3 2 3)) = Inl (AssertionError []) \<and>
   eval_PCK_predict demo_runtime ''m.onnx'' ''ONNX'' None (sample_image (demo_sample 2 3 2 3))
     = Inl (ValueError ''invalid model format'')"
  using demo_empty_main demo_mnn_assertion
  by (simp add: load_eval_model_def endswith_def demo_runtime_empty_def demo_runtime_def
      demo_runtime_mnn_def eval_PCK_predict_def)

text \<open>
  C3, amended: \<open>load_eval_model\<close> raises exactly when the model path ends with none of
  \<open>.tflite\<close>, \<open>.mnn\<close>, \<open>.pb\<close> and \<open>.h5\<close>, and then a ValueError;
  \<open>hourglass_predict_mnn\<close> raises whenever the dimension type of the MNN output tensor
  is Caffe_C4, and it raises its ValueError for the unsupported dimension type exactly
  when the input fits the input tensor, the output tensor is of float type with a
  non-empty shape without a zero and as many elements as the shape says, and its
  dimension type is Caffe_C4. These are not the only errors: the dispatch of \<open>eval_PCK\<close>
  raises a ValueError for a model format other than the four.
\<close>

theorem error_conditions:
  "((\<exists>e. load_eval_model rt model_path = Inl e) =
      (\<not> endswith model_path ''.tflite'' \<and> \<not> endswith model_path ''.mnn'' \<and>
       \<not> endswith model_path ''.pb'' \<and> \<not> endswith model_path ''.h5'')) \<and>
   (load_eval_model rt model_path = Inl e \<longrightarrow> e = ValueError ''invalid model file'') \<and>
   (getDimensionType (mnn_runSession rt interpreter session image_data)
      = Tensor_DimensionType_Caffe_C4 \<longrightarrow>
      (\<exists>e. hourglass_predict_mnn rt interpreter session image_data = Inl e)) \<and>
   ((hourglass_predict_mnn rt interpreter session image_data
       = Inl (ValueError ''unsupported output tensor dimension type'')) =
      (mnn_input_shape rt interpreter session \<noteq> [] \<and>
       prod_list (mnn_input_shape rt interpreter session) \<noteq> 0 \<and>
       length (nd_data image_data) mod prod_list (mnn_input_shape rt interpreter session) = 0 \<and>
       getDataType (mnn_runSession rt interpreter session image_data) = Halide_Type_Float \<and>
       getShape (mnn_runSession rt interpreter session image_data) \<noteq> [] \<and>
       prod_list (getShape (mnn_runSession rt interpreter session image_data)) \<noteq> 0 \<and>
       length (getData (mnn_runSession rt interpreter session image_data))
         = prod_list (getShape (mnn_runSession rt interpreter session image_data)) \<and>
       getDimensionType (mnn_runSession rt interpreter session image_data)
         = Tensor_DimensionType_Caffe_C4)) \<and>
   (model_format \<noteq> ''TFLITE'' \<and> model_format \<noteq> ''MNN'' \<and> model_format \<noteq> ''PB'' \<and>
    model_format \<noteq> ''H5'' \<longrightarrow>
      eval_PCK_predict rt model model_format sess image_data
        = Inl (ValueError ''invalid model format''))"
proof (intro conjI impI)
  show "(\<exists>e. load_eval_model rt model_path = Inl e) =
      (\<not> endswith model_path ''.tflite'' \<and> \<not> endswith model_path ''.mnn'' \<and>
       \<not> endswith model_path ''.pb'' \<and> \<not> endswith model_path ''.h5'')"
    by (auto simp: load_eval_model_def)
next
  assume "load_eval_model rt model_path = Inl e"
  then show "e = ValueError ''invalid model file''"
    by (auto simp: load_eval_model_def split: if_splits)
next
  assume "getDimensionType (mnn_runSession rt interpreter session image_data)
      = Tensor_DimensionType_Caffe_C4"
  then show "\<exists>e. hourglass_predict_mnn rt interpreter session image_data = Inl e"
    by (auto simp: hourglass_predict_mnn_def Let_def split: sum.splits)
next
  show "(hourglass_predict_mnn rt interpreter session image_data
       = Inl (ValueError ''unsupported output tensor dimension type'')) =
      (mnn_input_shape rt interpreter session \<noteq> [] \<and>
       prod_list (mnn_input_shape rt interpreter session) \<noteq> 0 \<and>
       length (nd_data image_data) mod prod_list (mnn_input_shape rt interpreter session) = 0 \<and>
       getDataType (mnn_runSession rt interpreter session image_data) = Halide_Type_Float \<and>
       getShape (mnn_runSession rt interpreter session image_data) \<noteq> [] \<and>
       prod_list (getShape (mnn_runSession rt interpreter session image_data)) \<noteq> 0 \<and>
       length (getData (mnn_runSession rt interpreter session image_data))
         = prod_list (getShape (mnn_runSession rt interpreter session image_data)) \<and>
       getDimensionType (mnn_runSession rt interpreter session image_data)
         = Tensor_DimensionType_Caffe_C4)"
    (is "?L = ?R")
  proof
    assume ?R
    then show ?L
      by (simp add: hourglass_predict_mnn_def Let_def np_reshape_def)
  next
    assume l: ?L
    show ?R
    proof (cases "getDimensionType (mnn_runSession rt interpreter session image_data)")
      case Tensor_DimensionType_Tensorflow
      with l show ?thesis
        by (auto simp: hourglass_predict_mnn_def Let_def np_reshape_def nd_index0_def
            split: if_splits list.splits)
    next
      case Tensor_DimensionType_Caffe
      with l show ?thesis
        by (auto simp: hourglass_predict_mnn_def Let_def np_reshape_def nd_index0_def
            np_transpose_0231_def bind_result_def split: if_splits list.splits)
    next
      case Tensor_DimensionType_Caffe_C4
      with l show ?thesis
        by (auto simp: hourglass_predict_mnn_def Let_def np_reshape_def split: if_splits)
    qed
  qed
next
  assume "model_format \<noteq> ''TFLITE'' \<and> model_format \<noteq> ''MNN'' \<and> model_format \<noteq> ''PB'' \<and>
    model_format \<noteq> ''H5''"
  then show "eval_PCK_predict rt model model_format sess image_data
        = Inl (ValueError ''invalid model format'')"
    by (simp add: eval_PCK_predict_def)
qed

theorem error_conditions_witness:
  "ValueError ''invalid model file'' = ValueError ''invalid model file'' \<and>
   (\<exists>e. hourglass_predict_mnn
          (demo_runtime_mnn Halide_Type_Float Tensor_DimensionType_Caffe_C4) ''m.mnn'' 0
          (sample_image (demo_sample 2 3 2 3)) = Inl e) \<and>
   eval_PCK_predict (demo_runtime_mnn Halide_Type_Float Tensor_DimensionType_Caffe_C4)
     ''m.onnx'' ''ONNX'' None (sample_image (demo_sample 2 3 2 3))
     = Inl (ValueError ''invalid model format'') \<and>
   (\<exists>e. load_eval_model (demo_runtime_mnn Halide_Type_Float Tensor_DimensionType_Caffe_C4)
          ''model.txt'' = Inl e)"
proof -
  note T = error_conditions
      [where rt = "demo_runtime_mnn Halide_Type_Float Tensor_DimensionType_Caffe_C4"
        and model_path = "''model.txt''" and e = "ValueError ''invalid model file''"
        and interpreter = "''m.mnn''" and session = 0
        and image_data = "sample_image (demo_sample 2 3 2 3)"
        and model_format = "''ONNX''" and model = "''m.onnx''" and sess = None]
  have h2: "load_eval_model (demo_runtime_mnn Halide_Type_Float Tensor_DimensionType_Caffe_C4)
      ''model.txt'' = Inl (ValueError ''invalid model file'')"
    by (simp add: load_eval_model_def endswith_def)
  have h3: "getDimensionType (mnn_runSession
      (demo_runtime_mnn Halide_Type_Float Tensor_DimensionType_Caffe_C4) ''m.mnn'' 0
      (sample_image (demo_sample 2 3 2 3))) = Tensor_DimensionType_Caffe_C4"
    by (simp add: demo_runtime_mnn_def)
  have h5: "''ONNX'' \<noteq> ''TFLITE'' \<and> ''ONNX'' \<noteq> ''MNN'' \<and> ''ONNX'' \<noteq> ''PB'' \<and> ''ONNX'' \<noteq> ''H5''"
    by simp
  have ext: "\<not> endswith ''model.txt'' ''.tflite'' \<and> \<not> endswith ''model.txt'' ''.mnn'' \<and>
       \<not> endswith ''model.txt'' ''.pb'' \<and> \<not> endswith ''model.txt'' ''.h5''"
    by (simp add: endswith_def)
  show ?thesis
    by (intro conjI)
      (rule T [THEN conjunct2, THEN conjunct1, THEN mp, OF h2],
       rule T [THEN conjunct2, THEN conjunct2, THEN conjunct1, THEN mp, OF h3],
       rule T [THEN conjunct2, THEN conjunct2, THEN conjunct2, THEN conjunct2, THEN mp, OF h5],
       rule T [THEN conjunct1, THEN iffD2, OF ext])
qed

section \<open>Properties of the predict functions\<close>

lemma index_bound2: "x < w \<Longrightarrow> y < h \<Longrightarrow> y * w + x < h * (w::nat)"
proof -
  assume x: "x < w" and y: "y < h"
  then have "y * w + x < Suc y * w" by simp
  also from y have "Suc y * w \<le> h * w" by (intro mult_le_mono1) simp
  finally show ?thesis .
qed

lemma index_bound3:
  "k < c \<Longrightarrow> x < w \<Longrightarrow> y < h \<Longrightarrow> (y * w + x) * c + k < h * w * (c::nat)"
  using index_bound2 [of k c "y * w + x" "h * w"] index_bound2 [of x w y h] by simp

lemma index_bound4:
  "k < c \<Longrightarrow> x < w \<Longrightarrow> y < h \<Longrightarrow> b < n \<Longrightarrow>
     ((b * h + y) * w + x) * c + k < n * h * w * (c::nat)"
  using index_bound3 [of k c x w "b * h + y" "n * h"] index_bound2 [of y h b n] by simp

lemma index_decode:
  fixes b y x k h w c :: nat
  assumes k: "k < c" and x: "x < w" and y: "y < h"
  defines "p \<equiv> ((b * h + y) * w + x) * c + k"
  shows "p mod c = k" and "p div c mod w = x" and "p div (w * c) mod h = y"
    and "p div (h * w * c) = b"
proof -
  have d1: "p div c = (b * h + y) * w + x"
    using k by (simp add: p_def)
  show "p mod c = k" using k by (simp add: p_def)
  show "p div c mod w = x" using x by (simp add: d1)
  have "p div (w * c) = p div c div w"
    by (simp add: div_mult2_eq mult.commute)
  then have d2: "p div (w * c) = b * h + y"
    using x by (simp add: d1)
  then show "p div (w * c) mod h = y" using y by simp
  have "p div (h * w * c) = p div (w * c) div h"
    by (metis div_mult2_eq mult.assoc mult.commute)
  then show "p div (h * w * c) = b"
    using y by (simp add: d2)
qed

lemma nd_index0_batch:
  assumes "nd_shape batch = [n, h, w, c]" and "0 < n" and "length (nd_data batch) = n * h * w * c"
  shows "\<exists>heatmap. nd_index0 batch = Inr heatmap \<and> nd_shape heatmap = [h, w, c] \<and>
           (\<forall>y<h. \<forall>x<w. \<forall>k<c. nd_get3 heatmap y x k = nd_get4 batch 0 y x k)"
proof -
  let ?hm = "\<lparr>nd_shape = [h, w, c], nd_data = take (h * w * c) (nd_data batch)\<rparr>"
  from assms have r: "nd_index0 batch = Inr ?hm"
    by (simp add: nd_index0_def mult.assoc)
  have "nd_get3 ?hm y x k = nd_get4 batch 0 y x k" if "y < h" "x < w" "k < c" for y x k
    using index_bound3 [OF that(3,2,1)] assms(1)
    by (simp add: nd_get3_def nd_get4_def)
  with r show ?thesis by auto
qed

lemma np_transpose_0231_get:
  assumes "nd_shape a = [n, c, h, w]"
  shows "\<exists>t. np_transpose_0231 a = Inr t \<and> nd_shape t = [n, h, w, c] \<and>
           length (nd_data t) = n * h * w * c \<and>
           (\<forall>b<n. \<forall>y<h. \<forall>x<w. \<forall>k<c. nd_get4 t b y x k = nd_get4 a b k y x)"
proof -
  let ?t = "\<lparr>nd_shape = [n, h, w, c],
             nd_data = map (\<lambda>p. nd_data a !
                 (((p div (h * w * c) * c + p mod c) * h + p div (w * c) mod h) * w
                   + p div c mod w))
               [0..<n * h * w * c]\<rparr>"
  from assms have r: "np_transpose_0231 a = Inr ?t"
    by (simp add: np_transpose_0231_def Let_def)
  have "nd_get4 ?t b y x k = nd_get4 a b k y x"
    if "b < n" "y < h" "x < w" "k < c" for b y x k
    using index_bound4 [OF that(4,3,2,1)] index_decode [OF that(4,3,2), of b] assms
    by (simp add: nd_get4_def)
  with r show ?thesis by auto
qed

lemma hourglass_predict_mnn_ready:
  assumes "mnn_input_shape rt interpreter session \<noteq> []"
    and "prod_list (mnn_input_shape rt interpreter session) \<noteq> 0"
    and "length (nd_data image_data) mod prod_list (mnn_input_shape rt interpreter session) = 0"
    and "getDataType (mnn_runSession rt interpreter session image_data) = Halide_Type_Float"
    and "getShape (mnn_runSession rt interpreter session image_data) \<noteq> []"
    and "prod_list (getShape (mnn_runSession rt interpreter session image_data)) \<noteq> 0"
    and "length (getData (mnn_runSession rt interpreter session image_data))
           = prod_list (getShape (mnn_runSession rt interpreter session image_data))"
  shows "hourglass_predict_mnn rt interpreter session image_data =
     (let output_data = \<lparr>nd_shape = getShape (mnn_runSession rt interpreter session image_data),
                          nd_data = getData (mnn_runSession rt interpreter session image_data)\<rparr>
      in if getDimensionType (mnn_runSession rt interpreter session image_data)
              = Tensor_DimensionType_Caffe
         then bind_result (np_transpose_0231 output_data) nd_index0
         else if getDimensionType (mnn_runSession rt interpreter session image_data)
                   = Tensor_DimensionType_Caffe_C4
         then Inl (ValueError ''unsupported output tensor dimension type'')
         else nd_index0 output_data)"
  using assms by (simp add: hourglass_predict_mnn_def Let_def np_reshape_def)

text \<open>
  C7: each of the four predict functions returns batch element 0 of one output array:
  the Keras one of the last array of a list of outputs (or of the single array), the
  TFLite one of the tensor of the last output detail, the frozen-graph one of the output
  tensor, the MNN one of the output tensor, transposed from channel-first to channel-last
  when its dimension type is Caffe. Batch element 0 of a channel-last batch is the
  array of its \<open>(y, x, channel)\<close> entries.
\<close>

theorem predict_return_contract:
  "(keras_predict rt model image_data = PredictionList outputs \<and> outputs \<noteq> [] \<longrightarrow>
      hourglass_predict_keras rt model image_data = nd_index0 (last outputs)) \<and>
   (keras_predict rt model image_data = PredictionArray prediction \<longrightarrow>
      hourglass_predict_keras rt model image_data = nd_index0 prediction) \<and>
   (tflite_input_shapes rt model \<noteq> [] \<and> 3 \<le> length (tflite_input_shapes rt model ! 0) \<and>
    tflite_invoke rt model image_data \<noteq> [] \<longrightarrow>
      hourglass_predict_tflite rt model image_data
        = nd_index0 (last (tflite_invoke rt model image_data))) \<and>
   hourglass_predict_pb rt model image_data = nd_index0 (tf_session_run rt model image_data) \<and>
   (mnn_input_shape rt model session \<noteq> [] \<and>
    prod_list (mnn_input_shape rt model session) \<noteq> 0 \<and>
    length (nd_data image_data) mod prod_list (mnn_input_shape rt model session) = 0 \<and>
    getDataType (mnn_runSession rt model session image_data) = Halide_Type_Float \<and>
    getShape (mnn_runSession rt model session image_data) \<noteq> [] \<and>
    prod_list (getShape (mnn_runSession rt model session image_data)) \<noteq> 0 \<and>
    length (getData (mnn_runSession rt model session image_data))
      = prod_list (getShape (mnn_runSession rt model session image_data)) \<and>
    getDimensionType (mnn_runSession rt model session image_data)
      = Tensor_DimensionType_Tensorflow \<longrightarrow>
      hourglass_predict_mnn rt model session image_data
        = nd_index0 \<lparr>nd_shape = getShape (mnn_runSession rt model session image_data),
                     nd_data = getData (mnn_runSession rt model session image_data)\<rparr>) \<and>
   (mnn_input_shape rt model session \<noteq> [] \<and>
    prod_list (mnn_input_shape rt model session) \<noteq> 0 \<and>
    length (nd_data image_data) mod prod_list (mnn_input_shape rt model session) = 0 \<and>
    getDataType (mnn_runSession rt model session image_data) = Halide_Type_Float \<and>
    getShape (mnn_runSession rt model session image_data) = [n, c, h, w] \<and>
    n * c * h * w \<noteq> 0 \<and>
    length (getData (mnn_runSession rt model session image_data)) = n * c * h * w \<and>
    getDimensionType (mnn_runSession rt model session image_data)
      = Tensor_DimensionType_Caffe \<longrightarrow>
      (\<exists>heatmap. hourglass_predict_mnn rt model session image_data = Inr heatmap \<and>
         nd_shape heatmap = [h, w, c] \<and>
         (\<forall>y<h. \<forall>x<w. \<forall>k<c.
            nd_get3 heatmap y x k
              = nd_get4 \<lparr>nd_shape = [n, c, h, w],
                         nd_data = getData (mnn_runSession rt model session image_data)\<rparr>
                  0 k y x))) \<and>
   (nd_shape batch = [n, h, w, c] \<and> 0 < n \<and> length (nd_data batch) = n * h * w * c \<longrightarrow>
      (\<exists>heatmap. nd_index0 batch = Inr heatmap \<and> nd_shape heatmap = [h, w, c] \<and>
         (\<forall>y<h. \<forall>x<w. \<forall>k<c. nd_get3 heatmap y x k = nd_get4 batch 0 y x k)))"
proof (intro conjI impI)
  assume "keras_predict rt model image_data = PredictionList outputs \<and> outputs \<noteq> []"
  then show "hourglass_predict_keras rt model image_data = nd_index0 (last outputs)"
    by (simp add: hourglass_predict_keras_def)
next
  assume "keras_predict rt model image_data = PredictionArray prediction"
  then show "hourglass_predict_keras rt model image_data = nd_index0 prediction"
    by (simp add: hourglass_predict_keras_def)
next
  assume "tflite_input_shapes rt model \<noteq> [] \<and> 3 \<le> length (tflite_input_shapes rt model ! 0) \<and>
    tflite_invoke rt model image_data \<noteq> []"
  then show "hourglass_predict_tflite rt model image_data
        = nd_index0 (last (tflite_invoke rt model image_data))"
    by (simp add: hourglass_predict_tflite_def Let_def)
next
  show "hourglass_predict_pb rt model image_data = nd_index0 (tf_session_run rt model image_data)"
    by (simp add: hourglass_predict_pb_def)
next
  assume a: "mnn_input_shape rt model session \<noteq> [] \<and>
    prod_list (mnn_input_shape rt model session) \<noteq> 0 \<and>
    length (nd_data image_data) mod prod_list (mnn_input_shape rt model session) = 0 \<and>
    getDataType (mnn_runSession rt model session image_data) = Halide_Type_Float \<and>
    getShape (mnn_runSession rt model session image_data) \<noteq> [] \<and>
    prod_list (getShape (mnn_runSession rt model session image_data)) \<noteq> 0 \<and>
    length (getData (mnn_runSession rt model session image_data))
      = prod_list (getShape (mnn_runSession rt model session image_data)) \<and>
    getDimensionType (mnn_runSession rt model session image_data)
      = Tensor_DimensionType_Tensorflow"
  then have "hourglass_predict_mnn rt model session image_data =
     (let output_data = \<lparr>nd_shape = getShape (mnn_runSession rt model session image_data),
                          nd_data = getData (mnn_runSession rt model session image_data)\<rparr>
      in if getDimensionType (mnn_runSession rt model session image_data)
              = Tensor_DimensionType_Caffe
         then bind_result (np_transpose_0231 output_data) nd_index0
         else if getDimensionType (mnn_runSession rt model session image_data)
                   = Tensor_DimensionType_Caffe_C4
         then Inl (ValueError ''unsupported output tensor dimension type'')
         else nd_index0 output_data)"
    by (intro hourglass_predict_mnn_ready) simp_all
  with a show "hourglass_predict_mnn rt model session image_data
        = nd_index0 \<lparr>nd_shape = getShape (mnn_runSession rt model session image_data),
                     nd_data = getData (mnn_runSession rt model session image_data)\<rparr>"
    by (simp add: Let_def)
next
  assume a: "mnn_input_shape rt model session \<noteq> [] \<and>
    prod_list (mnn_input_shape rt model session) \<noteq> 0 \<and>
    length (nd_data image_data) mod prod_list (mnn_input_shape rt model session) = 0 \<and>
    getDataType (mnn_runSession rt model session image_data) = Halide_Type_Float \<and>
    getShape (mnn_runSession rt model session image_data) = [n, c, h, w] \<and>
    n * c * h * w \<noteq> 0 \<and>
    length (getData (mnn_runSession rt model session image_data)) = n * c * h * w \<and>
    getDimensionType (mnn_runSession rt model session image_data)
      = Tensor_DimensionType_Caffe"
  let ?raw = "\<lparr>nd_shape = [n, c, h, w],
               nd_data = getData (mnn_runSession rt model session image_data)\<rparr>"
  from a have "hourglass_predict_mnn rt model session image_data =
     (let output_data = \<lparr>nd_shape = getShape (mnn_runSession rt model session image_data),
                          nd_data = getData (mnn_runSession rt model session image_data)\<rparr>
      in if getDimensionType (mnn_runSession rt model session image_data)
              = Tensor_DimensionType_Caffe
         then bind_result (np_transpose_0231 output_data) nd_index0
         else if getDimensionType (mnn_runSession rt model session image_data)
                   = Tensor_DimensionType_Caffe_C4
         then Inl (ValueError ''unsupported output tensor dimension type'')
         else nd_index0 output_data)"
    by (intro hourglass_predict_mnn_ready) (simp_all add: mult.assoc)
  with a have m: "hourglass_predict_mnn rt model session image_data
      = bind_result (np_transpose_0231 ?raw) nd_index0"
    by (simp add: Let_def)
  from np_transpose_0231_get [of ?raw n c h w] obtain t where
    t: "np_transpose_0231 ?raw = Inr t" "nd_shape t = [n, h, w, c]"
      "length (nd_data t) = n * h * w * c"
      "\<forall>b<n. \<forall>y<h. \<forall>x<w. \<forall>k<c. nd_get4 t b y x k = nd_get4 ?raw b k y x"
    by auto
  from a have n: "0 < n" by simp
  from nd_index0_batch [OF t(2) n t(3)] obtain heatmap where
    hm: "nd_index0 t = Inr heatmap" "nd_shape heatmap = [h, w, c]"
      "\<forall>y<h. \<forall>x<w. \<forall>k<c. nd_get3 heatmap y x k = nd_get4 t 0 y x k"
    by blast
  from m t(1) hm(1) have "hourglass_predict_mnn rt model session image_data = Inr heatmap"
    by (simp add: bind_result_def)
  moreover from hm(3) t(4) n have
    "\<forall>y<h. \<forall>x<w. \<forall>k<c. nd_get3 heatmap y x k = nd_get4 ?raw 0 k y x"
    by simp
  ultimately show "\<exists>heatmap. hourglass_predict_mnn rt model session image_data = Inr heatmap \<and>
         nd_shape heatmap = [h, w, c] \<and>
         (\<forall>y<h. \<forall>x<w. \<forall>k<c. nd_get3 heatmap y x k = nd_get4 ?raw 0 k y x)"
    using hm(2) by blast
next
  assume "nd_shape batch = [n, h, w, c] \<and> 0 < n \<and> length (nd_data batch) = n * h * w * c"
  then show "\<exists>heatmap. nd_index0 batch = Inr heatmap \<and> nd_shape heatmap = [h, w, c] \<and>
         (\<forall>y<h. \<forall>x<w. \<forall>k<c. nd_get3 heatmap y x k = nd_get4 batch 0 y x k)"
    using nd_index0_batch by blast
qed

theorem predict_return_contract_witness:
  "hourglass_predict_keras demo_runtime_stages ''m.h5'' (sample_image (demo_sample 2 3 2 3))
     = nd_index0 (last [\<lparr>nd_shape = [1, 1, 1, 2], nd_data = [0, 0]\<rparr>,
                        sample_image (demo_sample 2 3 2 3)]) \<and>
   hourglass_predict_keras demo_runtime ''m.h5'' (sample_image (demo_sample 2 3 2 3))
     = nd_index0 (sample_image (demo_sample 2 3 2 3)) \<and>
   hourglass_predict_tflite demo_runtime_stages ''m.tflite'' (sample_image (demo_sample 2 3 2 3))
     = nd_index0 (last (tflite_invoke demo_runtime_stages ''m.tflite''
                          (sample_image (demo_sample 2 3 2 3)))) \<and>
   hourglass_predict_mnn demo_runtime ''m.mnn'' 0 (sample_image (demo_sample 2 3 2 3))
     = nd_index0
         \<lparr>nd_shape = getShape (mnn_runSession demo_runtime ''m.mnn'' 0
                        (sample_image (demo_sample 2 3 2 3))),
          nd_data = getData (mnn_runSession demo_runtime ''m.mnn'' 0
                        (sample_image (demo_sample 2 3 2 3)))\<rparr> \<and>
   (\<exists>heatmap.
      hourglass_predict_mnn (demo_runtime_mnn Halide_Type_Float Tensor_DimensionType_Caffe)
        ''m.mnn'' 0 (sample_image (demo_sample 2 3 2 3)) = Inr heatmap \<and>
      nd_shape heatmap = [1, 1, 2] \<and>
      (\<forall>y<1. \<forall>x<1. \<forall>k<2.
         nd_get3 heatmap y x k
           = nd_get4 \<lparr>nd_shape = [1, 2, 1, 1],
                      nd_data = getData (mnn_runSession
                        (demo_runtime_mnn Halide_Type_Float Tensor_DimensionType_Caffe)
                        ''m.mnn'' 0 (sample_image (demo_sample 2 3 2 3)))\<rparr>
               0 k y x)) \<and>
   (\<exists>heatmap. nd_index0 (sample_image (demo_sample 2 3 2 3)) = Inr heatmap \<and>
      nd_shape heatmap = [1, 1, 2] \<and>
      (\<forall>y<1. \<forall>x<1. \<forall>k<2.
         nd_get3 heatmap y x k = nd_get4 (sample_image (demo_sample 2 3 2 3)) 0 y x k))"
proof -
  let ?img = "sample_image (demo_sample 2 3 2 3)"
  let ?zeros = "\<lparr>nd_shape = [1, 1, 1, 2], nd_data = [0, 0::real]\<rparr>"
  note S = predict_return_contract [where rt = demo_runtime_stages and model = "''m.h5''"
      and image_data = ?img and outputs = "[?zeros, ?img]"]
  note S' = predict_return_contract [where rt = demo_runtime_stages and model = "''m.tflite''"
      and image_data = ?img]
  note D = predict_return_contract [where rt = demo_runtime and model = "''m.h5''"
      and image_data = ?img and prediction = ?img
      and batch = ?img and n = 1 and h = 1 and w = 1 and c = 2]
  note M = predict_return_contract [where rt = demo_runtime and model = "''m.mnn''"
      and session = 0 and image_data = ?img]
  note C = predict_return_contract
      [where rt = "demo_runtime_mnn Halide_Type_Float Tensor_DimensionType_Caffe"
        and model = "''m.mnn''" and session = 0 and image_data = ?img
        and n = 1 and c = 2 and h = 1 and w = 1]
  have h1: "keras_predict demo_runtime_stages ''m.h5'' ?img = PredictionList [?zeros, ?img] \<and>
      [?zeros, ?img] \<noteq> []"
    by (simp add: demo_runtime_stages_def demo_runtime_def)
  have h2: "keras_predict demo_runtime ''m.h5'' ?img = PredictionArray ?img"
    by (simp add: demo_runtime_def)
  have h3: "tflite_input_shapes demo_runtime_stages ''m.tflite'' \<noteq> [] \<and>
      3 \<le> length (tflite_input_shapes demo_runtime_stages ''m.tflite'' ! 0) \<and>
      tflite_invoke demo_runtime_stages ''m.tflite'' ?img \<noteq> []"
    by (simp add: demo_runtime_stages_def demo_runtime_def)
  have h5: "mnn_input_shape demo_runtime ''m.mnn'' 0 \<noteq> [] \<and>
    prod_list (mnn_input_shape demo_runtime ''m.mnn'' 0) \<noteq> 0 \<and>
    length (nd_data ?img) mod prod_list (mnn_input_shape demo_runtime ''m.mnn'' 0) = 0 \<and>
    getDataType (mnn_runSession demo_runtime ''m.mnn'' 0 ?img) = Halide_Type_Float \<and>
    getShape (mnn_runSession demo_runtime ''m.mnn'' 0 ?img) \<noteq> [] \<and>
    prod_list (getShape (mnn_runSession demo_runtime ''m.mnn'' 0 ?img)) \<noteq> 0 \<and>
    length (getData (mnn_runSession demo_runtime ''m.mnn'' 0 ?img))
      = prod_list (getShape (mnn_runSession demo_runtime ''m.mnn'' 0 ?img)) \<and>
    getDimensionType (mnn_runSession demo_runtime ''m.mnn'' 0 ?img)
      = Tensor_DimensionType_Tensorflow"
    by (simp add: demo_runtime_def demo_sample_def)
  let ?rc = "demo_runtime_mnn Halide_Type_Float Tensor_DimensionType_Caffe"
  have h6: "mnn_input_shape ?rc ''m.mnn'' 0 \<noteq> [] \<and>
    prod_list (mnn_input_shape ?rc ''m.mnn'' 0) \<noteq> 0 \<and>
    length (nd_data ?img) mod prod_list (mnn_input_shape ?rc ''m.mnn'' 0) = 0 \<and>
    getDataType (mnn_runSession ?rc ''m.mnn'' 0 ?img) = Halide_Type_Float \<and>
    getShape (mnn_runSession ?rc ''m.mnn'' 0 ?img) = [1, 2, 1, 1] \<and>
    1 * 2 * 1 * 1 \<noteq> (0::nat) \<and>
    length (getData (mnn_runSession ?rc ''m.mnn'' 0 ?img)) = 1 * 2 * 1 * 1 \<and>
    getDimensionType (mnn_runSession ?rc ''m.mnn'' 0 ?img) = Tensor_DimensionType_Caffe"
    by (simp add: demo_runtime_mnn_def demo_runtime_def demo_sample_def)
  have h7: "nd_shape ?img = [1, 1, 1, 2] \<and> 0 < (1::nat) \<and> length (nd_data ?img) = 1 * 1 * 1 * 2"
    by (simp add: demo_sample_def)
  show ?thesis
    by (intro conjI)
      (rule S [THEN conjunct1, THEN mp, OF h1],
       rule D [THEN conjunct2, THEN conjunct1, THEN mp, OF h2],
       rule S' [THEN conjunct2, THEN conjunct2, THEN conjunct1, THEN mp, OF h3],
       rule M [THEN conjunct2, THEN conjunct2, THEN conjunct2, THEN conjunct2, THEN conjunct1,
         THEN mp, OF h5],
       rule C [THEN conjunct2, THEN conjunct2, THEN conjunct2, THEN conjunct2, THEN conjunct2,
         THEN conjunct1, THEN mp, OF h6],
       rule D [THEN conjunct2, THEN conjunct2, THEN conjunct2, THEN conjunct2, THEN conjunct2,
         THEN conjunct2, THEN mp, OF h7])
qed

section \<open>Properties of the command line and of the outputs\<close>

lemma eval_PCK_sample_events:
  assumes "eval_PCK_sample rt model fmt sess cn thr nrm conf save skel smp st = Inr st'"
  shows "st_events st' = st_events st @
     (if save
      then [TouchDir ''result/detection'',
            SaveImage (''result/detection/'' @
                       last_path_component (mi_name (sample_metainfo smp ! 0)))]
      else [])"
proof -
  from eval_PCK_sample_count [OF assms] obtain pk hs meta rl where
    res: "eval_PCK_results rt model fmt sess thr nrm conf smp = Inr (pk, hs, meta, rl)"
    by blast
  from eval_PCK_results_sound [OF res] have meta: "meta = sample_metainfo smp ! 0" by simp
  from assms res meta show ?thesis
    by (auto simp: eval_PCK_sample_def save_keypoints_detection_def Let_def
        split: sum.splits if_splits prod.splits)
qed

lemma eval_PCK_sample_error_events:
  "eval_PCK_sample rt model fmt sess cn thr nrm conf False skel smp st = Inl (e, ev)
     \<Longrightarrow> ev = st_events st"
  by (auto simp: eval_PCK_sample_def split: sum.splits prod.splits)

lemma run_samples_events:
  "run_samples (eval_PCK_sample rt model fmt sess cn thr nrm conf save skel) smps st = Inr st'
   \<Longrightarrow> st_events st' = st_events st @
     (if save
      then concat (map (\<lambda>smp. [TouchDir ''result/detection'',
             SaveImage (''result/detection/'' @
                        last_path_component (mi_name (sample_metainfo smp ! 0)))]) smps)
      else [])"
proof (induction smps arbitrary: st)
  case Nil
  then show ?case by simp
next
  case (Cons smp rest)
  from Cons.prems obtain st1 where
    one: "eval_PCK_sample rt model fmt sess cn thr nrm conf save skel smp st = Inr st1" and
    more: "run_samples (eval_PCK_sample rt model fmt sess cn thr nrm conf save skel) rest st1
             = Inr st'"
    by (auto split: sum.splits)
  from Cons.IH [OF more] eval_PCK_sample_events [OF one] show ?case by simp
qed

lemma run_samples_error_events:
  "run_samples (eval_PCK_sample rt model fmt sess cn thr nrm conf False skel) smps st
     = Inl (e, ev) \<Longrightarrow> ev = st_events st"
proof (induction smps arbitrary: st)
  case Nil
  then show ?case by simp
next
  case (Cons smp rest)
  show ?case
  proof (cases "eval_PCK_sample rt model fmt sess cn thr nrm conf False skel smp st")
    case (Inl err)
    with Cons.prems show ?thesis
      by (auto dest: eval_PCK_sample_error_events)
  next
    case (Inr st1)
    with Cons.prems have
      "run_samples (eval_PCK_sample rt model fmt sess cn thr nrm conf False skel) rest st1
         = Inl (e, ev)"
      by simp
    from Cons.IH [OF this] eval_PCK_sample_events [OF Inr] show ?thesis by simp
  qed
qed

lemma eval_PCK_finish_events:
  "eval_PCK_finish cn save acc0 st = Inr (tot, acc, ev) \<Longrightarrow>
     ev = st_events st @
       (if save
        then [TouchDir ''result'',
              SavePlot ''result/PCK.jpg'' (map fst (sort_key snd acc)) (map snd (sort_key snd acc))]
        else [])"
  by (auto simp: eval_PCK_finish_def draw_plot_func_def Let_def
      split: sum.splits if_splits prod.splits)

lemma eval_PCK_finish_error_events:
  "eval_PCK_finish cn False acc0 st = Inl (e, ev) \<Longrightarrow> ev = st_events st"
  by (auto simp: eval_PCK_finish_def Let_def split: sum.splits)

lemma eval_PCK_events:
  assumes "eval_PCK rt model fmt ds cn thr nrm conf save skel = Inr (tot, acc, ev)"
  shows "ev =
     (if save
      then concat (map (\<lambda>smp. [TouchDir ''result/detection'',
             SaveImage (''result/detection/'' @
                        last_path_component (mi_name (sample_metainfo smp ! 0)))])
             (generated (generator ds 1 8 1 False True) 0 (get_dataset_size ds))) @
           [TouchDir ''result'',
            SavePlot ''result/PCK.jpg'' (map fst (sort_key snd acc)) (map snd (sort_key snd acc))]
      else [])"
    and "fst ` set acc = set cn"
proof -
  let ?sess = "if fmt = ''MNN'' then Some (mnn_createSession rt model) else None"
  let ?st0 = "\<lparr>st_succeed = dict_comprehension cn (0::int),
               st_fail = dict_comprehension cn (0::int), st_events = []\<rparr>"
  from assms obtain st where
    loop: "eval_PCK_loop (eval_PCK_sample rt model fmt ?sess cn thr nrm conf save skel)
            (get_dataset_size ds) (generator ds 1 8 1 False True) 0 0 ?st0 = Inr st" and
    fin: "eval_PCK_finish cn save (dict_comprehension cn 0) st = Inr (tot, acc, ev)"
    by (auto simp: eval_PCK_unfold split: sum.splits)
  from loop have run: "run_samples (eval_PCK_sample rt model fmt ?sess cn thr nrm conf save skel)
      (generated (generator ds 1 8 1 False True) 0 (get_dataset_size ds)) ?st0 = Inr st"
    by (simp only: eval_PCK_loop_run_samples diff_zero)
  from run_samples_events [OF run] eval_PCK_finish_events [OF fin]
  show "ev =
     (if save
      then concat (map (\<lambda>smp. [TouchDir ''result/detection'',
             SaveImage (''result/detection/'' @
                        last_path_component (mi_name (sample_metainfo smp ! 0)))])
             (generated (generator ds 1 8 1 False True) 0 (get_dataset_size ds))) @
           [TouchDir ''result'',
            SavePlot ''result/PCK.jpg'' (map fst (sort_key snd acc)) (map snd (sort_key snd acc))]
      else [])"
    by simp
  note snd = eval_PCK_accuracy_sound [OF eval_PCK_finish_Inr(1) [OF fin]]
  show "fst ` set acc = set cn"
  proof (intro set_eqI iffI)
    fix c assume "c \<in> fst ` set acc"
    then have "map_of acc c \<noteq> None" by (simp add: map_of_eq_None_iff)
    with snd show "c \<in> set cn"
      by (cases "c \<in> set cn") (auto simp: map_of_dict_comprehension)
  next
    fix c assume "c \<in> set cn"
    with snd have "map_of acc c \<noteq> None" by fastforce
    then show "c \<in> fst ` set acc" by (simp add: map_of_eq_None_iff)
  qed
qed

lemma eval_PCK_error_events:
  assumes "eval_PCK rt model fmt ds cn thr nrm conf False skel = Inl (e, ev)"
  shows "ev = []"
proof -
  let ?sess = "if fmt = ''MNN'' then Some (mnn_createSession rt model) else None"
  let ?st0 = "\<lparr>st_succeed = dict_comprehension cn (0::int),
               st_fail = dict_comprehension cn (0::int), st_events = []\<rparr>"
  let ?run = "run_samples (eval_PCK_sample rt model fmt ?sess cn thr nrm conf False skel)
      (generated (generator ds 1 8 1 False True) 0 (get_dataset_size ds)) ?st0"
  have u: "eval_PCK rt model fmt ds cn thr nrm conf False skel =
     (case ?run of Inl err \<Rightarrow> Inl err
      | Inr st \<Rightarrow> eval_PCK_finish cn False (dict_comprehension cn 0) st)"
    by (simp only: eval_PCK_unfold eval_PCK_loop_run_samples diff_zero)
  show ?thesis
  proof (cases ?run)
    case (Inl err)
    with assms u have "?run = Inl (e, ev)" by simp
    from run_samples_error_events [OF this] show ?thesis by simp
  next
    case (Inr st)
    with assms u have "eval_PCK_finish cn False (dict_comprehension cn 0) st = Inl (e, ev)"
      by simp
    from eval_PCK_finish_error_events [OF this] run_samples_events [OF Inr]
    show ?thesis by simp
  qed
qed

lemma demo_sample_save:
  "eval_PCK_sample demo_runtime m ''H5'' None [''head''] (1 / 2) 10 c True None
     (demo_sample x y gx gy) st = Inr st'
   \<Longrightarrow> st_events st' = st_events st @
         [TouchDir ''result/detection'', SaveImage ''result/detection/p.jpg'']"
  by (drule eval_PCK_sample_events) (simp add: demo_sample_def last_path_component_def)

lemma demo_revert: "revert_keypoints demo_runtime keypoints meta heatmap_size = keypoints"
  by (simp add: revert_keypoints_def demo_runtime_def)

lemma demo_save:
  "save_keypoints_detection demo_float [[a, b, c]] (sample_metainfo (demo_sample x y gx gy) ! 0)
     [''head''] None
   = ([TouchDir ''result/detection'', SaveImage ''result/detection/p.jpg''], Inr ())"
  by (simp add: save_keypoints_detection_def demo_sample_def last_path_component_def)

lemma demo_sample_0_save:
  "eval_PCK_sample demo_runtime m ''H5'' None [''head''] (1 / 2) 10 c True None
     (demo_sample 2 3 2 3) \<lparr>st_succeed = [(''head'', s)], st_fail = [(''head'', f)], st_events = ev\<rparr>
   = Inr \<lparr>st_succeed = [(''head'', s + 1)], st_fail = [(''head'', f)],
          st_events = ev @ [TouchDir ''result/detection'', SaveImage ''result/detection/p.jpg'']\<rparr>"
  by (simp add: eval_PCK_sample_def demo_results_0 dict_getitem_def demo_revert demo_save
      demo_float_arith)

lemma demo_sample_1_save:
  "eval_PCK_sample demo_runtime m ''H5'' None [''head''] (1 / 2) 10 c True None
     (demo_sample 27 36 30 40) \<lparr>st_succeed = [(''head'', s)], st_fail = [(''head'', f)], st_events = ev\<rparr>
   = Inr \<lparr>st_succeed = [(''head'', s)], st_fail = [(''head'', f + 1)],
          st_events = ev @ [TouchDir ''result/detection'', SaveImage ''result/detection/p.jpg'']\<rparr>"
  by (simp add: eval_PCK_sample_def demo_results_1 dict_getitem_def demo_revert demo_save
      demo_float_arith)

lemma demo_sample_2_save:
  "eval_PCK_sample demo_runtime m ''H5'' None [''head''] (1 / 2) 10 c True None
     (demo_sample 5 5 0 0) \<lparr>st_succeed = [(''head'', s)], st_fail = [(''head'', f)], st_events = ev\<rparr>
   = Inr \<lparr>st_succeed = [(''head'', s)], st_fail = [(''head'', f)],
          st_events = ev @ [TouchDir ''result/detection'', SaveImage ''result/detection/p.jpg'']\<rparr>"
  by (simp add: eval_PCK_sample_def demo_results_2 dict_getitem_def demo_revert demo_save
      demo_float_arith)

lemma demo_eval_PCK_save:
  "eval_PCK demo_runtime ''weights/m.h5'' ''H5'' demo_dataset [''head''] (1 / 2) 10
     (1 / 1000000) True None
   = Inr (NpFloat (1 / 2), [(''head'', 1 / 2)],
          [TouchDir ''result/detection'', SaveImage ''result/detection/p.jpg'',
           TouchDir ''result/detection'', SaveImage ''result/detection/p.jpg'',
           TouchDir ''result/detection'', SaveImage ''result/detection/p.jpg'',
           TouchDir ''result'', SavePlot ''result/PCK.jpg'' [''head''] [1 / 2]])"
  by (simp add: eval_PCK_unfold eval_PCK_loop.simps demo_dataset_def dict_comprehension_def
      demo_sample_0_save demo_sample_1_save demo_sample_2_save
      eval_PCK_finish_def dict_getitem_def py_float_div_def np_true_divide_def
      draw_plot_func_def)

lemma demo_eval_PCK_plain:
  "eval_PCK demo_runtime m ''H5'' demo_dataset [''head''] (1 / 2) 10 c False None
     = Inr (NpFloat (1 / 2), [(''head'', 1 / 2)], [])"
  using demo_loop [of m c]
  by (simp add: eval_PCK_unfold eval_PCK_finish_def dict_getitem_def py_float_div_def
      np_true_divide_def dict_comprehension_def)

lemma demo_load: "load_eval_model demo_runtime ''weights/m.h5'' = Inr (''weights/m.h5'', ''H5'')"
  by (simp add: load_eval_model_def endswith_def demo_runtime_def)

lemma demo_env:
  "get_classes demo_runtime path = [''head'']"
  "py_int demo_runtime ''256'' = Inr 256"
  "get_normalize demo_runtime size' = 10"
  "hourglass_dataset demo_runtime path class_names size' = demo_dataset"
  by (simp_all add: demo_runtime_def)

lemma demo_main:
  "main demo_runtime demo_command_line
   = Inr [PrintLine [], PrintLine ''PCK evaluation'', PrintAccuracy ''head'' (1 / 2),
          PrintTotal (NpFloat (1 / 2))]"
  by (simp add: main_def demo_float_arith demo_parse_args str_split_256 Let_def demo_load
      demo_env demo_eval_PCK_plain)

lemma demo_main_save:
  "main demo_runtime (demo_command_line\<lparr>opt_save_result := True\<rparr>)
   = Inr [TouchDir ''result/detection'', SaveImage ''result/detection/p.jpg'',
          TouchDir ''result/detection'', SaveImage ''result/detection/p.jpg'',
          TouchDir ''result/detection'', SaveImage ''result/detection/p.jpg'',
          TouchDir ''result'', SavePlot ''result/PCK.jpg'' [''head''] [1 / 2],
          PrintLine [], PrintLine ''PCK evaluation'', PrintAccuracy ''head'' (1 / 2),
          PrintTotal (NpFloat (1 / 2))]"
  by (simp add: main_def demo_float_arith demo_float_simps parse_args_def
      demo_command_line_def str_split_256 Let_def demo_load demo_env demo_eval_PCK_save)

lemma parse_args_Inr:
  "parse_args fl cl = Inr a \<Longrightarrow>
     arg_save_result a = opt_save_result cl \<and>
     arg_classes_path a
       = (case opt_classes_path cl of None \<Rightarrow> ''configs/mpii_classes.txt'' | Some v \<Rightarrow> v)"
  by (auto simp: parse_args_def split: option.splits)

lemma main_Inr:
  assumes "main rt cl = Inr ev"
  shows "\<exists>a height width model fmt tot acc pre.
     parse_args (float_arith rt) cl = Inr a \<and>
     eval_PCK rt model fmt
       (hourglass_dataset rt (arg_dataset_path a) (get_classes rt (arg_classes_path a))
          (height, width))
       (get_classes rt (arg_classes_path a)) (arg_score_threshold a)
       (get_normalize rt (height, width)) (arg_conf_threshold a) (arg_save_result a)
       (case arg_skeleton_path a of
          None \<Rightarrow> None
        | Some path \<Rightarrow> if path = [] then None else Some (get_skeleton rt path))
       = Inr (tot, acc, pre) \<and>
     ev = pre @ [PrintLine [], PrintLine ''PCK evaluation'']
            @ map (\<lambda>(class_name, accuracy). PrintAccuracy class_name accuracy) acc
            @ [PrintTotal tot]"
  using assms
  by (simp add: main_def Let_def split: sum.splits if_splits prod.splits) blast

lemma main_Inl:
  assumes "main rt cl = Inl (e, ev)" and "\<not> opt_save_result cl"
  shows "ev = []"
proof (cases "parse_args (float_arith rt) cl")
  case (Inl err)
  with assms(1) show ?thesis by (simp add: main_def)
next
  case (Inr a)
  with assms(2) have ns: "arg_save_result a = False"
    by (simp add: parse_args_Inr)
  from assms(1) Inr ns show ?thesis
    by (auto simp: main_def Let_def split: sum.splits if_splits prod.splits
        dest: eval_PCK_error_events)
qed

lemma parse_args_iff:
  "parse_args fl cl = Inr a \<longleftrightarrow>
     opt_model_path cl = Some (arg_model_path a) \<and>
     opt_dataset_path cl = Some (arg_dataset_path a) \<and>
     arg_classes_path a
       = (case opt_classes_path cl of None \<Rightarrow> ''configs/mpii_classes.txt'' | Some v \<Rightarrow> v) \<and>
     arg_score_threshold a
       = (case opt_score_threshold cl of None \<Rightarrow> fl_literal fl 0.5 | Some v \<Rightarrow> v) \<and>
     arg_conf_threshold a
       = (case opt_conf_threshold cl of None \<Rightarrow> fl_literal fl (1 / 1000000) | Some v \<Rightarrow> v) \<and>
     arg_model_image_size a
       = (case opt_model_image_size cl of None \<Rightarrow> ''256x256'' | Some v \<Rightarrow> v) \<and>
     arg_save_result a = opt_save_result cl \<and>
     arg_skeleton_path a = opt_skeleton_path cl"
  by (cases a) (auto simp: parse_args_def split: option.splits)

lemma parse_args_Inl_iff:
  "parse_args fl cl = Inl e \<longleftrightarrow>
     e = SystemExit \<and> (opt_model_path cl = None \<or> opt_dataset_path cl = None)"
  by (auto simp: parse_args_def split: option.splits)

lemma length_2_conv: "length xs = 2 \<longleftrightarrow> (\<exists>a b. xs = [a, b])"
  by (cases xs; cases "tl xs") auto

lemma main_Inr_iff:
  "main rt cl = Inr ev \<longleftrightarrow>
     (\<exists>a h w height width model fmt tot acc pre.
        parse_args (float_arith rt) cl = Inr a \<and>
        str_split CHR ''x'' (arg_model_image_size a) = [h, w] \<and>
        py_int rt h = Inr height \<and> py_int rt w = Inr width \<and>
        load_eval_model rt (arg_model_path a) = Inr (model, fmt) \<and>
        eval_PCK rt model fmt
          (hourglass_dataset rt (arg_dataset_path a) (get_classes rt (arg_classes_path a))
             (height, width))
          (get_classes rt (arg_classes_path a)) (arg_score_threshold a)
          (get_normalize rt (height, width)) (arg_conf_threshold a) (arg_save_result a)
          (case arg_skeleton_path a of
             None \<Rightarrow> None
           | Some path \<Rightarrow> if path = [] then None else Some (get_skeleton rt path))
          = Inr (tot, acc, pre) \<and>
        ev = pre @ [PrintLine [], PrintLine ''PCK evaluation'']
               @ map (\<lambda>(class_name, accuracy). PrintAccuracy class_name accuracy) acc
               @ [PrintTotal tot])"
  (is "?L \<longleftrightarrow> ?R")
proof
  assume ?L
  then obtain a where pa: "parse_args (float_arith rt) cl = Inr a"
    by (cases "parse_args (float_arith rt) cl") (auto simp: main_def)
  from \<open>?L\<close> pa have len: "length (str_split CHR ''x'' (arg_model_image_size a)) = 2"
    by (auto simp: main_def Let_def split: if_splits)
  then obtain h w where hw: "str_split CHR ''x'' (arg_model_image_size a) = [h, w]"
    by (auto simp: length_2_conv)
  from \<open>?L\<close> pa hw show ?R
    by (auto simp: main_def Let_def split: sum.splits prod.splits)
next
  assume ?R
  then show ?L
    by (auto simp: main_def Let_def)
qed

text \<open>
  C8: the command line consists of the eight options of the record \<open>command_line\<close>.
  The parser returns a namespace exactly when the model path and the dataset path are
  given, and exits otherwise; the namespace holds every given value, and for an option
  that is not given its default: \<open>configs/mpii_classes.txt\<close> for the class file, the
  float of 0.5 for the score threshold, the float of 1e-6 for the confidence threshold,
  \<open>256x256\<close> for the image size, false for the save-result flag and none for the
  skeleton path. A run completes exactly when the arguments are parsed, the image size
  splits at \<open>x\<close> into two integers, the model file is loaded and \<open>eval_PCK\<close> returns
  for that model, the dataset at the dataset path with the classes of the class file,
  both thresholds, the normalize value of the image size, the save-result flag and the
  skeleton lines; it then prints, after the events of the evaluation, the accuracy that
  \<open>eval_PCK\<close> returned for every class and the total accuracy it returned, whether
  results are saved or not. Without the save-result flag nothing is written, also in a
  run that ends with an exception; with it the evaluation writes one detection image
  per processed sample below \<open>result/detection\<close> and the plot \<open>result/PCK.jpg\<close>.
\<close>

theorem command_line_contract:
  "(parse_args fl cl' = Inr a \<longleftrightarrow>
      opt_model_path cl' = Some (arg_model_path a) \<and>
      opt_dataset_path cl' = Some (arg_dataset_path a) \<and>
      arg_classes_path a
        = (case opt_classes_path cl' of None \<Rightarrow> ''configs/mpii_classes.txt'' | Some v \<Rightarrow> v) \<and>
      arg_score_threshold a
        = (case opt_score_threshold cl' of None \<Rightarrow> fl_literal fl 0.5 | Some v \<Rightarrow> v) \<and>
      arg_conf_threshold a
        = (case opt_conf_threshold cl' of
             None \<Rightarrow> fl_literal fl (1 / 1000000) | Some v \<Rightarrow> v) \<and>
      arg_model_image_size a
        = (case opt_model_image_size cl' of None \<Rightarrow> ''256x256'' | Some v \<Rightarrow> v) \<and>
      arg_save_result a = opt_save_result cl' \<and>
      arg_skeleton_path a = opt_skeleton_path cl') \<and>
   (parse_args fl cl' = Inl err \<longleftrightarrow>
      err = SystemExit \<and> (opt_model_path cl' = None \<or> opt_dataset_path cl' = None)) \<and>
   parse_args fl
     \<lparr>opt_model_path = Some model_path, opt_classes_path = None,
      opt_dataset_path = Some dataset_path, opt_score_threshold = None,
      opt_conf_threshold = None, opt_model_image_size = None, opt_save_result = False,
      opt_skeleton_path = None\<rparr>
     = Inr \<lparr>arg_model_path = model_path, arg_classes_path = ''configs/mpii_classes.txt'',
            arg_dataset_path = dataset_path, arg_score_threshold = fl_literal fl 0.5,
            arg_conf_threshold = fl_literal fl (1 / 1000000),
            arg_model_image_size = ''256x256'',
            arg_save_result = False, arg_skeleton_path = None\<rparr> \<and>
   (main rt cl = Inr ev \<longleftrightarrow>
      (\<exists>args height_str width_str height width loaded_model loaded_format total_accuracy
          accuracy_dict pre.
         parse_args (float_arith rt) cl = Inr args \<and>
         str_split CHR ''x'' (arg_model_image_size args) = [height_str, width_str] \<and>
         py_int rt height_str = Inr height \<and> py_int rt width_str = Inr width \<and>
         load_eval_model rt (arg_model_path args) = Inr (loaded_model, loaded_format) \<and>
         eval_PCK rt loaded_model loaded_format
           (hourglass_dataset rt (arg_dataset_path args)
              (get_classes rt (arg_classes_path args)) (height, width))
           (get_classes rt (arg_classes_path args)) (arg_score_threshold args)
           (get_normalize rt (height, width)) (arg_conf_threshold args)
           (arg_save_result args)
           (case arg_skeleton_path args of
              None \<Rightarrow> None
            | Some path \<Rightarrow> if path = [] then None else Some (get_skeleton rt path))
           = Inr (total_accuracy, accuracy_dict, pre) \<and>
         ev = pre @ [PrintLine [], PrintLine ''PCK evaluation'']
                @ map (\<lambda>(class_name, accuracy). PrintAccuracy class_name accuracy)
                    accuracy_dict
                @ [PrintTotal total_accuracy])) \<and>
   (main rt cl = Inr ev \<longrightarrow>
      (\<exists>total_accuracy accuracy_dict pre.
         ev = pre @ [PrintLine [], PrintLine ''PCK evaluation'']
                @ map (\<lambda>(class_name, accuracy). PrintAccuracy class_name accuracy) accuracy_dict
                @ [PrintTotal total_accuracy] \<and>
         fst ` set accuracy_dict
           = set (get_classes rt
                    (case opt_classes_path cl of
                       None \<Rightarrow> ''configs/mpii_classes.txt'' | Some v \<Rightarrow> v)) \<and>
         (if opt_save_result cl
          then \<exists>images. pre = images @
                 [TouchDir ''result'',
                  SavePlot ''result/PCK.jpg'' (map fst (sort_key snd accuracy_dict))
                    (map snd (sort_key snd accuracy_dict))]
          else pre = []))) \<and>
   (\<not> opt_save_result cl \<and> main rt cl = Inl (e, ev) \<longrightarrow> ev = []) \<and>
   (eval_PCK rt model model_format eval_dataset class_names threshold normalize' conf
      save_result skeleton_lines = Inr (total_acc, accuracies, events) \<longrightarrow>
      events =
        (if save_result
         then concat (map (\<lambda>smp. [TouchDir ''result/detection'',
                SaveImage (''result/detection/'' @
                           last_path_component (mi_name (sample_metainfo smp ! 0)))])
                (generated (generator eval_dataset 1 8 1 False True) 0
                   (get_dataset_size eval_dataset))) @
              [TouchDir ''result'',
               SavePlot ''result/PCK.jpg'' (map fst (sort_key snd accuracies))
                 (map snd (sort_key snd accuracies))]
         else []))"
proof (intro conjI impI)
  show "parse_args fl cl' = Inr a \<longleftrightarrow>
      opt_model_path cl' = Some (arg_model_path a) \<and>
      opt_dataset_path cl' = Some (arg_dataset_path a) \<and>
      arg_classes_path a
        = (case opt_classes_path cl' of None \<Rightarrow> ''configs/mpii_classes.txt'' | Some v \<Rightarrow> v) \<and>
      arg_score_threshold a
        = (case opt_score_threshold cl' of None \<Rightarrow> fl_literal fl 0.5 | Some v \<Rightarrow> v) \<and>
      arg_conf_threshold a
        = (case opt_conf_threshold cl' of
             None \<Rightarrow> fl_literal fl (1 / 1000000) | Some v \<Rightarrow> v) \<and>
      arg_model_image_size a
        = (case opt_model_image_size cl' of None \<Rightarrow> ''256x256'' | Some v \<Rightarrow> v) \<and>
      arg_save_result a = opt_save_result cl' \<and>
      arg_skeleton_path a = opt_skeleton_path cl'"
    by (rule parse_args_iff)
next
  show "parse_args fl cl' = Inl err \<longleftrightarrow>
      err = SystemExit \<and> (opt_model_path cl' = None \<or> opt_dataset_path cl' = None)"
    by (rule parse_args_Inl_iff)
next
  show "parse_args fl
     \<lparr>opt_model_path = Some model_path, opt_classes_path = None,
      opt_dataset_path = Some dataset_path, opt_score_threshold = None,
      opt_conf_threshold = None, opt_model_image_size = None, opt_save_result = False,
      opt_skeleton_path = None\<rparr>
     = Inr \<lparr>arg_model_path = model_path, arg_classes_path = ''configs/mpii_classes.txt'',
            arg_dataset_path = dataset_path, arg_score_threshold = fl_literal fl 0.5,
            arg_conf_threshold = fl_literal fl (1 / 1000000),
            arg_model_image_size = ''256x256'',
            arg_save_result = False, arg_skeleton_path = None\<rparr>"
    by (simp add: parse_args_def)
next
  show "main rt cl = Inr ev \<longleftrightarrow>
      (\<exists>args height_str width_str height width loaded_model loaded_format total_accuracy
          accuracy_dict pre.
         parse_args (float_arith rt) cl = Inr args \<and>
         str_split CHR ''x'' (arg_model_image_size args) = [height_str, width_str] \<and>
         py_int rt height_str = Inr height \<and> py_int rt width_str = Inr width \<and>
         load_eval_model rt (arg_model_path args) = Inr (loaded_model, loaded_format) \<and>
         eval_PCK rt loaded_model loaded_format
           (hourglass_dataset rt (arg_dataset_path args)
              (get_classes rt (arg_classes_path args)) (height, width))
           (get_classes rt (arg_classes_path args)) (arg_score_threshold args)
           (get_normalize rt (height, width)) (arg_conf_threshold args)
           (arg_save_result args)
           (case arg_skeleton_path args of
              None \<Rightarrow> None
            | Some path \<Rightarrow> if path = [] then None else Some (get_skeleton rt path))
           = Inr (total_accuracy, accuracy_dict, pre) \<and>
         ev = pre @ [PrintLine [], PrintLine ''PCK evaluation'']
                @ map (\<lambda>(class_name, accuracy). PrintAccuracy class_name accuracy)
                    accuracy_dict
                @ [PrintTotal total_accuracy])"
    by (rule main_Inr_iff)
next
  assume "main rt cl = Inr ev"
  from main_Inr [OF this] obtain a height width model fmt tot acc pre where
    pa: "parse_args (float_arith rt) cl = Inr a" and
    ev: "eval_PCK rt model fmt
       (hourglass_dataset rt (arg_dataset_path a) (get_classes rt (arg_classes_path a))
          (height, width))
       (get_classes rt (arg_classes_path a)) (arg_score_threshold a)
       (get_normalize rt (height, width)) (arg_conf_threshold a) (arg_save_result a)
       (case arg_skeleton_path a of
          None \<Rightarrow> None
        | Some path \<Rightarrow> if path = [] then None else Some (get_skeleton rt path))
       = Inr (tot, acc, pre)" and
    out: "ev = pre @ [PrintLine [], PrintLine ''PCK evaluation'']
            @ map (\<lambda>(class_name, accuracy). PrintAccuracy class_name accuracy) acc
            @ [PrintTotal tot]"
    by blast
  note pf = parse_args_Inr [OF pa]
  from eval_PCK_events(2) [OF ev] pf have keys: "fst ` set acc
      = set (get_classes rt
               (case opt_classes_path cl of
                  None \<Rightarrow> ''configs/mpii_classes.txt'' | Some v \<Rightarrow> v))"
    by simp
  from eval_PCK_events(1) [OF ev] pf have pre: "if opt_save_result cl
      then \<exists>images. pre = images @
             [TouchDir ''result'',
              SavePlot ''result/PCK.jpg'' (map fst (sort_key snd acc))
                (map snd (sort_key snd acc))]
      else pre = []"
    by auto
  from out keys pre show "\<exists>total_accuracy accuracy_dict pre.
         ev = pre @ [PrintLine [], PrintLine ''PCK evaluation'']
                @ map (\<lambda>(class_name, accuracy). PrintAccuracy class_name accuracy) accuracy_dict
                @ [PrintTotal total_accuracy] \<and>
         fst ` set accuracy_dict
           = set (get_classes rt
                    (case opt_classes_path cl of
                       None \<Rightarrow> ''configs/mpii_classes.txt'' | Some v \<Rightarrow> v)) \<and>
         (if opt_save_result cl
          then \<exists>images. pre = images @
                 [TouchDir ''result'',
                  SavePlot ''result/PCK.jpg'' (map fst (sort_key snd accuracy_dict))
                    (map snd (sort_key snd accuracy_dict))]
          else pre = [])"
    by blast
next
  assume "\<not> opt_save_result cl \<and> main rt cl = Inl (e, ev)"
  then show "ev = []" using main_Inl by blast
next
  assume "eval_PCK rt model model_format eval_dataset class_names threshold normalize' conf
      save_result skeleton_lines = Inr (total_acc, accuracies, events)"
  then show "events =
        (if save_result
         then concat (map (\<lambda>smp. [TouchDir ''result/detection'',
                SaveImage (''result/detection/'' @
                           last_path_component (mi_name (sample_metainfo smp ! 0)))])
                (generated (generator eval_dataset 1 8 1 False True) 0
                   (get_dataset_size eval_dataset))) @
              [TouchDir ''result'',
               SavePlot ''result/PCK.jpg'' (map fst (sort_key snd accuracies))
                 (map snd (sort_key snd accuracies))]
         else [])"
    by (rule eval_PCK_events(1))
qed

theorem command_line_contract_witness:
  "parse_args demo_float (demo_command_line\<lparr>opt_score_threshold := Some (3 / 10)\<rparr>)
     = Inr \<lparr>arg_model_path = ''weights/m.h5'', arg_classes_path = ''configs/mpii_classes.txt'',
            arg_dataset_path = ''data/mpii'', arg_score_threshold = 3 / 10,
            arg_conf_threshold = 1 / 1000000, arg_model_image_size = ''256x256'',
            arg_save_result = False, arg_skeleton_path = None\<rparr> \<and>
   parse_args demo_float (demo_command_line\<lparr>opt_model_path := None\<rparr>) = Inl SystemExit \<and>
   (\<exists>args height_str width_str height width loaded_model loaded_format total_accuracy
       accuracy_dict pre.
      parse_args (float_arith demo_runtime) demo_command_line = Inr args \<and>
      str_split CHR ''x'' (arg_model_image_size args) = [height_str, width_str] \<and>
      py_int demo_runtime height_str = Inr height \<and>
      py_int demo_runtime width_str = Inr width \<and>
      load_eval_model demo_runtime (arg_model_path args) = Inr (loaded_model, loaded_format) \<and>
      eval_PCK demo_runtime loaded_model loaded_format
        (hourglass_dataset demo_runtime (arg_dataset_path args)
           (get_classes demo_runtime (arg_classes_path args)) (height, width))
        (get_classes demo_runtime (arg_classes_path args)) (arg_score_threshold args)
        (get_normalize demo_runtime (height, width)) (arg_conf_threshold args)
        (arg_save_result args)
        (case arg_skeleton_path args of
           None \<Rightarrow> None
         | Some path \<Rightarrow> if path = [] then None else Some (get_skeleton demo_runtime path))
        = Inr (total_accuracy, accuracy_dict, pre) \<and>
      [PrintLine [], PrintLine ''PCK evaluation'', PrintAccuracy ''head'' (1 / 2),
       PrintTotal (NpFloat (1 / 2))]
        = pre @ [PrintLine [], PrintLine ''PCK evaluation'']
            @ map (\<lambda>(class_name, accuracy). PrintAccuracy class_name accuracy)
                accuracy_dict
            @ [PrintTotal total_accuracy]) \<and>
   (\<exists>total_accuracy accuracy_dict pre.
      [PrintLine [], PrintLine ''PCK evaluation'', PrintAccuracy ''head'' (1 / 2),
       PrintTotal (NpFloat (1 / 2))]
        = pre @ [PrintLine [], PrintLine ''PCK evaluation'']
            @ map (\<lambda>(class_name, accuracy). PrintAccuracy class_name accuracy) accuracy_dict
            @ [PrintTotal total_accuracy] \<and>
      fst ` set accuracy_dict
        = set (get_classes demo_runtime
                 (case opt_classes_path demo_command_line of
                    None \<Rightarrow> ''configs/mpii_classes.txt'' | Some v \<Rightarrow> v)) \<and>
      (if opt_save_result demo_command_line
       then \<exists>images. pre = images @
              [TouchDir ''result'',
               SavePlot ''result/PCK.jpg'' (map fst (sort_key snd accuracy_dict))
                 (map snd (sort_key snd accuracy_dict))]
       else pre = [])) \<and>
   (\<exists>total_accuracy accuracy_dict pre.
      [TouchDir ''result/detection'', SaveImage ''result/detection/p.jpg'',
       TouchDir ''result/detection'', SaveImage ''result/detection/p.jpg'',
       TouchDir ''result/detection'', SaveImage ''result/detection/p.jpg'',
       TouchDir ''result'', SavePlot ''result/PCK.jpg'' [''head''] [1 / 2],
       PrintLine [], PrintLine ''PCK evaluation'', PrintAccuracy ''head'' (1 / 2),
       PrintTotal (NpFloat (1 / 2))]
        = pre @ [PrintLine [], PrintLine ''PCK evaluation'']
            @ map (\<lambda>(class_name, accuracy). PrintAccuracy class_name accuracy) accuracy_dict
            @ [PrintTotal total_accuracy] \<and>
      fst ` set accuracy_dict
        = set (get_classes demo_runtime
                 (case opt_classes_path (demo_command_line\<lparr>opt_save_result := True\<rparr>) of
                    None \<Rightarrow> ''configs/mpii_classes.txt'' | Some v \<Rightarrow> v)) \<and>
      (if opt_save_result (demo_command_line\<lparr>opt_save_result := True\<rparr>)
       then \<exists>images. pre = images @
              [TouchDir ''result'',
               SavePlot ''result/PCK.jpg'' (map fst (sort_key snd accuracy_dict))
                 (map snd (sort_key snd accuracy_dict))]
       else pre = [])) \<and>
   ([]::event list) = [] \<and>
   [TouchDir ''result/detection'', SaveImage ''result/detection/p.jpg'',
    TouchDir ''result/detection'', SaveImage ''result/detection/p.jpg'',
    TouchDir ''result/detection'', SaveImage ''result/detection/p.jpg'',
    TouchDir ''result'', SavePlot ''result/PCK.jpg'' [''head''] [1 / 2]]
     = (if True
        then concat (map (\<lambda>smp. [TouchDir ''result/detection'',
               SaveImage (''result/detection/'' @
                          last_path_component (mi_name (sample_metainfo smp ! 0)))])
               (generated (generator demo_dataset 1 8 1 False True) 0
                  (get_dataset_size demo_dataset))) @
             [TouchDir ''result'',
              SavePlot ''result/PCK.jpg'' (map fst (sort_key snd [(''head'', 1 / 2 :: real)]))
                (map snd (sort_key snd [(''head'', 1 / 2 :: real)]))]
        else [])"
proof -
  note T = command_line_contract
      [THEN conjunct2, THEN conjunct2, THEN conjunct2, THEN conjunct2]
  have w1: "parse_args demo_float (demo_command_line\<lparr>opt_score_threshold := Some (3 / 10)\<rparr>)
     = Inr \<lparr>arg_model_path = ''weights/m.h5'', arg_classes_path = ''configs/mpii_classes.txt'',
            arg_dataset_path = ''data/mpii'', arg_score_threshold = 3 / 10,
            arg_conf_threshold = 1 / 1000000, arg_model_image_size = ''256x256'',
            arg_save_result = False, arg_skeleton_path = None\<rparr>"
    using command_line_contract
      [where fl = demo_float
         and cl' = "demo_command_line\<lparr>opt_score_threshold := Some (3 / 10)\<rparr>"
         and a = "\<lparr>arg_model_path = ''weights/m.h5'',
                   arg_classes_path = ''configs/mpii_classes.txt'',
                   arg_dataset_path = ''data/mpii'', arg_score_threshold = 3 / 10,
                   arg_conf_threshold = 1 / 1000000, arg_model_image_size = ''256x256'',
                   arg_save_result = False, arg_skeleton_path = None\<rparr>",
       THEN conjunct1]
    by (simp add: demo_command_line_def demo_float_simps)
  have w2: "parse_args demo_float (demo_command_line\<lparr>opt_model_path := None\<rparr>)
     = Inl SystemExit"
    using command_line_contract
      [where fl = demo_float and cl' = "demo_command_line\<lparr>opt_model_path := None\<rparr>"
         and err = SystemExit, THEN conjunct2, THEN conjunct1]
    by (simp add: demo_command_line_def)
  have h5: "\<not> opt_save_result demo_command_line \<and>
      main demo_runtime_empty demo_command_line = Inl (ZeroDivisionError, [])"
    by (simp add: demo_empty_main) (simp add: demo_command_line_def)
  show ?thesis
    by (intro conjI)
      (rule w1, rule w2,
       rule command_line_contract
         [THEN conjunct2, THEN conjunct2, THEN conjunct2, THEN conjunct1, THEN iffD1,
          OF demo_main],
       rule T [THEN conjunct1, THEN mp, OF demo_main],
       rule T [THEN conjunct1, THEN mp, OF demo_main_save],
       rule T [THEN conjunct2, THEN conjunct1, THEN mp, OF h5],
       rule T [THEN conjunct2, THEN conjunct2, THEN mp, OF demo_eval_PCK_save])
qed

end
